theory Spec2Isabelle
  imports Complex_Main "HOL-Library.Word" "HOL-Library.Monad_Syntax" "HOL-Library.AList"
begin

section \<open>Frames, masks and the library calls of \<open>GUI/blur.py\<close>\<close>

text \<open>
  A video frame is a numpy array of shape (height, width, 3) with dtype uint8: a list of
  rows, each a list of BGR pixels. A mask is an array of shape (height, width) with dtype
  uint8. Python integers are \<open>int\<close>. A Python exception is the value \<open>None\<close>.
\<close>

type_synonym pixel = "8 word \<times> 8 word \<times> 8 word"
type_synonym frame = "pixel list list"
type_synonym mask = "8 word list list"
type_synonym bbox = "int \<times> int \<times> int \<times> int"

text \<open>\<open>(face_id, (x, y, w, h), confidence, frame_index)\<close>, the entries of
  \<open>self.tracked_faces\<close>; the confidence of a DeepSort track can be \<open>None\<close>.\<close>

type_synonym track = "int \<times> bbox \<times> real option \<times> int"

text \<open>A shape is the positional tuple
  \<open>(shape_type, points, mask_type, strength, color, ...)\<close>; the last component holds the
  fields from position 5 on (\<open>start_frame\<close>, \<open>end_frame\<close> when present), so that
  \<open>len(shape)\<close> is \<open>5 + length\<close> of it.\<close>

type_synonym shape =
  "string \<times> (int \<times> int) list \<times> string \<times> int \<times> (int \<times> int \<times> int) \<times> int list"

text \<open>
  The calls into OpenCV, the pose estimator and the tracker, and \<open>os.path\<close>, are
  parameters of the model. A call that raises returns \<open>None\<close>.
  \<^item> \<open>cv_GaussianBlur f k\<close> is \<open>cv2.GaussianBlur(f, (k, k), 0)\<close>;
  \<^item> \<open>cv_resize_linear f (w, h)\<close> and \<open>cv_resize_nearest f (w, h)\<close> are \<open>cv2.resize\<close>
    with \<open>INTER_LINEAR\<close> and \<open>INTER_NEAREST\<close>;
  \<^item> \<open>cv_warp f centre angle\<close> is \<open>cv2.warpAffine\<close> of \<open>f\<close> with the matrix
    \<open>cv2.getRotationMatrix2D(centre, angle, 1.0)\<close>, same canvas size;
  \<^item> \<open>cv_fillPoly m pts\<close> and \<open>cv_ellipse m centre axes start end\<close> draw with value 255;
  \<^item> \<open>face_outline (x, y, w, h)\<close> is the 36-point outline that \<open>create_face_mask\<close>
    computes in floating point for the mask shape "precise";
  \<^item> \<open>pose_and_track d f\<close> is the body of the \<open>try\<close> block of \<open>detect_faces\<close> (pose
    estimation, the padded boxes in floating point, DeepSort or the basic tracking, and
    the empty list on any exception), on the state \<open>d\<close> of the estimator and tracker;
  \<^item> \<open>pose_reset d\<close> is \<open>pose_tracker.reset()\<close> and \<open>deepsort_reset d\<close> is
    \<open>deepsort_tracker.tracker.delete_all_tracks()\<close>;
  \<^item> \<open>writer_opens path fourcc fps size\<close> is \<open>isOpened()\<close> of
    \<open>cv2.VideoWriter(path, fourcc, fps, size, isColor=True)\<close>, and
    \<open>writer_write fourcc f\<close> is False when \<open>out.write(f)\<close> raises;
  \<^item> \<open>path_basename\<close>, \<open>path_splitext\<close>, \<open>path_join\<close>, \<open>str_lower\<close> are
    \<open>os.path.basename\<close>, \<open>os.path.splitext\<close>, \<open>os.path.join\<close>, \<open>str.lower\<close>;
  \<^item> \<open>clock_elapsed n\<close> is the value of \<open>time.time() - processing_start\<close> read in the
    iteration of \<open>process_video\<close> that starts with \<open>frame_count\<close> equal to \<open>n\<close>;
  \<^item> \<open>tk_ok c\<close> is False when the Tk calls at the place \<open>c\<close> raise \<open>TclError\<close>;
  \<^item> \<open>file_write_ok path\<close> is False when opening \<open>path\<close> for writing, or
    \<open>json.dump\<close> into it, raises.
\<close>

text \<open>The places where \<open>process_video\<close> and \<open>show_current_frame\<close> call into Tk:
  \<^item> \<open>OpenProgress\<close>: the creation of the progress window, lines 1692-1707;
  \<^item> \<open>SetProgress n\<close>: \<open>progress_var.set(progress)\<close> in the iteration with
    \<open>frame_count = n\<close>, line 1734;
  \<^item> \<open>UpdateStatus n\<close>: \<open>status_label.config\<close> and \<open>progress_window.update()\<close> in that
    iteration, lines 1745-1746;
  \<^item> \<open>CloseProgress\<close>: \<open>progress_window.destroy()\<close>, line 1898;
  \<^item> \<open>ShowControls\<close>: the slider and the frame counter, lines 850-856;
  \<^item> \<open>ShowImage f\<close>: the conversion, scaling and drawing of the processed frame \<open>f\<close>,
    the overlays and the trim display, lines 871-921.\<close>

datatype tk_call =
    OpenProgress
  | SetProgress int
  | UpdateStatus int
  | CloseProgress
  | ShowControls
  | ShowImage frame

record 'd env =
  cv_GaussianBlur :: "frame \<Rightarrow> int \<Rightarrow> frame option"
  cv_resize_linear :: "frame \<Rightarrow> int \<times> int \<Rightarrow> frame option"
  cv_resize_nearest :: "frame \<Rightarrow> int \<times> int \<Rightarrow> frame option"
  cv_warp :: "frame \<Rightarrow> int \<times> int \<Rightarrow> int \<Rightarrow> frame option"
  cv_fillPoly :: "mask \<Rightarrow> (int \<times> int) list \<Rightarrow> mask option"
  cv_ellipse :: "mask \<Rightarrow> int \<times> int \<Rightarrow> int \<times> int \<Rightarrow> int \<Rightarrow> int \<Rightarrow> mask option"
  face_outline :: "bbox \<Rightarrow> (int \<times> int) list"
  pose_and_track :: "'d \<Rightarrow> frame \<Rightarrow> (int \<times> bbox \<times> real option) list \<times> 'd"
  pose_reset :: "'d \<Rightarrow> 'd"
  deepsort_reset :: "'d \<Rightarrow> 'd"
  writer_opens :: "string \<Rightarrow> string \<Rightarrow> real \<Rightarrow> int \<times> int \<Rightarrow> bool"
  writer_write :: "string \<Rightarrow> frame \<Rightarrow> bool"
  path_basename :: "string \<Rightarrow> string"
  path_splitext :: "string \<Rightarrow> string \<times> string"
  path_join :: "string \<Rightarrow> string \<Rightarrow> string"
  str_lower :: "string \<Rightarrow> string"
  clock_elapsed :: "int \<Rightarrow> real"
  tk_ok :: "tk_call \<Rightarrow> bool"
  file_write_ok :: "string \<Rightarrow> bool"

subsection \<open>numpy\<close>

text \<open>\<open>frame.shape[:2]\<close>: (height, width).\<close>

definition frame_shape :: "'a list list \<Rightarrow> int \<times> int" where
  "frame_shape f = (int (length f), (case f of [] \<Rightarrow> 0 | r # _ \<Rightarrow> int (length r)))"

text \<open>Two arrays have the same shape when their rows have the same lengths.\<close>

definition same_shape :: "'a list list \<Rightarrow> 'b list list \<Rightarrow> bool" where
  "same_shape a b = (map length a = map length b)"

text \<open>\<open>np.zeros((height, width), dtype=np.uint8)\<close> and
  \<open>np.ones((height, width), dtype=np.uint8) * 255\<close>; a negative dimension raises.\<close>

definition np_full :: "int \<Rightarrow> int \<Rightarrow> 8 word \<Rightarrow> mask option" where
  "np_full height width v =
     (if height < 0 \<or> width < 0 then None
      else Some (replicate (nat height) (replicate (nat width) v)))"

text \<open>\<open>np.where(mask[:, :, np.newaxis] == 255, a, b)\<close> for \<open>a\<close> and \<open>b\<close> of the shape
  of the mask. Arrays of different shapes raise; numpy's broadcasting of a dimension
  of size 1 is not modelled (the program builds every mask with the height and width
  of the frame).\<close>

definition np_where :: "mask \<Rightarrow> frame \<Rightarrow> frame \<Rightarrow> frame option" where
  "np_where m a b =
     (if same_shape m a \<and> same_shape m b
      then Some (map (\<lambda>(mr, ar, br). map (\<lambda>(v, p, q). if v = 255 then p else q)
                        (zip mr (zip ar br)))
                   (zip m (zip a b)))
      else None)"

text \<open>The bounds of a Python slice \<open>[start:stop]\<close> on a sequence of length \<open>n\<close>.\<close>

definition slice_index :: "nat \<Rightarrow> int \<Rightarrow> nat" where
  "slice_index n i = (if i < 0 then nat (max 0 (i + int n)) else min (nat i) n)"

definition py_slice :: "int \<Rightarrow> int \<Rightarrow> 'a list \<Rightarrow> 'a list" where
  "py_slice start stop xs =
     (let lo = slice_index (length xs) start; hi = slice_index (length xs) stop
      in take (hi - lo) (drop lo xs))"

text \<open>\<open>a[start:stop] = v\<close> on one axis: the selected positions get \<open>g\<close> applied.\<close>

definition slice_update :: "int \<Rightarrow> int \<Rightarrow> ('a \<Rightarrow> 'a) \<Rightarrow> 'a list \<Rightarrow> 'a list" where
  "slice_update start stop g xs =
     (let lo = slice_index (length xs) start; hi = slice_index (length xs) stop
      in map (\<lambda>(k, x). if lo \<le> k \<and> k < hi then g x else x) (zip [0..<length xs] xs))"

text \<open>\<open>cv2.rectangle(m, (x1, y1), (x2, y2), 255, -1)\<close>: the filled rectangle with both
  corners included, clipped to the array.\<close>

definition cv_rectangle :: "mask \<Rightarrow> int \<times> int \<Rightarrow> int \<times> int \<Rightarrow> mask" where
  "cv_rectangle m p1 p2 =
     (let x_lo = min (fst p1) (fst p2); x_hi = max (fst p1) (fst p2);
          y_lo = min (snd p1) (snd p2); y_hi = max (snd p1) (snd p2)
      in map (\<lambda>(y, row).
            map (\<lambda>(x, v). if x_lo \<le> int x \<and> int x \<le> x_hi \<and> y_lo \<le> int y \<and> int y \<le> y_hi
                           then 255 else v)
                (zip [0..<length row] row))
          (zip [0..<length m] m))"

section \<open>The effect applicator\<close>

text \<open>\<open>colored_mask[:] = color\<close> stores the components as uint8. (The parameter
  \<open>mask\<close> of the source is written \<open>msk\<close>.)\<close>

definition color_pixel :: "int \<times> int \<times> int \<Rightarrow> pixel" where
  "color_pixel c = (case c of (b, g, r) \<Rightarrow> (word_of_int b, word_of_int g, word_of_int r))"

definition apply_mask_effect ::
  "'d env \<Rightarrow> frame \<Rightarrow> mask \<Rightarrow> string \<Rightarrow> int \<Rightarrow> int \<times> int \<times> int \<Rightarrow> frame option" where
  "apply_mask_effect cv frame msk mask_type blur_strength color =
     (let result = frame in
      if mask_type = ''blur'' then
        (let blur_strength = (if blur_strength mod 2 = 0 then blur_strength + 1
                              else blur_strength)
         in case cv_GaussianBlur cv frame blur_strength of
              None \<Rightarrow> None
            | Some blurred \<Rightarrow> np_where msk blurred result)
      else if mask_type = ''pixelate'' then
        (let scale = max 1 (blur_strength div 10)
         in case cv_resize_linear cv frame
                   (snd (frame_shape frame) div scale, fst (frame_shape frame) div scale) of
              None \<Rightarrow> None
            | Some temp \<Rightarrow>
                (case cv_resize_nearest cv temp
                        (snd (frame_shape frame), fst (frame_shape frame)) of
                   None \<Rightarrow> None
                 | Some pixelated \<Rightarrow> np_where msk pixelated result))
      else if mask_type = ''solid'' then
        (let colored_mask = map (map (\<lambda>_. color_pixel color)) frame
         in np_where msk colored_mask result)
      else if mask_type = ''black'' then
        np_where msk (map (map (\<lambda>_. (0, 0, 0))) frame) result
      else Some result)"


section \<open>The state of the application\<close>

text \<open>The attributes of \<open>VideoBlurApp\<close> that the compositor, the export and the drawing
  handlers read or write. A Tk variable is the value its \<open>get()\<close> returns. \<open>tracker\<close> is
  the state inside \<open>self.pose_tracker\<close> and \<open>self.deepsort_tracker\<close>.\<close>

record 'd app =
  input_video :: "string option"
  output_path :: "string option"
  shapes :: "shape list"
  auto_detect_faces :: bool
  current_frame :: "frame option"
  frame_index :: int
  total_frames :: int
  drawing :: bool
  current_shape :: "(int \<times> int) list"
  current_shape_type :: string
  blur_strength :: int
  mask_type :: string
  mask_shape :: string
  mask_color :: "int \<times> int \<times> int"
  mask_type_var :: string
  blur_entire_video :: bool
  start_frame :: int
  end_frame :: int
  crop_enabled :: bool
  crop_x :: int
  crop_y :: int
  crop_width :: int
  crop_height :: int
  drawing_crop :: bool
  crop_type :: string
  crop_mask_type :: string
  crop_all_frames :: bool
  crop_start_frame :: int
  crop_end_frame :: int
  rotation_angle :: int
  rotation_enabled :: bool
  trim_enabled :: bool
  trim_start_frame :: int
  trim_end_frame :: int
  rtmpose_initialized :: bool
  has_deepsort :: bool
  tracked_faces :: "track list"
  detection_frequency :: int
  tracker :: 'd

section \<open>Rotation, face detection and the face mask\<close>

definition rotate_frame :: "'d env \<Rightarrow> frame \<Rightarrow> int \<Rightarrow> frame option" where
  "rotate_frame cv frame angle =
     (if angle = 0 then Some frame
      else (let (height, width) = frame_shape frame;
                center = (width div 2, height div 2)
            in cv_warp cv frame center angle))"

text \<open>\<open>detect_faces\<close> returns the tracks, each stamped with \<open>self.frame_index\<close>; the
  second component is the state of the estimator and tracker after the call.\<close>

definition detect_faces :: "'d env \<Rightarrow> 'd app \<Rightarrow> frame \<Rightarrow> track list \<times> 'd" where
  "detect_faces cv s frame =
     (if \<not> rtmpose_initialized s then ([], tracker s)
      else (let (found, d) = pose_and_track cv (tracker s) frame
            in (map (\<lambda>(track_id, box, conf). (track_id, box, conf, frame_index s)) found, d)))"

text \<open>The loop of \<open>create_face_mask\<close> over \<open>self.tracked_faces\<close>, drawing into one mask.\<close>

fun draw_faces :: "'d env \<Rightarrow> string \<Rightarrow> track list \<Rightarrow> mask \<Rightarrow> mask option" where
  "draw_faces cv shape_name [] m = Some m"
| "draw_faces cv shape_name ((face_id, (x, y, w, h), confidence, uu) # rest) m =
     (if shape_name = ''rectangle'' then
        draw_faces cv shape_name rest (cv_rectangle m (x, y) (x + w, y + h))
      else if shape_name = ''oval'' then
        (let center = (x + w div 2, y + h div 2);
             axes = (w div 2, h div 2)
         in case cv_ellipse cv m center axes 0 360 of
              None \<Rightarrow> None
            | Some m1 \<Rightarrow>
                (let forehead_center = (fst center, y + h div 4);
                     forehead_size = (w div 2, h div 2)
                 in case cv_ellipse cv m1 forehead_center forehead_size 0 180 of
                      None \<Rightarrow> None
                    | Some m2 \<Rightarrow> draw_faces cv shape_name rest m2))
      else if shape_name = ''precise'' then
        (case cv_fillPoly cv m (face_outline cv (x, y, w, h)) of
           None \<Rightarrow> None
         | Some m1 \<Rightarrow> draw_faces cv shape_name rest m1)
      else draw_faces cv shape_name rest m)"

definition create_face_mask :: "'d env \<Rightarrow> 'd app \<Rightarrow> frame \<Rightarrow> mask option" where
  "create_face_mask cv s frame =
     (let (height, width) = frame_shape frame
      in case np_full height width 0 of
           None \<Rightarrow> None
         | Some m \<Rightarrow> draw_faces cv (mask_shape s) (tracked_faces s) m)"

section \<open>The manual shapes\<close>

text \<open>The mask of one shape, the same statements in \<open>process_frame\<close> (lines 958-971) and
  in \<open>process_video\<close> (lines 1807-1819). A rectangle reads \<open>points[0]\<close> and
  \<open>points[1]\<close>, which raises on a shorter list.\<close>

definition draw_shape_mask ::
  "'d env \<Rightarrow> int \<times> int \<Rightarrow> string \<Rightarrow> (int \<times> int) list \<Rightarrow> mask option" where
  "draw_shape_mask cv hw shape_type points =
     (case np_full (fst hw) (snd hw) 0 of
        None \<Rightarrow> None
      | Some shape_mask \<Rightarrow>
          if shape_type = ''rectangle'' then
            (case points of
               (x1, y1) # (x2, y2) # _ \<Rightarrow>
                 (let x_min = min x1 x2; x_max = max x1 x2;
                      y_min = min y1 y2; y_max = max y1 y2
                  in Some (cv_rectangle shape_mask (x_min, y_min) (x_max, y_max)))
             | _ \<Rightarrow> None)
          else if shape_type = ''polygon'' \<or> shape_type = ''freehand'' then
            cv_fillPoly cv shape_mask points
          else Some shape_mask)"

text \<open>\<open>len(shape)\<close>, \<open>shape[5]\<close> and \<open>shape[6]\<close>.\<close>

definition len_shape :: "shape \<Rightarrow> nat" where
  "len_shape shape = (case shape of (t, p, m, k, c, extra) \<Rightarrow> 5 + length extra)"

definition shape_start :: "shape \<Rightarrow> int" where
  "shape_start shape = (case shape of (t, p, m, k, c, extra) \<Rightarrow> extra ! 0)"

definition shape_end :: "shape \<Rightarrow> int" where
  "shape_end shape = (case shape of (t, p, m, k, c, extra) \<Rightarrow> extra ! 1)"

text \<open>The loop over \<open>self.shapes\<close>; \<open>idx\<close> is \<open>self.frame_index\<close> in \<open>process_frame\<close>
  and \<open>current_frame_idx\<close> in \<open>process_video\<close>, \<open>hw\<close> is the (height, width) of the
  masks. A shape of seven or more fields is skipped outside its range.\<close>

fun apply_shapes ::
  "'d env \<Rightarrow> int \<Rightarrow> int \<times> int \<Rightarrow> shape list \<Rightarrow> frame \<Rightarrow> frame option" where
  "apply_shapes cv idx hw [] result = Some result"
| "apply_shapes cv idx hw (shape # rest) result =
     (if len_shape shape \<ge> 7 \<and> (idx < shape_start shape \<or> idx > shape_end shape)
      then apply_shapes cv idx hw rest result
      else (let (shape_type, points, mask_type, strength, color, extra) = shape
            in case draw_shape_mask cv hw shape_type points of
                 None \<Rightarrow> None
               | Some shape_mask \<Rightarrow>
                   (case apply_mask_effect cv result shape_mask mask_type strength color of
                      None \<Rightarrow> None
                    | Some result' \<Rightarrow> apply_shapes cv idx hw rest result')))"


section \<open>The preview path: \<open>process_frame\<close>\<close>

text \<open>The face stage of \<open>process_frame\<close>, lines 938-947: \<open>frame\<close> is the argument of
  \<open>process_frame\<close>, \<open>result\<close> the frame composited so far. It leaves the refreshed tracks
  in \<open>self.tracked_faces\<close>. The remainder \<open>%\<close> raises on a zero frequency, before \<open>or\<close>
  looks at the tracks.\<close>

definition preview_faces ::
  "'d env \<Rightarrow> 'd app \<Rightarrow> frame \<Rightarrow> frame \<Rightarrow> (frame \<times> 'd app) option" where
  "preview_faces cv s frame result =
     (if auto_detect_faces s \<and> rtmpose_initialized s then
        (if detection_frequency s = 0 then None
         else do {
           let s = (if frame_index s mod detection_frequency s = 0 \<or> tracked_faces s = []
                    then (let (faces, d) = detect_faces cv s frame
                          in s\<lparr>tracked_faces := faces, tracker := d\<rparr>)
                    else s);
           if tracked_faces s \<noteq> [] then do {
             face_mask \<leftarrow> create_face_mask cv s frame;
             result \<leftarrow> apply_mask_effect cv result face_mask (mask_type s)
                         (blur_strength s) (mask_color s);
             Some (result, s) }
           else Some (result, s) })
      else Some (result, s))"

text \<open>The crop stage of \<open>process_frame\<close>, lines 976-994.\<close>

definition preview_crop :: "'d env \<Rightarrow> 'd app \<Rightarrow> frame \<Rightarrow> frame \<Rightarrow> frame option" where
  "preview_crop cv s frame result =
     (if crop_enabled s \<and> crop_width s > 0 \<and> crop_height s > 0 then
        (if crop_type s = ''mask'' then do {
           let (height, width) = frame_shape frame;
           crop_mask \<leftarrow> np_full height width 255;
           let (x, y) = (crop_x s, crop_y s);
           let (w, h) = (crop_width s, crop_height s);
           let crop_mask = slice_update y (y + h) (slice_update x (x + w) (\<lambda>_. 0)) crop_mask;
           apply_mask_effect cv result crop_mask (crop_mask_type s)
             (blur_strength s) (mask_color s) }
         else Some result)
      else Some result)"

text \<open>\<open>process_frame\<close> returns the composited frame; the second component is the
  application with the tracks the face stage left.\<close>

definition process_frame :: "'d env \<Rightarrow> 'd app \<Rightarrow> frame \<Rightarrow> (frame \<times> 'd app) option" where
  "process_frame cv s frame = do {
     let result = frame;
     result \<leftarrow> (if rotation_enabled s \<and> rotation_angle s \<noteq> 0
                then rotate_frame cv result (rotation_angle s) else Some result);
     (result, s) \<leftarrow> preview_faces cv s frame result;
     result \<leftarrow> apply_shapes cv (frame_index s) (frame_shape frame) (shapes s) result;
     result \<leftarrow> preview_crop cv s frame result;
     Some (result, s) }"

section \<open>The export path: \<open>process_video\<close>\<close>

subsection \<open>Face telemetry\<close>

text \<open>\<open>face_tracking_data\<close>: the dictionary \<open>"frames"\<close> from \<open>str(current_frame_idx)\<close>
  to the faces of that frame, each \<open>(face_id, bbox, confidence)\<close>, and the dictionary
  \<open>"faces"\<close> from \<open>str(face_id)\<close> to the record of that face. A dictionary is the
  list of its items in insertion order. \<open>str\<close> is one-to-one on the integers, so the
  keys are the integers themselves.\<close>

record face_entry =
  frames :: "int list"
  bbox :: "int list"
  confidence :: real

record face_tracking =
  video_file :: string
  ftd_frames :: "(int \<times> (int \<times> int list \<times> real) list) list"
  ftd_faces :: "(int \<times> face_entry) list"

text \<open>The loop over \<open>self.tracked_faces\<close> at lines 1764-1782.\<close>

fun store_faces ::
  "int \<Rightarrow> track list \<Rightarrow> (int \<times> int list \<times> real) list \<times> (int \<times> face_entry) list
     \<Rightarrow> (int \<times> int list \<times> real) list \<times> (int \<times> face_entry) list" where
  "store_faces current_frame_idx [] acc = acc"
| "store_faces current_frame_idx (t # rest) acc =
     (let (frame_faces, faces) = acc;
          (face_id, (x, y, w, h), confidence, uu) = t;
          conf = (case confidence of Some c \<Rightarrow> c | None \<Rightarrow> 0);
          face_data = (face_id, [x, y, w, h], conf);
          frame_faces = frame_faces @ [face_data];
          faces =
            (case map_of faces face_id of
               None \<Rightarrow>
                 AList.update face_id
                   \<lparr>frames = [current_frame_idx], bbox = [x, y, w, h], confidence = conf\<rparr>
                   faces
             | Some e \<Rightarrow>
                 AList.update face_id
                   (e\<lparr>frames := frames e @ [current_frame_idx], bbox := [x, y, w, h]\<rparr>)
                   faces)
      in store_faces current_frame_idx rest (frame_faces, faces))"

subsection \<open>The body of the frame loop\<close>

text \<open>The face stage, lines 1755-1794, for the frame read at \<open>current_frame_idx\<close>, the
  \<open>frame_count\<close>-th frame of the run.\<close>

definition export_faces ::
  "'d env \<Rightarrow> 'd app \<Rightarrow> int \<Rightarrow> int \<Rightarrow> frame \<Rightarrow> frame \<Rightarrow> face_tracking
     \<Rightarrow> (frame \<times> 'd app \<times> face_tracking) option" where
  "export_faces cv s current_frame_idx frame_count frame result_frame face_tracking_data =
     (if auto_detect_faces s \<and> rtmpose_initialized s then
        (if detection_frequency s = 0 then None
         else do {
           let s = (if frame_count mod detection_frequency s = 0 \<or> tracked_faces s = []
                    then (let (faces, d) = detect_faces cv s frame
                          in s\<lparr>tracked_faces := faces, tracker := d\<rparr>)
                    else s);
           if tracked_faces s \<noteq> [] then do {
             let (frame_faces, faces) =
                   store_faces current_frame_idx (tracked_faces s)
                     ([], ftd_faces face_tracking_data);
             let face_tracking_data = face_tracking_data
                   \<lparr>ftd_faces := faces,
                    ftd_frames := AList.update current_frame_idx frame_faces
                                    (ftd_frames face_tracking_data)\<rparr>;
             face_mask \<leftarrow> create_face_mask cv s frame;
             result_frame \<leftarrow> apply_mask_effect cv result_frame face_mask (mask_type s)
                               (blur_strength s) (mask_color s);
             Some (result_frame, s, face_tracking_data) }
           else Some (result_frame, s, face_tracking_data) })
      else Some (result_frame, s, face_tracking_data))"

text \<open>The crop stage, lines 1826-1870; \<open>wh\<close> is the (width, height) read from the capture
  before the loop.\<close>

definition export_crop :: "'d env \<Rightarrow> 'd app \<Rightarrow> int \<times> int \<Rightarrow> int \<Rightarrow> frame \<Rightarrow> frame option" where
  "export_crop cv s wh current_frame_idx result_frame =
     (let (width, height) = wh
      in if crop_enabled s \<and> crop_width s > 0 \<and> crop_height s > 0 then
           (let frame_in_crop_range =
                  (if \<not> crop_all_frames s
                   then crop_start_frame s \<le> current_frame_idx
                        \<and> current_frame_idx \<le> crop_end_frame s
                   else True)
            in if frame_in_crop_range then
                 (if crop_type s = ''traditional'' then
                    (let (x, y) = (crop_x s, crop_y s);
                         (w, h) = (crop_width s, crop_height s);
                         x = max 0 (min x (width - 1));
                         y = max 0 (min y (height - 1));
                         w = min w (width - x);
                         h = min h (height - y)
                     in Some (map (py_slice x (x + w)) (py_slice y (y + h) result_frame)))
                  else do {
                    crop_mask \<leftarrow> np_full height width 255;
                    let (x, y) = (crop_x s, crop_y s);
                    let (w, h) = (crop_width s, crop_height s);
                    let x = max 0 (min x (width - 1));
                    let y = max 0 (min y (height - 1));
                    let w = min w (width - x);
                    let h = min h (height - y);
                    let crop_mask =
                          slice_update y (y + h) (slice_update x (x + w) (\<lambda>_. 0)) crop_mask;
                    apply_mask_effect cv result_frame crop_mask (crop_mask_type s)
                      (blur_strength s) (mask_color s) })
               else Some result_frame)
         else Some result_frame)"

text \<open>Lines 1748-1870: rotation, faces, manual shapes, crop.\<close>

definition process_video_frame ::
  "'d env \<Rightarrow> int \<times> int \<Rightarrow> int \<Rightarrow> int \<Rightarrow> frame \<Rightarrow> 'd app \<times> face_tracking
     \<Rightarrow> (frame \<times> 'd app \<times> face_tracking) option" where
  "process_video_frame cv wh current_frame_idx frame_count frame st = do {
     let (width, height) = wh;
     let (s, face_tracking_data) = st;
     result_frame \<leftarrow> (if rotation_enabled s \<and> rotation_angle s \<noteq> 0
                      then rotate_frame cv frame (rotation_angle s) else Some frame);
     (result_frame, s, face_tracking_data) \<leftarrow>
       export_faces cv s current_frame_idx frame_count frame result_frame face_tracking_data;
     result_frame \<leftarrow> apply_shapes cv current_frame_idx (height, width) (shapes s) result_frame;
     result_frame \<leftarrow> export_crop cv s wh current_frame_idx result_frame;
     Some (result_frame, s, face_tracking_data) }"

subsection \<open>The encoder\<close>

text \<open>A \<open>cv2.VideoWriter\<close>: the codec it was constructed with and whether it opened.\<close>

record writer =
  fourcc :: string
  isOpened :: bool

text \<open>\<open>codec_map\<close>, the dictionary from extension to preferred codec.\<close>

definition codec_map :: "string \<rightharpoonup> string" where
  "codec_map =
     [''.mp4'' \<mapsto> ''avc1'', ''.avi'' \<mapsto> ''XVID'', ''.mov'' \<mapsto> ''avc1'',
      ''.mkv'' \<mapsto> ''XVID'', ''.wmv'' \<mapsto> ''WMV2'']"

text \<open>The fallback loop of \<open>get_video_writer\<close>. The second component lists the codecs a
  writer was constructed with, in order.\<close>

fun try_fallbacks ::
  "'d env \<Rightarrow> string \<Rightarrow> real \<Rightarrow> int \<times> int \<Rightarrow> string \<Rightarrow> string list
     \<Rightarrow> writer \<times> string list \<Rightarrow> writer \<times> string list" where
  "try_fallbacks cv path fps dims fourcc_str [] acc = acc"
| "try_fallbacks cv path fps dims fourcc_str (codec # rest) acc =
     (if codec = fourcc_str then try_fallbacks cv path fps dims fourcc_str rest acc
      else (let out = \<lparr>fourcc = codec, isOpened = writer_opens cv path codec fps dims\<rparr>;
                tried = snd acc @ [codec]
            in if isOpened out then (out, tried)
               else try_fallbacks cv path fps dims fourcc_str rest (out, tried)))"

definition get_video_writer ::
  "'d env \<Rightarrow> string \<Rightarrow> int \<Rightarrow> int \<Rightarrow> real \<Rightarrow> writer \<times> string list" where
  "get_video_writer cv path width height fps =
     (let ext = str_lower cv (snd (path_splitext cv path));
          fourcc_str = (case codec_map ext of Some c \<Rightarrow> c | None \<Rightarrow> ''avc1'');
          out = \<lparr>fourcc = fourcc_str,
                 isOpened = writer_opens cv path fourcc_str fps (width, height)\<rparr>
      in if \<not> isOpened out
         then try_fallbacks cv path fps (width, height) fourcc_str
                [''mp4v'', ''XVID'', ''avc1'', ''H264''] (out, [fourcc_str])
         else (out, [fourcc_str]))"

subsection \<open>The frame loop\<close>

text \<open>The opened capture \<open>self.cap\<close>: its properties and, for each position, the frame
  that \<open>read()\<close> returns there (\<open>None\<close> when \<open>ret\<close> is False).\<close>

record capture =
  cap_fps :: real
  cap_width :: int
  cap_height :: int
  cap_read :: "int \<Rightarrow> frame option"

text \<open>What a frame body that raises has assigned to \<open>self\<close> before: the refreshed
  tracks, when control reached the assignment \<open>self.tracked_faces = ...\<close> (line 942 in
  \<open>process_frame\<close>, with \<open>counter\<close> the frame index; line 1759 in \<open>process_video\<close>, with
  \<open>counter\<close> the frame count), that is, when the rotation returned, detection is
  active, the frequency is not zero and a refresh is due.\<close>

definition self_after_raise :: "'d env \<Rightarrow> 'd app \<Rightarrow> int \<Rightarrow> frame \<Rightarrow> 'd app" where
  "self_after_raise cv s counter frame =
     (if rotation_enabled s \<and> rotation_angle s \<noteq> 0
         \<and> rotate_frame cv frame (rotation_angle s) = None then s
      else if auto_detect_faces s \<and> rtmpose_initialized s \<and> detection_frequency s \<noteq> 0
              \<and> (counter mod detection_frequency s = 0 \<or> tracked_faces s = [])
      then (let (faces, d) = detect_faces cv s frame
            in s\<lparr>tracked_faces := faces, tracker := d\<rparr>)
      else s)"

text \<open>The progress report at the head of an iteration, lines 1732-1746; False when one
  of its statements raises: the division by \<open>total_frames\<close>, \<open>progress_var.set\<close>, and,
  in every tenth iteration, the division by the elapsed time, \<open>status_label.config\<close>
  and \<open>progress_window.update()\<close>. \<open>n_total\<close> is the local \<open>total_frames\<close>.\<close>

definition report_progress :: "'d env \<Rightarrow> int \<Rightarrow> int \<Rightarrow> bool" where
  "report_progress cv n_total n =
     (n_total \<noteq> 0 \<and> tk_ok cv (SetProgress n)
      \<and> (n mod 10 = 0 \<longrightarrow> clock_elapsed cv n \<noteq> 0 \<and> tk_ok cv (UpdateStatus n)))"

text \<open>The variables of the loop. \<open>cap_pos\<close> is the position of the capture,
  \<open>write_calls\<close> the frames given to \<open>out.write\<close>, in order, \<open>written\<close> those of them that
  \<open>out.write\<close> took without raising, \<open>raised\<close> whether an exception left the loop.\<close>

record 'd loop_state =
  self :: "'d app"
  cap_pos :: int
  current_frame_idx :: int
  frame_count :: int
  errors :: int
  write_calls :: "frame list"
  written :: "frame list"
  face_tracking_data :: face_tracking
  raised :: bool

text \<open>The loop, lines 1726-1880; \<open>n_total\<close> is the local \<open>total_frames\<close>.\<close>

function export_loop ::
  "'d env \<Rightarrow> capture \<Rightarrow> writer \<Rightarrow> int \<times> int \<Rightarrow> int \<Rightarrow> int \<Rightarrow> 'd loop_state
     \<Rightarrow> 'd loop_state" where
  "export_loop cv cap out wh n_total last_frame st =
     (if current_frame_idx st \<le> last_frame then
        (case cap_read cap (cap_pos st) of
           None \<Rightarrow> st
         | Some frame \<Rightarrow>
             if \<not> report_progress cv n_total (frame_count st) then
               st\<lparr>cap_pos := cap_pos st + 1, raised := True\<rparr>
             else
               (case process_video_frame cv wh (current_frame_idx st) (frame_count st) frame
                       (self st, face_tracking_data st) of
                  None \<Rightarrow>
                    st\<lparr>self := self_after_raise cv (self st) (frame_count st) frame,
                       cap_pos := cap_pos st + 1, raised := True\<rparr>
                | Some (result_frame, s, ftd) \<Rightarrow>
                    (let ok = writer_write cv (fourcc out) result_frame
                     in export_loop cv cap out wh n_total last_frame
                          (st\<lparr>self := s,
                              cap_pos := cap_pos st + 1,
                              face_tracking_data := ftd,
                              write_calls := write_calls st @ [result_frame],
                              written := (if ok then written st @ [result_frame]
                                          else written st),
                              errors := (if ok then errors st else errors st + 1),
                              current_frame_idx := current_frame_idx st + 1,
                              frame_count := frame_count st + 1\<rparr>))))
      else st)"
  by pat_completeness auto
termination
  by (relation "measure (\<lambda>(cv, cap, out, wh, n_total, last_frame, st).
                  nat (last_frame + 1 - current_frame_idx st))") auto

declare export_loop.simps [simp del]

subsection \<open>\<open>process_video\<close>\<close>

text \<open>The texts given to \<open>self.status_text.set\<close> by \<open>process_video\<close> and by
  \<open>show_current_frame\<close>; the elapsed time in them is left out. \<open>FrameStatus i n a f\<close> is
  "Frame i/n | Active shapes: a | Faces: f".\<close>

datatype status =
    SelectInputAndOutput
  | FailedToCreateOutput
  | FaceDataSaved string
  | ErrorDuringProcessing
  | CompletedWithErrors int string
  | Completed string
  | FailedToReadFrame
  | FrameStatus int int nat nat

text \<open>What a call of \<open>process_video\<close> leaves: the application state, the status texts
  in the order they were set, the codecs tried, the encoder constructed last, whether
  \<open>out.release()\<close> was called, the loop variables after the loop (when the loop was
  reached), whether an exception was raised inside the \<open>try\<close> block, the JSON file
  written (path and content), and whether an exception left \<open>process_video\<close>.\<close>

record 'd outcome =
  final_self :: "'d app"
  status_log :: "status list"
  codecs_tried :: "string list"
  encoder :: "writer option"
  encoder_released :: bool
  loop_end :: "'d loop_state option"
  try_raised :: bool
  json_saved :: "(string \<times> face_tracking) option"
  escaped :: bool

text \<open>The frame range, lines 1674-1683.\<close>

definition frame_range :: "'d app \<Rightarrow> int \<times> int" where
  "frame_range s =
     (if trim_enabled s then (trim_start_frame s, trim_end_frame s)
      else if \<not> blur_entire_video s then (start_frame s, end_frame s)
      else (0, total_frames s - 1))"

text \<open>Lines 1685-1722: the empty telemetry, the reset of the trackers, the seek to
  the first frame of the range, and the loop variables at their initial values.\<close>

definition loop_start :: "'d env \<Rightarrow> 'd app \<Rightarrow> string \<Rightarrow> 'd loop_state" where
  "loop_start cv s video =
     (let (first_frame, last_frame) = frame_range s;
          ftd0 = \<lparr>video_file = video, ftd_frames = [], ftd_faces = []\<rparr>;
          d1 = (if rtmpose_initialized s then pose_reset cv (tracker s) else tracker s);
          d2 = (if has_deepsort s then deepsort_reset cv d1 else d1)
      in \<lparr>self = s\<lparr>tracker := d2\<rparr>, cap_pos = first_frame,
          current_frame_idx = first_frame, frame_count = 0, errors = 0,
          write_calls = [], written = [], face_tracking_data = ftd0, raised = False\<rparr>)"

text \<open>\<open>show_current_frame\<close>, lines 844-928, on the opened capture: the state it leaves,
  the status texts it sets, and whether it raised. It seeks to \<open>self.frame_index\<close>,
  reads, keeps the frame in \<open>self.current_frame\<close>, runs \<open>process_frame\<close>, draws, and
  sets the status line with the count of the shapes active on the frame.\<close>

definition show_current_frame ::
  "'d env \<Rightarrow> capture \<Rightarrow> 'd app \<Rightarrow> 'd app \<times> status list \<times> bool" where
  "show_current_frame cv cap s =
     (if \<not> tk_ok cv ShowControls then (s, [], True)
      else case cap_read cap (frame_index s) of
             None \<Rightarrow> (s, [FailedToReadFrame], False)
           | Some frame \<Rightarrow>
               (let s = s\<lparr>current_frame := Some frame\<rparr>
                in case process_frame cv s frame of
                     None \<Rightarrow> (self_after_raise cv s (frame_index s) frame, [], True)
                   | Some (processed, s) \<Rightarrow>
                       if \<not> tk_ok cv (ShowImage processed) then (s, [], True)
                       else
                         (let active_shapes =
                                length (filter (\<lambda>sh. len_shape sh < 7
                                                  \<or> (shape_start sh \<le> frame_index s
                                                      \<and> frame_index s \<le> shape_end sh))
                                          (shapes s))
                          in (s, [FrameStatus (frame_index s + 1) (total_frames s)
                                    active_shapes (length (tracked_faces s))], False))))"

text \<open>Lines 1674-1912, once the encoder \<open>out\<close> has opened. An exception at the creation
  of the progress window leaves \<open>process_video\<close> before the \<open>try\<close>, with the encoder not
  released. Inside the \<open>try\<close> are the frame loop and the writing of the JSON file; the
  \<open>except\<close> branch sets the error status. The \<open>finally\<close> block releases the encoder,
  destroys the progress window, sets the completion status, resets \<open>self.frame_index\<close>
  and calls \<open>show_current_frame()\<close>; an exception there leaves \<open>process_video\<close>.\<close>

definition export_frames ::
  "'d env \<Rightarrow> capture \<Rightarrow> 'd app \<Rightarrow> string \<Rightarrow> string \<Rightarrow> string \<Rightarrow> string \<Rightarrow> writer
     \<Rightarrow> string list \<Rightarrow> 'd outcome" where
  "export_frames cv cap s video out_dir base_name out_path out tried =
     (let (first_frame, last_frame) = frame_range s
      in if \<not> tk_ok cv OpenProgress then
           \<lparr>final_self = s, status_log = [], codecs_tried = tried, encoder = Some out,
            encoder_released = False, loop_end = None, try_raised = False,
            json_saved = None, escaped = True\<rparr>
         else
           (let n_total = last_frame - first_frame + 1;
                st = export_loop cv cap out (cap_width cap, cap_height cap) n_total last_frame
                       (loop_start cv s video);
                save = (\<not> raised st \<and> auto_detect_faces (self st)
                        \<and> rtmpose_initialized (self st)
                        \<and> ftd_faces (face_tracking_data st) \<noteq> []);
                json_path = path_join cv out_dir (base_name @ ''_faces.json'');
                saved = (save \<and> file_write_ok cv json_path);
                failed = (raised st \<or> (save \<and> \<not> file_write_ok cv json_path));
                log1 = (if failed then [ErrorDuringProcessing]
                        else if save then [FaceDataSaved json_path] else []);
                log2 = (if errors st > 0 then [CompletedWithErrors (errors st) out_path]
                        else [Completed out_path]);
                (s_shown, log3, show_raised) =
                  show_current_frame cv cap ((self st)\<lparr>frame_index := 0\<rparr>)
            in if \<not> tk_ok cv CloseProgress then
                 \<lparr>final_self = self st, status_log = log1, codecs_tried = tried,
                  encoder = Some out, encoder_released = True, loop_end = Some st,
                  try_raised = failed,
                  json_saved = (if saved then Some (json_path, face_tracking_data st)
                                else None),
                  escaped = True\<rparr>
               else
                 \<lparr>final_self = s_shown, status_log = log1 @ log2 @ log3,
                  codecs_tried = tried, encoder = Some out, encoder_released = True,
                  loop_end = Some st, try_raised = failed,
                  json_saved = (if saved then Some (json_path, face_tracking_data st)
                                else None),
                  escaped = show_raised\<rparr>))"

text \<open>\<open>process_video\<close>, lines 1640-1672, up to the check of the encoder.\<close>

definition process_video :: "'d env \<Rightarrow> capture \<Rightarrow> 'd app \<Rightarrow> 'd outcome" where
  "process_video cv cap s =
     (case (input_video s, output_path s) of
        (Some video, Some out_dir) \<Rightarrow>
          (let input_filename = path_basename cv video;
               (base_name, ext) = path_splitext cv input_filename;
               output_filename = ''processed_'' @ base_name @ ext;
               out_path = path_join cv out_dir output_filename;
               fps = cap_fps cap;
               width = cap_width cap;
               height = cap_height cap;
               (output_width, output_height) =
                 (if crop_enabled s \<and> crop_width s > 0 \<and> crop_height s > 0
                     \<and> crop_type s = ''traditional''
                  then (crop_width s, crop_height s) else (width, height));
               (out, tried) = get_video_writer cv out_path output_width output_height fps
           in if \<not> isOpened out then
                \<lparr>final_self = s, status_log = [FailedToCreateOutput], codecs_tried = tried,
                 encoder = Some out, encoder_released = False, loop_end = None,
                 try_raised = False, json_saved = None, escaped = False\<rparr>
              else export_frames cv cap s video out_dir base_name out_path out tried)
      | _ \<Rightarrow>
          \<lparr>final_self = s, status_log = [SelectInputAndOutput], codecs_tried = [],
           encoder = None, encoder_released = False, loop_end = None,
           try_raised = False, json_saved = None, escaped = False\<rparr>)"

section \<open>The drawing handlers\<close>

text \<open>\<open>on_mouse_up\<close>: \<open>p\<close> is the pointer in image coordinates, as \<open>canvas_to_img\<close>
  returns it, and \<open>hw\<close> the (height, width) of \<open>self.current_frame\<close>.\<close>

definition on_mouse_up :: "'d app \<Rightarrow> int \<times> int \<Rightarrow> int \<times> int \<Rightarrow> 'd app" where
  "on_mouse_up s p hw =
     (if \<not> drawing s \<and> \<not> drawing_crop s then s
      else (let (x, y) = p;
                (img_h, img_w) = hw;
                x = max 0 (min x (img_w - 1));
                y = max 0 (min y (img_h - 1))
            in if drawing_crop s then
                 s\<lparr>drawing_crop := False,
                   crop_x := (if x < crop_x s then x else crop_x s),
                   crop_y := (if y < crop_y s then y else crop_y s),
                   crop_width := \<bar>x - crop_x s\<bar>,
                   crop_height := \<bar>y - crop_y s\<bar>,
                   crop_enabled := True\<rparr>
               else if current_shape_type s = ''rectangle'' then
                 s\<lparr>drawing := False,
                   shapes := shapes s @
                     [(''rectangle'', current_shape s @ [(x, y)], mask_type_var s,
                       blur_strength s, mask_color s, [frame_index s, total_frames s - 1])],
                   current_shape := []\<rparr>
               else if current_shape_type s = ''freehand'' then
                 (if length (current_shape s) > 2 then
                    s\<lparr>drawing := False,
                      shapes := shapes s @
                        [(''freehand'', current_shape s, mask_type_var s,
                          blur_strength s, mask_color s, [frame_index s, total_frames s - 1])],
                      current_shape := []\<rparr>
                  else s\<lparr>drawing := False\<rparr>)
               else s))"

definition on_double_click :: "'d app \<Rightarrow> 'd app" where
  "on_double_click s =
     (if current_shape_type s = ''polygon'' \<and> drawing s then
        (if length (current_shape s) \<ge> 3 then
           s\<lparr>drawing := False,
             shapes := shapes s @
               [(''polygon'', current_shape s, mask_type_var s,
                 blur_strength s, mask_color s, [frame_index s, total_frames s - 1])],
             current_shape := []\<rparr>
         else s\<lparr>drawing := False\<rparr>)
      else s)"


section \<open>Concrete inputs\<close>

text \<open>The state that \<open>__init__\<close> and \<open>init_face_detection\<close> set up, before a video is
  opened.\<close>

definition init_app :: "'d \<Rightarrow> 'd app" where
  "init_app d =
     \<lparr>input_video = None, output_path = None, shapes = [], auto_detect_faces = False,
      current_frame = None, frame_index = 0, total_frames = 0, drawing = False, current_shape = [],
      current_shape_type = ''rectangle'', blur_strength = 21, mask_type = ''blur'',
      mask_shape = ''oval'', mask_color = (0, 0, 0), mask_type_var = ''blur'',
      blur_entire_video = True, start_frame = 0, end_frame = 0, crop_enabled = False,
      crop_x = 0, crop_y = 0, crop_width = 0, crop_height = 0, drawing_crop = False,
      crop_type = ''traditional'', crop_mask_type = ''black'', crop_all_frames = True,
      crop_start_frame = 0, crop_end_frame = 0, rotation_angle = 0,
      rotation_enabled = False, trim_enabled = False, trim_start_frame = 0,
      trim_end_frame = 0, rtmpose_initialized = False, has_deepsort = False,
      tracked_faces = [], detection_frequency = 3, tracker = d\<rparr>"

text \<open>A stand-in for the libraries, for evaluating the model on small inputs. The blur
  and the resize return grey frames of the right size, the rotation turns the frame by
  180 degrees, polygons and ellipses draw nothing, every codec but avc1 opens, and the
  detector counts its calls: it reports one face, id 1, at the pixel (0, 0), with
  confidence 0.9 on its first call and 0.5 afterwards. The clock advances, the Tk
  calls return and the file can be written.\<close>

definition grey :: pixel where
  "grey = (7, 7, 7)"

definition sample_env :: "nat env" where
  "sample_env =
     \<lparr>cv_GaussianBlur = (\<lambda>f k. if k > 0 \<and> k mod 2 = 1 then Some (map (map (\<lambda>_. grey)) f)
                               else None),
      cv_resize_linear = (\<lambda>f (w, h). if w > 0 \<and> h > 0
                                      then Some (replicate (nat h) (replicate (nat w) grey))
                                      else None),
      cv_resize_nearest = (\<lambda>f (w, h). if w > 0 \<and> h > 0
                                       then Some (replicate (nat h) (replicate (nat w) grey))
                                       else None),
      cv_warp = (\<lambda>f c angle. Some (rev (map rev f))),
      cv_fillPoly = (\<lambda>m pts. Some m),
      cv_ellipse = (\<lambda>m c axes a b. Some m),
      face_outline = (\<lambda>b. []),
      pose_and_track = (\<lambda>d f. ([(1, (0, 0, 0, 0), Some (if d = 0 then 9 / 10 else 1 / 2))],
                                Suc d)),
      pose_reset = (\<lambda>d. 0),
      deepsort_reset = (\<lambda>d. 0),
      writer_opens = (\<lambda>path codec fps dims. codec \<noteq> ''avc1''),
      writer_write = (\<lambda>codec f. True),
      path_basename = (\<lambda>p. p),
      path_splitext = (\<lambda>p. (takeWhile (\<lambda>c. c \<noteq> CHR ''.'') p, dropWhile (\<lambda>c. c \<noteq> CHR ''.'') p)),
      path_join = (\<lambda>a b. a @ ''/'' @ b),
      str_lower = (\<lambda>p. p),
      clock_elapsed = (\<lambda>n. 1 + real_of_int n),
      tk_ok = (\<lambda>c. True),
      file_write_ok = (\<lambda>path. True)\<rparr>"

text \<open>A 2 x 2 frame whose pixels all differ, and a capture of \<open>n\<close> such frames.\<close>

definition sample_frame :: frame where
  "sample_frame = [[(10, 11, 12), (20, 21, 22)], [(30, 31, 32), (40, 41, 42)]]"

definition sample_cap :: "int \<Rightarrow> capture" where
  "sample_cap n =
     \<lparr>cap_fps = 25, cap_width = 2, cap_height = 2,
      cap_read = (\<lambda>k. if 0 \<le> k \<and> k < n then Some sample_frame else None)\<rparr>"


text \<open>The stand-in libraries with an encoder that opens for no codec.\<close>

definition closed_env :: "nat env" where
  "closed_env = sample_env\<lparr>writer_opens := (\<lambda>path codec fps dims. False)\<rparr>"

text \<open>A 100-frame video open at frame 5, with input and output chosen.\<close>

definition opened_app :: "nat app" where
  "opened_app =
     (init_app 0)\<lparr>input_video := Some ''a.mp4'', output_path := Some ''out'',
                  total_frames := 100, frame_index := 5\<rparr>"

text \<open>The same application while a rectangle is being drawn from the pixel (0, 0).\<close>

definition drawing_app :: "nat app" where
  "drawing_app = opened_app\<lparr>drawing := True, current_shape := [(0, 0)]\<rparr>"

text \<open>The same application with the trim range 10..20, and an explicit process range
  0..50 that the trim overrides.\<close>

definition trim_app :: "nat app" where
  "trim_app = opened_app\<lparr>trim_enabled := True, trim_start_frame := 10, trim_end_frame := 20,
                 blur_entire_video := False, start_frame := 0, end_frame := 50\<rparr>"

text \<open>The same application with automatic face detection on, black rectangles as face
  masks, and a 4-frame video at frame 0.\<close>

definition detect_app :: "nat app" where
  "detect_app = opened_app\<lparr>auto_detect_faces := True, rtmpose_initialized := True,
                   mask_type := ''black'', mask_shape := ''rectangle'', total_frames := 4,
                   frame_index := 0\<rparr>"

text \<open>The detecting application holding one track from an earlier detection, with the
  detector already called five times; and a telemetry record with no entries.\<close>

definition tracked_app :: "nat app" where
  "tracked_app = detect_app\<lparr>tracked_faces := [(7, (1, 1, 0, 0), Some 1, 0)], tracker := 5\<rparr>"

definition empty_tracking :: face_tracking where
  "empty_tracking = \<lparr>video_file = ''a.mp4'', ftd_frames = [], ftd_faces = []\<rparr>"

text \<open>Stand-in libraries whose detector looks at the frame: it reports a face, as a box
  of one pixel, wherever the frame holds the pixel value (40, 41, 42). And the detecting
  application with a rotation by 180 degrees.\<close>

definition finder_env :: "nat env" where
  "finder_env = sample_env
     \<lparr>pose_and_track := (\<lambda>d f.
        (map (\<lambda>(x, y). (1, (int x, int y, 0, 0), Some 1))
           (filter (\<lambda>(x, y). f ! y ! x = (40, 41, 42))
              (concat (map (\<lambda>y. map (\<lambda>x. (x, y)) [0..<length (f ! y)]) [0..<length f]))),
         Suc d))\<rparr>"

definition rotated_app :: "nat app" where
  "rotated_app = detect_app\<lparr>rotation_enabled := True, rotation_angle := 180\<rparr>"

text \<open>The opened application with a traditional crop of one pixel at the origin, active
  on all frames. And the tracking application at frame 3 with a mask crop that keeps
  the pixel (1, 0) and one manual shape, a solid rectangle on the pixel (0, 1).\<close>

definition crop_app :: "nat app" where
  "crop_app = opened_app\<lparr>crop_enabled := True, crop_width := 1, crop_height := 1\<rparr>"

definition masked_app :: "nat app" where
  "masked_app = tracked_app
     \<lparr>frame_index := 3, crop_enabled := True, crop_type := ''mask'', crop_x := 1, crop_y := 0,
      crop_width := 5, crop_height := 1,
      shapes := [(''rectangle'', [(0, 1), (0, 1)], ''solid'', 21, (1, 2, 3), [0, 99])]\<rparr>"

section \<open>Properties of the effect applicator\<close>

lemma np_where_nth:
  assumes "np_where m a b = Some r"
  shows "map length r = map length b"
    and "\<And>y x. y < length b \<Longrightarrow> x < length (b ! y) \<Longrightarrow>
           r ! y ! x = (if m ! y ! x = 255 then a ! y ! x else b ! y ! x)"
proof -
  from assms have sa: "map length m = map length a" and sb: "map length m = map length b"
    and r: "r = map (\<lambda>(mr, ar, br). map (\<lambda>(v, p, q). if v = 255 then p else q)
                        (zip mr (zip ar br))) (zip m (zip a b))"
    by (auto simp: np_where_def same_shape_def split: if_splits)
  have la: "length m = length a" and lb: "length m = length b"
    using sa sb by (metis length_map)+
  have rows: "\<And>y. y < length b \<Longrightarrow>
                length (m ! y) = length (b ! y) \<and> length (a ! y) = length (b ! y)"
    using sa sb la lb by (metis nth_map)
  show "map length r = map length b"
    by (rule nth_equalityI) (use la lb rows in \<open>auto simp: r\<close>)
  fix y x assume "y < length b" "x < length (b ! y)"
  then show "r ! y ! x = (if m ! y ! x = 255 then a ! y ! x else b ! y ! x)"
    using la lb rows[of y] by (simp add: r)
qed

lemma same_shape_fill: "same_shape m (map (map (\<lambda>_. c)) f) = same_shape m f"
  by (simp add: same_shape_def comp_def)

lemma frame_eqI:
  assumes "map length r = map length b"
    and "\<And>y x. y < length b \<Longrightarrow> x < length (b ! y) \<Longrightarrow> r ! y ! x = b ! y ! x"
  shows "r = b"
proof (rule nth_equalityI)
  show l: "length r = length b" using assms(1) by (metis length_map)
  fix y assume y: "y < length r"
  have ly: "length (r ! y) = length (b ! y)" using assms(1) y l by (metis nth_map)
  show "r ! y = b ! y"
    by (rule nth_equalityI) (use ly y l assms(2) in auto)
qed

text \<open>Filling a frame that is already filled under the mask changes nothing.\<close>

lemma np_where_fill_idem:
  assumes "np_where m (map (map (\<lambda>_. c)) f) f = Some r"
  shows "np_where m (map (map (\<lambda>_. c)) r) r = Some r"
proof -
  have sh: "map length r = map length f" using np_where_nth(1)[OF assms] .
  from assms have mf: "same_shape m f"
    by (auto simp: np_where_def split: if_splits)
  then have mr: "same_shape m r" using sh by (simp add: same_shape_def)
  then obtain r' where r': "np_where m (map (map (\<lambda>_. c)) r) r = Some r'"
    by (auto simp: np_where_def same_shape_fill)
  have lrf: "length r = length f" using sh by (metis length_map)
  have rows: "\<And>y. y < length r \<Longrightarrow> length (r ! y) = length (f ! y)"
    using sh lrf by (metis nth_map)
  have "r' = r"
  proof (rule frame_eqI)
    show "map length r' = map length r" using np_where_nth(1)[OF r'] .
    fix y x assume y: "y < length r" and x: "x < length (r ! y)"
    have 1: "r' ! y ! x = (if m ! y ! x = 255 then c else r ! y ! x)"
      using np_where_nth(2)[OF r' y x] y x by simp
    have 2: "r ! y ! x = (if m ! y ! x = 255 then c else f ! y ! x)"
      using np_where_nth(2)[OF assms, of y x] y x lrf rows[OF y] by simp
    show "r' ! y ! x = r ! y ! x" using 1 2 by simp
  qed
  then show ?thesis using r' by simp
qed

text \<open>Every effect either returns the frame itself or selects through the mask.\<close>

lemma apply_mask_effect_cases:
  assumes "apply_mask_effect cv frame msk effect strength color = Some r"
  shows "r = frame \<or> (\<exists>a. np_where msk a frame = Some r)"
  using assms by (auto simp: apply_mask_effect_def Let_def split: if_splits option.splits)

text \<open>When the library calls return an array of the size of the frame, as OpenCV
  documents, the blur and the pixelation return a frame.\<close>

lemma apply_mask_effect_blur_returns:
  assumes "same_shape msk frame"
    and "cv_GaussianBlur cv frame (if k mod 2 = 0 then k + 1 else k) = Some blurred"
    and "same_shape blurred frame"
  shows "apply_mask_effect cv frame msk ''blur'' k color \<noteq> None"
  using assms by (simp add: apply_mask_effect_def np_where_def same_shape_def)

lemma apply_mask_effect_pixelate_returns:
  assumes "same_shape msk frame"
    and "cv_resize_linear cv frame (snd (frame_shape frame) div max 1 (k div 10),
                                    fst (frame_shape frame) div max 1 (k div 10)) = Some temp"
    and "cv_resize_nearest cv temp (snd (frame_shape frame), fst (frame_shape frame))
           = Some pixelated"
    and "same_shape pixelated frame"
  shows "apply_mask_effect cv frame msk ''pixelate'' k color \<noteq> None"
  using assms by (simp add: apply_mask_effect_def np_where_def same_shape_def)

text \<open>
  C7. Whatever the effect name, the strength and the colour: a frame that
  \<open>apply_mask_effect\<close> returns has the shape of the input frame, and every pixel whose
  mask value is 0 is the pixel of the input frame. For the effects that call no
  library function (solid, black, and any other name) it returns a frame whenever the
  mask has the shape of the frame.
\<close>

theorem apply_mask_effect_outside_mask:
  "(\<forall>r. apply_mask_effect cv frame msk effect strength color = Some r \<longrightarrow>
        same_shape r frame \<and>
        (\<forall>y < length frame. \<forall>x < length (frame ! y).
           msk ! y ! x = 0 \<longrightarrow> r ! y ! x = frame ! y ! x))
   \<and> (same_shape msk frame \<and> effect \<noteq> ''blur'' \<and> effect \<noteq> ''pixelate'' \<longrightarrow>
        apply_mask_effect cv frame msk effect strength color \<noteq> None)"
proof (rule conjI)
  show "\<forall>r. apply_mask_effect cv frame msk effect strength color = Some r \<longrightarrow>
        same_shape r frame \<and>
        (\<forall>y < length frame. \<forall>x < length (frame ! y).
           msk ! y ! x = 0 \<longrightarrow> r ! y ! x = frame ! y ! x)"
  proof (rule allI, rule impI)
    fix r assume run: "apply_mask_effect cv frame msk effect strength color = Some r"
    from apply_mask_effect_cases[OF run]
    show "same_shape r frame \<and>
          (\<forall>y < length frame. \<forall>x < length (frame ! y).
             msk ! y ! x = 0 \<longrightarrow> r ! y ! x = frame ! y ! x)"
    proof
      assume "r = frame"
      then show ?thesis by (simp add: same_shape_def)
    next
      assume "\<exists>a. np_where msk a frame = Some r"
      then obtain a where a: "np_where msk a frame = Some r" by blast
      show ?thesis using np_where_nth[OF a] by (simp add: same_shape_def)
    qed
  qed
next
  show "same_shape msk frame \<and> effect \<noteq> ''blur'' \<and> effect \<noteq> ''pixelate'' \<longrightarrow>
        apply_mask_effect cv frame msk effect strength color \<noteq> None"
    by (simp add: apply_mask_effect_def np_where_def same_shape_fill)
qed

theorem apply_mask_effect_outside_mask_witness:
  "apply_mask_effect sample_env sample_frame [[255, 0], [0, 0]] ''blur'' 20 (0, 0, 0)
     = Some [[grey, (20, 21, 22)], [(30, 31, 32), (40, 41, 42)]]
   \<and> same_shape [[grey, (20, 21, 22)], [(30, 31, 32), (40, 41, 42)]] sample_frame
   \<and> (1::nat) < length sample_frame \<and> (0::nat) < length (sample_frame ! 1)
   \<and> [[255, 0], [0, 0 :: 8 word]] ! 1 ! 0 = 0
   \<and> [[grey, (20, 21, 22)], [(30, 31, 32), (40, 41, 42)]] ! 1 ! 0 = sample_frame ! 1 ! 0
   \<and> same_shape [[255, 0], [0, 0 :: 8 word]] sample_frame
   \<and> apply_mask_effect sample_env sample_frame [[255, 0], [0, 0]] ''black'' 20 (0, 0, 0)
        \<noteq> None"
proof -
  have run: "apply_mask_effect sample_env sample_frame [[255, 0], [0, 0]] ''blur'' 20 (0, 0, 0)
         = Some [[grey, (20, 21, 22)], [(30, 31, 32), (40, 41, 42)]]"
    by (simp add: apply_mask_effect_def sample_env_def sample_frame_def np_where_def
          same_shape_def)
  have sh: "same_shape [[255, 0], [0, 0 :: 8 word]] sample_frame"
    by (simp add: same_shape_def sample_frame_def)
  have len: "(1::nat) < length sample_frame \<and> (0::nat) < length (sample_frame ! 1)"
    by (simp add: sample_frame_def)
  have m: "[[255, 0], [0, 0 :: 8 word]] ! 1 ! 0 = 0"
    by simp
  note blur = apply_mask_effect_outside_mask[of sample_env sample_frame "[[255, 0], [0, 0]]"
        "''blur''" 20 "(0, 0, 0)"]
  note black = apply_mask_effect_outside_mask[of sample_env sample_frame "[[255, 0], [0, 0]]"
        "''black''" 20 "(0, 0, 0)"]
  from blur run
  have shape: "same_shape [[grey, (20, 21, 22)], [(30, 31, 32), (40, 41, 42)]] sample_frame"
    and outside: "\<forall>y < length sample_frame. \<forall>x < length (sample_frame ! y).
           [[255, 0], [0, 0 :: 8 word]] ! y ! x = 0 \<longrightarrow>
           [[grey, (20, 21, 22)], [(30, 31, 32), (40, 41, 42)]] ! y ! x = sample_frame ! y ! x"
    by blast+
  from outside len m
  have px: "[[grey, (20, 21, 22)], [(30, 31, 32), (40, 41, 42)]] ! 1 ! 0 = sample_frame ! 1 ! 0"
    by blast
  from black sh
  have ret: "apply_mask_effect sample_env sample_frame [[255, 0], [0, 0]] ''black'' 20 (0, 0, 0)
        \<noteq> None"
    by simp
  show ?thesis using run shape len m px sh ret by blast
qed

text \<open>
  C8. For the effects black and solid, applying \<open>apply_mask_effect\<close> to its own result,
  with the same mask, strength and colour, gives that result again (and raises when
  the first application raises); and the first application returns a frame whenever
  the mask has the shape of the frame.
\<close>

theorem black_solid_idempotent:
  assumes "effect = ''black'' \<or> effect = ''solid''"
  shows "Option.bind (apply_mask_effect cv frame msk effect strength color)
           (\<lambda>r. apply_mask_effect cv r msk effect strength color)
         = apply_mask_effect cv frame msk effect strength color
       \<and> (same_shape msk frame \<longrightarrow>
            apply_mask_effect cv frame msk effect strength color \<noteq> None)"
proof -
  have eq: "\<And>f. apply_mask_effect cv f msk effect strength color =
     np_where msk
       (map (map (\<lambda>_. if effect = ''black'' then (0, 0, 0) else color_pixel color)) f) f"
    using assms by (auto simp: apply_mask_effect_def Let_def)
  have twice: "Option.bind (apply_mask_effect cv frame msk effect strength color)
           (\<lambda>r. apply_mask_effect cv r msk effect strength color)
         = apply_mask_effect cv frame msk effect strength color"
  proof (cases "apply_mask_effect cv frame msk effect strength color")
    case None
    then show ?thesis by simp
  next
    case (Some r)
    then show ?thesis using np_where_fill_idem[of msk _ frame r] by (simp add: eq)
  qed
  have returns: "same_shape msk frame \<longrightarrow>
         apply_mask_effect cv frame msk effect strength color \<noteq> None"
    by (simp add: eq np_where_def same_shape_fill)
  show ?thesis using twice returns by blast
qed

theorem black_solid_idempotent_witness:
  "apply_mask_effect sample_env sample_frame [[255, 0], [0, 255]] ''solid'' 21 (1, 2, 3)
     = Some [[(1, 2, 3), (20, 21, 22)], [(30, 31, 32), (1, 2, 3)]]
   \<and> apply_mask_effect sample_env [[(1, 2, 3), (20, 21, 22)], [(30, 31, 32), (1, 2, 3)]]
       [[255, 0], [0, 255]] ''solid'' 21 (1, 2, 3)
     = Some [[(1, 2, 3), (20, 21, 22)], [(30, 31, 32), (1, 2, 3)]]"
proof -
  have run: "apply_mask_effect sample_env sample_frame [[255, 0], [0, 255]] ''solid'' 21
               (1, 2, 3)
         = Some [[(1, 2, 3), (20, 21, 22)], [(30, 31, 32), (1, 2, 3)]]"
    by (simp add: apply_mask_effect_def sample_frame_def np_where_def same_shape_def
          color_pixel_def)
  show ?thesis
    using run
      black_solid_idempotent[of "''solid''" sample_env sample_frame "[[255, 0], [0, 255]]"
        21 "(1, 2, 3)"]
    by simp
qed

section \<open>The encoder fallback\<close>

lemma try_fallbacks_closed:
  assumes "\<not> isOpened (fst acc)" "\<forall>c \<in> set cs. \<not> writer_opens cv path c fps dims"
  shows "\<not> isOpened (fst (try_fallbacks cv path fps dims pref cs acc))"
  using assms by (induction cs arbitrary: acc) (auto simp: Let_def)

lemma get_video_writer_closed:
  assumes "\<forall>c. \<not> writer_opens cv path c fps (w, h)"
  shows "\<not> isOpened (fst (get_video_writer cv path w h fps))"
  using assms
    try_fallbacks_closed[of _ "[''mp4v'', ''XVID'', ''avc1'', ''H264'']" cv path fps "(w, h)"]
  by (simp add: get_video_writer_def Let_def del: try_fallbacks.simps)

lemma process_video_unavailable:
  assumes "input_video s = Some v" "output_path s = Some d"
    and "\<forall>p c dims. \<not> writer_opens cv p c (cap_fps cap) dims"
  shows "status_log (process_video cv cap s) = [FailedToCreateOutput]
         \<and> loop_end (process_video cv cap s) = None"
proof -
  have closed: "\<And>p w h out tried.
      get_video_writer cv p w h (cap_fps cap) = (out, tried) \<Longrightarrow> \<not> isOpened out"
    using assms(3) get_video_writer_closed by (metis fst_conv)
  show ?thesis using assms(1,2)
    by (simp add: process_video_def Let_def closed split: prod.splits)
qed

text \<open>
  C3, as the claim states it, fails: when no codec opens for a \<open>.mp4\<close> path, the codecs
  tried are avc1, mp4v, XVID, H264. avc1 is not attempted a second time between XVID
  and H264.
\<close>

theorem mp4_fallback_order_counterexample:
  "snd (get_video_writer closed_env ''out/processed_a.mp4'' 2 2 25)
     = [''avc1'', ''mp4v'', ''XVID'', ''H264'']
   \<and> snd (get_video_writer closed_env ''out/processed_a.mp4'' 2 2 25)
     \<noteq> [''avc1'', ''mp4v'', ''XVID'', ''avc1'', ''H264'']"
  by (simp add: get_video_writer_def closed_env_def sample_env_def codec_map_def Let_def)

text \<open>
  C3, amended. For a \<open>.mp4\<close> output path whose preferred codec avc1 fails to open,
  \<open>get_video_writer\<close> tries mp4v, then XVID, then H264 (avc1, already tried, is skipped)
  and returns the first writer that opens; when none opens it returns the unopened
  writer. When no codec opens at all, \<open>process_video\<close> reports "Failed to create output
  video" and returns before the frame loop.
\<close>

theorem mp4_fallback_order:
  assumes "str_lower cv (snd (path_splitext cv path)) = ''.mp4''"
    and "\<not> writer_opens cv path ''avc1'' fps (w, h)"
  shows "get_video_writer cv path w h fps =
     (if writer_opens cv path ''mp4v'' fps (w, h)
        then (\<lparr>fourcc = ''mp4v'', isOpened = True\<rparr>, [''avc1'', ''mp4v''])
      else if writer_opens cv path ''XVID'' fps (w, h)
        then (\<lparr>fourcc = ''XVID'', isOpened = True\<rparr>, [''avc1'', ''mp4v'', ''XVID''])
      else if writer_opens cv path ''H264'' fps (w, h)
        then (\<lparr>fourcc = ''H264'', isOpened = True\<rparr>, [''avc1'', ''mp4v'', ''XVID'', ''H264''])
      else (\<lparr>fourcc = ''H264'', isOpened = False\<rparr>, [''avc1'', ''mp4v'', ''XVID'', ''H264'']))
   \<and> (\<forall>s cap v d. input_video s = Some v \<and> output_path s = Some d
          \<and> (\<forall>p c dims. \<not> writer_opens cv p c (cap_fps cap) dims) \<longrightarrow>
          status_log (process_video cv cap s) = [FailedToCreateOutput]
          \<and> loop_end (process_video cv cap s) = None)"
proof (rule conjI)
  show "get_video_writer cv path w h fps =
     (if writer_opens cv path ''mp4v'' fps (w, h)
        then (\<lparr>fourcc = ''mp4v'', isOpened = True\<rparr>, [''avc1'', ''mp4v''])
      else if writer_opens cv path ''XVID'' fps (w, h)
        then (\<lparr>fourcc = ''XVID'', isOpened = True\<rparr>, [''avc1'', ''mp4v'', ''XVID''])
      else if writer_opens cv path ''H264'' fps (w, h)
        then (\<lparr>fourcc = ''H264'', isOpened = True\<rparr>, [''avc1'', ''mp4v'', ''XVID'', ''H264''])
      else (\<lparr>fourcc = ''H264'', isOpened = False\<rparr>, [''avc1'', ''mp4v'', ''XVID'', ''H264'']))"
    using assms by (simp add: get_video_writer_def codec_map_def Let_def)
next
  show "\<forall>s cap v d. input_video s = Some v \<and> output_path s = Some d
          \<and> (\<forall>p c dims. \<not> writer_opens cv p c (cap_fps cap) dims) \<longrightarrow>
          status_log (process_video cv cap s) = [FailedToCreateOutput]
          \<and> loop_end (process_video cv cap s) = None"
    using process_video_unavailable by blast
qed

theorem mp4_fallback_order_witness:
  "get_video_writer sample_env ''out/processed_a.mp4'' 2 2 25
     = (\<lparr>fourcc = ''mp4v'', isOpened = True\<rparr>, [''avc1'', ''mp4v''])
   \<and> get_video_writer closed_env ''out/processed_a.mp4'' 2 2 25
     = (\<lparr>fourcc = ''H264'', isOpened = False\<rparr>, [''avc1'', ''mp4v'', ''XVID'', ''H264''])
   \<and> status_log (process_video closed_env (sample_cap 100) opened_app)
     = [FailedToCreateOutput]"
proof -
  have ext: "str_lower sample_env (snd (path_splitext sample_env ''out/processed_a.mp4''))
               = ''.mp4''"
    and ext': "str_lower closed_env (snd (path_splitext closed_env ''out/processed_a.mp4''))
               = ''.mp4''"
    by (simp_all add: sample_env_def closed_env_def)
  have avc1: "\<not> writer_opens sample_env ''out/processed_a.mp4'' ''avc1'' 25 (2, 2)"
    and avc1': "\<not> writer_opens closed_env ''out/processed_a.mp4'' ''avc1'' 25 (2, 2)"
    by (simp_all add: sample_env_def closed_env_def)
  have opens: "writer_opens sample_env ''out/processed_a.mp4'' ''mp4v'' 25 (2, 2)"
    by (simp add: sample_env_def)
  have never: "\<forall>p c dims. \<not> writer_opens closed_env p c (cap_fps (sample_cap 100)) dims"
    by (simp add: closed_env_def)
  have io: "input_video opened_app = Some ''a.mp4'' \<and> output_path opened_app = Some ''out''"
    by (simp add: opened_app_def)
  from mp4_fallback_order[OF ext avc1] opens
  have 1: "get_video_writer sample_env ''out/processed_a.mp4'' 2 2 25
     = (\<lparr>fourcc = ''mp4v'', isOpened = True\<rparr>, [''avc1'', ''mp4v''])"
    by simp
  from mp4_fallback_order[OF ext' avc1'] never
  have 2: "get_video_writer closed_env ''out/processed_a.mp4'' 2 2 25
     = (\<lparr>fourcc = ''H264'', isOpened = False\<rparr>, [''avc1'', ''mp4v'', ''XVID'', ''H264''])"
    by (simp add: closed_env_def)
  from mp4_fallback_order[OF ext' avc1'] never io
  have 3: "status_log (process_video closed_env (sample_cap 100) opened_app)
     = [FailedToCreateOutput]"
    by blast
  show ?thesis using 1 2 3 by blast
qed

section \<open>Shapes and their frame ranges\<close>

text \<open>
  C10. A shape that \<open>on_mouse_up\<close> or \<open>on_double_click\<close> appends is a 7-field record
  whose fields 5 and 6 are the frame index at creation and \<open>total_frames - 1\<close>; releasing
  the mouse while a rectangle is being drawn does append one. In the compositor a shape
  of fewer than 7 fields is applied on every frame, and a shape of 7 or more fields is
  applied exactly on the frames from field 5 to field 6.
\<close>

theorem drawn_shapes_carry_range:
  "(shapes (on_mouse_up s p hw) = shapes s \<or>
      (\<exists>sh. shapes (on_mouse_up s p hw) = shapes s @ [sh] \<and> len_shape sh = 7
         \<and> shape_start sh = frame_index s \<and> shape_end sh = total_frames s - 1))
   \<and> (drawing s \<and> \<not> drawing_crop s \<and> current_shape_type s = ''rectangle'' \<longrightarrow>
        shapes (on_mouse_up s p hw) \<noteq> shapes s)
   \<and> (shapes (on_double_click s) = shapes s \<or>
      (\<exists>sh. shapes (on_double_click s) = shapes s @ [sh] \<and> len_shape sh = 7
         \<and> shape_start sh = frame_index s \<and> shape_end sh = total_frames s - 1))
   \<and> (len_shape shape < 7
         \<or> (len_shape shape \<ge> 7 \<and> shape_start shape \<le> idx \<and> idx \<le> shape_end shape) \<longrightarrow>
        apply_shapes cv idx mask_hw (shape # rest) result =
          (case shape of (shape_type, points, effect, strength, color, extra) \<Rightarrow>
             Option.bind (draw_shape_mask cv mask_hw shape_type points)
               (\<lambda>shape_mask.
                  Option.bind (apply_mask_effect cv result shape_mask effect strength color)
                    (apply_shapes cv idx mask_hw rest))))
   \<and> (len_shape shape \<ge> 7 \<and> (idx < shape_start shape \<or> shape_end shape < idx) \<longrightarrow>
        apply_shapes cv idx mask_hw (shape # rest) result = apply_shapes cv idx mask_hw rest result)"
proof (intro conjI)
  show "shapes (on_mouse_up s p hw) = shapes s \<or>
      (\<exists>sh. shapes (on_mouse_up s p hw) = shapes s @ [sh] \<and> len_shape sh = 7
         \<and> shape_start sh = frame_index s \<and> shape_end sh = total_frames s - 1)"
    by (cases "mask_color s")
       (auto simp: on_mouse_up_def Let_def len_shape_def shape_start_def shape_end_def
             split: prod.splits)
  show "drawing s \<and> \<not> drawing_crop s \<and> current_shape_type s = ''rectangle'' \<longrightarrow>
        shapes (on_mouse_up s p hw) \<noteq> shapes s"
    by (auto simp: on_mouse_up_def Let_def split: prod.splits)
  show "shapes (on_double_click s) = shapes s \<or>
      (\<exists>sh. shapes (on_double_click s) = shapes s @ [sh] \<and> len_shape sh = 7
         \<and> shape_start sh = frame_index s \<and> shape_end sh = total_frames s - 1)"
    by (cases "mask_color s")
       (auto simp: on_double_click_def Let_def len_shape_def shape_start_def shape_end_def
             split: prod.splits)
  show "len_shape shape < 7
         \<or> (len_shape shape \<ge> 7 \<and> shape_start shape \<le> idx \<and> idx \<le> shape_end shape) \<longrightarrow>
        apply_shapes cv idx mask_hw (shape # rest) result =
          (case shape of (shape_type, points, effect, strength, color, extra) \<Rightarrow>
             Option.bind (draw_shape_mask cv mask_hw shape_type points)
               (\<lambda>shape_mask.
                  Option.bind (apply_mask_effect cv result shape_mask effect strength color)
                    (apply_shapes cv idx mask_hw rest)))"
    by (auto split: prod.splits option.splits)
  show "len_shape shape \<ge> 7 \<and> (idx < shape_start shape \<or> shape_end shape < idx) \<longrightarrow>
        apply_shapes cv idx mask_hw (shape # rest) result = apply_shapes cv idx mask_hw rest result"
    by simp
qed

theorem drawn_shapes_carry_range_witness:
  "(\<exists>sh. shapes (on_mouse_up drawing_app (1, 1) (2, 2)) = shapes drawing_app @ [sh]
         \<and> len_shape sh = 7 \<and> shape_start sh = 5 \<and> shape_end sh = 99)
   \<and> apply_shapes sample_env 1000 (2, 2)
        [(''rectangle'', [(0, 0), (0, 0)], ''black'', 21, (0, 0, 0), [])] sample_frame
      = Some [[(0, 0, 0), (20, 21, 22)], [(30, 31, 32), (40, 41, 42)]]
   \<and> apply_shapes sample_env 5 (2, 2)
        [(''rectangle'', [(0, 0), (0, 0)], ''black'', 21, (0, 0, 0), [5, 99])] sample_frame
      = Some [[(0, 0, 0), (20, 21, 22)], [(30, 31, 32), (40, 41, 42)]]
   \<and> apply_shapes sample_env 4 (2, 2)
        [(''rectangle'', [(0, 0), (0, 0)], ''black'', 21, (0, 0, 0), [5, 99])] sample_frame
      = Some sample_frame"
proof -
  have d: "drawing drawing_app \<and> \<not> drawing_crop drawing_app
           \<and> current_shape_type drawing_app = ''rectangle''"
    and fi: "frame_index drawing_app = 5" and tf: "total_frames drawing_app - 1 = 99"
    by (simp_all add: drawing_app_def opened_app_def init_app_def)
  note up = drawn_shapes_carry_range[where s = drawing_app and p = "(1, 1)" and hw = "(2, 2)"]
  from up[THEN conjunct2, THEN conjunct1] d
  have changed: "shapes (on_mouse_up drawing_app (1, 1) (2, 2)) \<noteq> shapes drawing_app"
    by blast
  from up[THEN conjunct1] changed
  have 1: "\<exists>sh. shapes (on_mouse_up drawing_app (1, 1) (2, 2)) = shapes drawing_app @ [sh]
         \<and> len_shape sh = 7 \<and> shape_start sh = 5 \<and> shape_end sh = 99"
    unfolding fi tf by blast
  have m: "draw_shape_mask sample_env (2, 2) ''rectangle'' [(0, 0), (0, 0)]
             = Some [[255, 0], [0, 0]]"
    by (simp add: draw_shape_mask_def np_full_def cv_rectangle_def numeral_2_eq_2 upt_rec)
  have e: "apply_mask_effect sample_env sample_frame [[255, 0], [0, 0]] ''black'' 21 (0, 0, 0)
             = Some [[(0, 0, 0), (20, 21, 22)], [(30, 31, 32), (40, 41, 42)]]"
    by (simp add: apply_mask_effect_def sample_frame_def np_where_def same_shape_def)
  have l5: "len_shape (''rectangle'', [(0, 0), (0, 0)], ''black'', 21, (0, 0, 0), []) < 7"
    by (simp add: len_shape_def)
  have l7: "len_shape (''rectangle'', [(0, 0), (0, 0)], ''black'', 21, (0, 0, 0), [5, 99]) \<ge> 7"
    and st: "shape_start (''rectangle'', [(0, 0), (0, 0)], ''black'', 21, (0, 0, 0), [5, 99]) = 5"
    and en: "shape_end (''rectangle'', [(0, 0), (0, 0)], ''black'', 21, (0, 0, 0), [5, 99]) = 99"
    by (simp_all add: len_shape_def shape_start_def shape_end_def)
  from drawn_shapes_carry_range[where shape = "(''rectangle'', [(0, 0), (0, 0)], ''black'', 21, (0, 0, 0), [])"
            and idx = 1000 and cv = sample_env and mask_hw = "(2, 2)" and rest = "[]"
            and result = sample_frame,
         THEN conjunct2, THEN conjunct2, THEN conjunct2, THEN conjunct1] l5
  have 2: "apply_shapes sample_env 1000 (2, 2)
        [(''rectangle'', [(0, 0), (0, 0)], ''black'', 21, (0, 0, 0), [])] sample_frame
      = Some [[(0, 0, 0), (20, 21, 22)], [(30, 31, 32), (40, 41, 42)]]"
    by (simp add: m e)
  from drawn_shapes_carry_range[where shape = "(''rectangle'', [(0, 0), (0, 0)], ''black'', 21, (0, 0, 0), [5, 99])"
            and idx = 5 and cv = sample_env and mask_hw = "(2, 2)" and rest = "[]"
            and result = sample_frame,
         THEN conjunct2, THEN conjunct2, THEN conjunct2, THEN conjunct1] l7 st en
  have 3: "apply_shapes sample_env 5 (2, 2)
        [(''rectangle'', [(0, 0), (0, 0)], ''black'', 21, (0, 0, 0), [5, 99])] sample_frame
      = Some [[(0, 0, 0), (20, 21, 22)], [(30, 31, 32), (40, 41, 42)]]"
    by (simp add: m e)
  from drawn_shapes_carry_range[where shape = "(''rectangle'', [(0, 0), (0, 0)], ''black'', 21, (0, 0, 0), [5, 99])"
            and idx = 4 and cv = sample_env and mask_hw = "(2, 2)" and rest = "[]"
            and result = sample_frame,
         THEN conjunct2, THEN conjunct2, THEN conjunct2, THEN conjunct2] l7 st en
  have 4: "apply_shapes sample_env 4 (2, 2)
        [(''rectangle'', [(0, 0), (0, 0)], ''black'', 21, (0, 0, 0), [5, 99])] sample_frame
      = Some sample_frame"
    by simp
  show ?thesis using 1 2 3 4 by blast
qed

section \<open>The stages of the compositor\<close>

text \<open>A frame body that returns went through its four stages in order.\<close>

lemma process_frame_stages:
  assumes "process_frame cv s frame = Some (r, s')"
  shows "\<exists>rotated faced shaped.
           (if rotation_enabled s \<and> rotation_angle s \<noteq> 0
            then rotate_frame cv frame (rotation_angle s) else Some frame) = Some rotated
         \<and> preview_faces cv s frame rotated = Some (faced, s')
         \<and> apply_shapes cv (frame_index s') (frame_shape frame) (shapes s') faced = Some shaped
         \<and> preview_crop cv s' frame shaped = Some r"
  using assms unfolding process_frame_def Let_def
  by (fastforce simp: bind_eq_Some_conv)

lemma process_video_frame_stages:
  assumes "process_video_frame cv wh idx count frame (s, ftd) = Some (r, s', ftd')"
  shows "\<exists>rotated faced shaped.
           (if rotation_enabled s \<and> rotation_angle s \<noteq> 0
            then rotate_frame cv frame (rotation_angle s) else Some frame) = Some rotated
         \<and> export_faces cv s idx count frame rotated ftd = Some (faced, s', ftd')
         \<and> apply_shapes cv idx (snd wh, fst wh) (shapes s') faced = Some shaped
         \<and> export_crop cv s' wh idx shaped = Some r"
  using assms unfolding process_video_frame_def Let_def
  by (cases wh) (fastforce simp: bind_eq_Some_conv)

text \<open>The face stage with detection active: the tracks are refreshed or kept, then the
  union mask of the tracks is applied.\<close>

lemma preview_faces_unfold:
  assumes "auto_detect_faces s" and "rtmpose_initialized s" and "detection_frequency s \<noteq> 0"
    and "s1 = (if frame_index s mod detection_frequency s = 0 \<or> tracked_faces s = []
               then s\<lparr>tracked_faces := fst (detect_faces cv s frame),
                       tracker := snd (detect_faces cv s frame)\<rparr>
               else s)"
  shows "preview_faces cv s frame result =
           (if tracked_faces s1 \<noteq> [] then
              Option.bind (create_face_mask cv s1 frame) (\<lambda>face_mask.
                Option.bind (apply_mask_effect cv result face_mask (mask_type s1)
                               (blur_strength s1) (mask_color s1))
                  (\<lambda>result. Some (result, s1)))
            else Some (result, s1))"
  unfolding preview_faces_def assms(4)
  using assms(1-3) by (simp add: Let_def split_beta)

lemma preview_faces_refresh:
  assumes "preview_faces cv s frame result = Some (r, s')"
    and "auto_detect_faces s" and "rtmpose_initialized s"
  shows "s' = (if frame_index s mod detection_frequency s = 0 \<or> tracked_faces s = []
               then s\<lparr>tracked_faces := fst (detect_faces cv s frame),
                       tracker := snd (detect_faces cv s frame)\<rparr>
               else s)"
proof -
  have f: "detection_frequency s \<noteq> 0"
  proof
    assume "detection_frequency s = 0"
    with assms(2,3) have "preview_faces cv s frame result = None"
      by (simp add: preview_faces_def)
    with assms(1) show False by simp
  qed
  define s1 where "s1 = (if frame_index s mod detection_frequency s = 0 \<or> tracked_faces s = []
               then s\<lparr>tracked_faces := fst (detect_faces cv s frame),
                       tracker := snd (detect_faces cv s frame)\<rparr>
               else s)"
  have "s' = s1"
    using assms(1) unfolding preview_faces_unfold[OF assms(2,3) f s1_def, of result]
    by (cases "tracked_faces s1 = []") (auto simp: bind_eq_Some_conv)
  then show ?thesis by (simp add: s1_def)
qed


lemma export_faces_unfold:
  assumes "auto_detect_faces s" and "rtmpose_initialized s" and "detection_frequency s \<noteq> 0"
    and "s1 = (if count mod detection_frequency s = 0 \<or> tracked_faces s = []
               then s\<lparr>tracked_faces := fst (detect_faces cv s frame),
                       tracker := snd (detect_faces cv s frame)\<rparr>
               else s)"
  shows "export_faces cv s idx count frame result ftd =
           (if tracked_faces s1 \<noteq> [] then
              Option.bind (create_face_mask cv s1 frame) (\<lambda>face_mask.
                Option.bind (apply_mask_effect cv result face_mask (mask_type s1)
                               (blur_strength s1) (mask_color s1))
                  (\<lambda>result. Some (result, s1,
                      ftd\<lparr>ftd_faces := snd (store_faces idx (tracked_faces s1) ([], ftd_faces ftd)),
                          ftd_frames := AList.update idx
                             (fst (store_faces idx (tracked_faces s1) ([], ftd_faces ftd)))
                             (ftd_frames ftd)\<rparr>)))
            else Some (result, s1, ftd))"
  unfolding export_faces_def assms(4)
  using assms(1-3) by (simp add: Let_def split_beta)

lemma export_faces_refresh:
  assumes "export_faces cv s idx count frame result ftd = Some (r, s', ftd')"
    and "auto_detect_faces s" and "rtmpose_initialized s"
  shows "s' = (if count mod detection_frequency s = 0 \<or> tracked_faces s = []
               then s\<lparr>tracked_faces := fst (detect_faces cv s frame),
                       tracker := snd (detect_faces cv s frame)\<rparr>
               else s)"
proof -
  have f: "detection_frequency s \<noteq> 0"
  proof
    assume "detection_frequency s = 0"
    with assms(2,3) have "export_faces cv s idx count frame result ftd = None"
      by (simp add: export_faces_def)
    with assms(1) show False by simp
  qed
  define s1 where "s1 = (if count mod detection_frequency s = 0 \<or> tracked_faces s = []
               then s\<lparr>tracked_faces := fst (detect_faces cv s frame),
                       tracker := snd (detect_faces cv s frame)\<rparr>
               else s)"
  have "s' = s1"
    using assms(1) unfolding export_faces_unfold[OF assms(2,3) f s1_def, of idx result ftd]
    by (cases "tracked_faces s1 = []") (auto simp: bind_eq_Some_conv)
  then show ?thesis by (simp add: s1_def)
qed

lemma faces_disabled:
  assumes "\<not> (auto_detect_faces s \<and> rtmpose_initialized s)"
  shows "preview_faces cv s frame result = Some (result, s)"
    and "export_faces cv s idx count frame result ftd = Some (result, s, ftd)"
  using assms by (auto simp: preview_faces_def export_faces_def)

section \<open>Face telemetry and the detection cadence\<close>

text \<open>
  C4 fails on the code. In a 4-frame export with detection every 3 frames, the detector
  reports face 1 with confidence 0.9 on frame 0 and with confidence 0.5 on frame 3.
  The per-frame records hold 0.9, 0.9, 0.9, 0.5; the cumulative record of face 1 lists
  the frames 0..3 and the latest bbox, but its confidence is still 0.9, the value of
  the first appearance: the branch for a known face appends the frame and assigns the
  bbox, and never assigns the confidence.
\<close>

theorem stored_confidence_is_stale:
  "map_option (ftd_frames \<circ> snd) (json_saved (process_video sample_env (sample_cap 4) detect_app))
     = Some [(0, [(1, [0, 0, 0, 0], 9 / 10)]), (1, [(1, [0, 0, 0, 0], 9 / 10)]),
             (2, [(1, [0, 0, 0, 0], 9 / 10)]), (3, [(1, [0, 0, 0, 0], 1 / 2)])]
   \<and> map_option (ftd_faces \<circ> snd) (json_saved (process_video sample_env (sample_cap 4) detect_app))
     = Some [(1, \<lparr>frames = [0, 1, 2, 3], bbox = [0, 0, 0, 0], confidence = 9 / 10\<rparr>)]"
  by code_simp

text \<open>
  C6, as the claim states it, fails in the export path, whose cadence is over
  \<open>frame_count\<close>, the number of frames already processed in the run. At the absolute
  index 3 (a multiple of the frequency 3), as the second frame of a run, with tracks
  present, the tracks and the detector are left untouched; at the absolute index 4, as
  the first frame of a run, with tracks present, the detector is called. An export of
  the frames 2..3 calls the detector once, not twice.
\<close>

theorem export_cadence_counterexample:
  "3 mod detection_frequency tracked_app = 0
   \<and> process_video_frame sample_env (2, 2) 3 1 sample_frame (tracked_app, empty_tracking) \<noteq> None
   \<and> fst (snd (the (process_video_frame sample_env (2, 2) 3 1 sample_frame
                      (tracked_app, empty_tracking)))) = tracked_app
   \<and> 4 mod detection_frequency tracked_app \<noteq> 0
   \<and> tracked_faces tracked_app \<noteq> []
   \<and> tracker (fst (snd (the (process_video_frame sample_env (2, 2) 4 0 sample_frame
                               (tracked_app, empty_tracking))))) = 6
   \<and> tracker (self (the (loop_end (process_video sample_env (sample_cap 4)
         (detect_app\<lparr>trim_enabled := True, trim_start_frame := 2, trim_end_frame := 3\<rparr>)))))
      = 1"
  by code_simp

text \<open>
  C6, amended. With automatic face detection enabled, a frame body that returns has
  refreshed the tracks by one call of \<open>detect_faces\<close> on the input frame exactly when
  its cadence counter is a multiple of \<open>detection_frequency\<close> or there are no tracks,
  and has otherwise left the whole state, tracks included, as it was. The counter is
  the absolute \<open>frame_index\<close> in the preview path and the run-relative \<open>frame_count\<close>
  (0 for the first exported frame) in the export path.
\<close>

theorem detection_cadence:
  "(process_frame cv s frame = Some (r, s') \<and> auto_detect_faces s \<and> rtmpose_initialized s \<longrightarrow>
      s' = (if frame_index s mod detection_frequency s = 0 \<or> tracked_faces s = []
            then s\<lparr>tracked_faces := fst (detect_faces cv s frame),
                    tracker := snd (detect_faces cv s frame)\<rparr>
            else s))
   \<and> (process_video_frame cv wh idx count frame (s, ftd) = Some (rx, sx, ftdx)
        \<and> auto_detect_faces s \<and> rtmpose_initialized s \<longrightarrow>
      sx = (if count mod detection_frequency s = 0 \<or> tracked_faces s = []
            then s\<lparr>tracked_faces := fst (detect_faces cv s frame),
                    tracker := snd (detect_faces cv s frame)\<rparr>
            else s))"
proof (intro conjI impI)
  assume a: "process_frame cv s frame = Some (r, s') \<and> auto_detect_faces s \<and> rtmpose_initialized s"
  then obtain rotated faced where "preview_faces cv s frame rotated = Some (faced, s')"
    using process_frame_stages by blast
  from preview_faces_refresh[OF this] a
  show "s' = (if frame_index s mod detection_frequency s = 0 \<or> tracked_faces s = []
            then s\<lparr>tracked_faces := fst (detect_faces cv s frame),
                    tracker := snd (detect_faces cv s frame)\<rparr>
            else s)" by blast
next
  assume a: "process_video_frame cv wh idx count frame (s, ftd) = Some (rx, sx, ftdx)
        \<and> auto_detect_faces s \<and> rtmpose_initialized s"
  then obtain rotated faced where
    "export_faces cv s idx count frame rotated ftd = Some (faced, sx, ftdx)"
    using process_video_frame_stages by blast
  from export_faces_refresh[OF this] a
  show "sx = (if count mod detection_frequency s = 0 \<or> tracked_faces s = []
            then s\<lparr>tracked_faces := fst (detect_faces cv s frame),
                    tracker := snd (detect_faces cv s frame)\<rparr>
            else s)" by blast
qed

theorem detection_cadence_witness:
  "(\<exists>r s'. process_frame sample_env tracked_app sample_frame = Some (r, s')
       \<and> tracker s' = 6 \<and> tracked_faces s' = [(1, (0, 0, 0, 0), Some (1 / 2), 0)])
   \<and> (\<exists>r s' ftd'. process_video_frame sample_env (2, 2) 3 1 sample_frame
                      (tracked_app, empty_tracking) = Some (r, s', ftd')
       \<and> s' = tracked_app)"
proof -
  have on: "auto_detect_faces tracked_app \<and> rtmpose_initialized tracked_app"
    by (simp add: tracked_app_def detect_app_def)
  have "process_frame sample_env tracked_app sample_frame \<noteq> None" by code_simp
  then obtain r s' where p: "process_frame sample_env tracked_app sample_frame = Some (r, s')"
    by auto
  have due: "frame_index tracked_app mod detection_frequency tracked_app = 0"
    by (simp add: tracked_app_def detect_app_def opened_app_def init_app_def)
  have det: "detect_faces sample_env tracked_app sample_frame
               = ([(1, (0, 0, 0, 0), Some (1 / 2), 0)], 6)"
    by (simp add: detect_faces_def tracked_app_def detect_app_def opened_app_def init_app_def
          sample_env_def)
  from detection_cadence[where cv = sample_env and s = tracked_app and frame = sample_frame
         and r = r and s' = s'] p on due
  have s': "s' = tracked_app\<lparr>tracked_faces := fst (detect_faces sample_env tracked_app sample_frame),
                          tracker := snd (detect_faces sample_env tracked_app sample_frame)\<rparr>"
    by simp
  have 1: "\<exists>r s'. process_frame sample_env tracked_app sample_frame = Some (r, s')
       \<and> tracker s' = 6 \<and> tracked_faces s' = [(1, (0, 0, 0, 0), Some (1 / 2), 0)]"
    using p s' det by simp
  have "process_video_frame sample_env (2, 2) 3 1 sample_frame (tracked_app, empty_tracking)
          \<noteq> None" by code_simp
  then obtain r2 s2 ftd2 where p2: "process_video_frame sample_env (2, 2) 3 1 sample_frame
      (tracked_app, empty_tracking) = Some (r2, s2, ftd2)" by auto
  have nodue: "\<not> (1 mod detection_frequency tracked_app = 0 \<or> tracked_faces tracked_app = [])"
    by (simp add: tracked_app_def detect_app_def opened_app_def init_app_def)
  from detection_cadence[where cv = sample_env and s = tracked_app and frame = sample_frame
         and wh = "(2, 2)" and idx = 3 and count = 1 and ftd = empty_tracking
         and rx = r2 and sx = s2 and ftdx = ftd2] p2 on nodue
  have "s2 = tracked_app" by simp
  with p2 have 2: "\<exists>r s' ftd'. process_video_frame sample_env (2, 2) 3 1 sample_frame
                      (tracked_app, empty_tracking) = Some (r, s', ftd') \<and> s' = tracked_app"
    by blast
  show ?thesis using 1 2 by blast
qed

text \<open>The face stage applies the mask of the tracks it ends with to the frame it was
  given.\<close>

lemma preview_faces_mask:
  assumes "preview_faces cv s frame rotated = Some (faced, s')"
    and "auto_detect_faces s" and "rtmpose_initialized s"
  shows "if tracked_faces s' = [] then faced = rotated
         else (\<exists>face_mask. create_face_mask cv s' frame = Some face_mask
                 \<and> apply_mask_effect cv rotated face_mask (mask_type s) (blur_strength s)
                       (mask_color s) = Some faced)"
proof -
  have f: "detection_frequency s \<noteq> 0"
  proof
    assume "detection_frequency s = 0"
    with assms(2,3) have "preview_faces cv s frame rotated = None"
      by (simp add: preview_faces_def)
    with assms(1) show False by simp
  qed
  define s1 where "s1 = (if frame_index s mod detection_frequency s = 0 \<or> tracked_faces s = []
               then s\<lparr>tracked_faces := fst (detect_faces cv s frame),
                       tracker := snd (detect_faces cv s frame)\<rparr>
               else s)"
  have s': "s' = s1" using preview_faces_refresh[OF assms] by (simp add: s1_def)
  have same: "mask_type s1 = mask_type s" "blur_strength s1 = blur_strength s"
    "mask_color s1 = mask_color s" by (simp_all add: s1_def)
  show ?thesis
    using assms(1) unfolding preview_faces_unfold[OF assms(2,3) f s1_def, of rotated] s' same
    by (cases "tracked_faces s1 = []") (auto simp: bind_eq_Some_conv)
qed

lemma export_faces_mask:
  assumes "export_faces cv s idx count frame rotated ftd = Some (faced, s', ftd')"
    and "auto_detect_faces s" and "rtmpose_initialized s"
  shows "if tracked_faces s' = [] then faced = rotated
         else (\<exists>face_mask. create_face_mask cv s' frame = Some face_mask
                 \<and> apply_mask_effect cv rotated face_mask (mask_type s) (blur_strength s)
                       (mask_color s) = Some faced)"
proof -
  have f: "detection_frequency s \<noteq> 0"
  proof
    assume "detection_frequency s = 0"
    with assms(2,3) have "export_faces cv s idx count frame rotated ftd = None"
      by (simp add: export_faces_def)
    with assms(1) show False by simp
  qed
  define s1 where "s1 = (if count mod detection_frequency s = 0 \<or> tracked_faces s = []
               then s\<lparr>tracked_faces := fst (detect_faces cv s frame),
                       tracker := snd (detect_faces cv s frame)\<rparr>
               else s)"
  have s': "s' = s1" using export_faces_refresh[OF assms] by (simp add: s1_def)
  have same: "mask_type s1 = mask_type s" "blur_strength s1 = blur_strength s"
    "mask_color s1 = mask_color s" by (simp_all add: s1_def)
  show ?thesis
    using assms(1) unfolding export_faces_unfold[OF assms(2,3) f s1_def, of idx rotated ftd] s' same
    by (cases "tracked_faces s1 = []") (auto simp: bind_eq_Some_conv)
qed

section \<open>Rotation and the face mask\<close>

text \<open>
  C9. With rotation enabled at a nonzero angle and face detection active, in the
  preview path and in the export path alike, a frame body that returns has rotated the
  input frame, has refreshed the tracks (when due) by \<open>detect_faces\<close> on the input
  frame, not the rotated one, has built the face mask by \<open>create_face_mask\<close> from the
  input frame and those tracks, and has applied the face effect through that mask to
  the rotated frame; the shapes and the crop follow. In the witness the face pixel sits
  at (1, 1) of the input frame and at (0, 0) of the rotated frame: the track and the
  blackened pixel are at (1, 1).
\<close>

theorem face_mask_from_unrotated_frame:
  "(process_frame cv s frame = Some (r, s')
      \<and> rotation_enabled s \<and> rotation_angle s \<noteq> 0
      \<and> auto_detect_faces s \<and> rtmpose_initialized s \<longrightarrow>
      (\<exists>rotated faced shaped.
          cv_warp cv frame (snd (frame_shape frame) div 2, fst (frame_shape frame) div 2)
            (rotation_angle s) = Some rotated
        \<and> s' = (if frame_index s mod detection_frequency s = 0 \<or> tracked_faces s = []
                 then s\<lparr>tracked_faces := fst (detect_faces cv s frame),
                         tracker := snd (detect_faces cv s frame)\<rparr>
                 else s)
        \<and> (if tracked_faces s' = [] then faced = rotated
            else (\<exists>face_mask. create_face_mask cv s' frame = Some face_mask
                    \<and> apply_mask_effect cv rotated face_mask (mask_type s) (blur_strength s)
                          (mask_color s) = Some faced))
        \<and> apply_shapes cv (frame_index s') (frame_shape frame) (shapes s') faced = Some shaped
        \<and> preview_crop cv s' frame shaped = Some r))
   \<and> (process_video_frame cv wh idx count frame (s, ftd) = Some (rx, sx, ftdx)
      \<and> rotation_enabled s \<and> rotation_angle s \<noteq> 0
      \<and> auto_detect_faces s \<and> rtmpose_initialized s \<longrightarrow>
      (\<exists>rotated faced shaped.
          cv_warp cv frame (snd (frame_shape frame) div 2, fst (frame_shape frame) div 2)
            (rotation_angle s) = Some rotated
        \<and> sx = (if count mod detection_frequency s = 0 \<or> tracked_faces s = []
                 then s\<lparr>tracked_faces := fst (detect_faces cv s frame),
                         tracker := snd (detect_faces cv s frame)\<rparr>
                 else s)
        \<and> (if tracked_faces sx = [] then faced = rotated
            else (\<exists>face_mask. create_face_mask cv sx frame = Some face_mask
                    \<and> apply_mask_effect cv rotated face_mask (mask_type s) (blur_strength s)
                          (mask_color s) = Some faced))
        \<and> apply_shapes cv idx (snd wh, fst wh) (shapes sx) faced = Some shaped
        \<and> export_crop cv sx wh idx shaped = Some rx))"
proof (intro conjI impI)
  assume a: "process_frame cv s frame = Some (r, s')
      \<and> rotation_enabled s \<and> rotation_angle s \<noteq> 0
      \<and> auto_detect_faces s \<and> rtmpose_initialized s"
  then have on: "auto_detect_faces s" "rtmpose_initialized s" by blast+
  from a process_frame_stages[of cv s frame r s']
  obtain rotated faced shaped where
    rot: "rotate_frame cv frame (rotation_angle s) = Some rotated"
    and fc: "preview_faces cv s frame rotated = Some (faced, s')"
    and sh: "apply_shapes cv (frame_index s') (frame_shape frame) (shapes s') faced = Some shaped"
    and cr: "preview_crop cv s' frame shaped = Some r"
    by auto
  have warp: "cv_warp cv frame (snd (frame_shape frame) div 2, fst (frame_shape frame) div 2)
            (rotation_angle s) = Some rotated"
    using rot a by (simp add: rotate_frame_def Let_def split_beta)
  from warp preview_faces_refresh[OF fc on] preview_faces_mask[OF fc on] sh cr
  show "\<exists>rotated faced shaped.
          cv_warp cv frame (snd (frame_shape frame) div 2, fst (frame_shape frame) div 2)
            (rotation_angle s) = Some rotated
        \<and> s' = (if frame_index s mod detection_frequency s = 0 \<or> tracked_faces s = []
                 then s\<lparr>tracked_faces := fst (detect_faces cv s frame),
                         tracker := snd (detect_faces cv s frame)\<rparr>
                 else s)
        \<and> (if tracked_faces s' = [] then faced = rotated
            else (\<exists>face_mask. create_face_mask cv s' frame = Some face_mask
                    \<and> apply_mask_effect cv rotated face_mask (mask_type s) (blur_strength s)
                          (mask_color s) = Some faced))
        \<and> apply_shapes cv (frame_index s') (frame_shape frame) (shapes s') faced = Some shaped
        \<and> preview_crop cv s' frame shaped = Some r"
    by blast
next
  assume a: "process_video_frame cv wh idx count frame (s, ftd) = Some (rx, sx, ftdx)
      \<and> rotation_enabled s \<and> rotation_angle s \<noteq> 0
      \<and> auto_detect_faces s \<and> rtmpose_initialized s"
  then have on: "auto_detect_faces s" "rtmpose_initialized s" by blast+
  from a process_video_frame_stages[of cv wh idx count frame s ftd rx sx ftdx]
  obtain rotated faced shaped where
    rot: "rotate_frame cv frame (rotation_angle s) = Some rotated"
    and fc: "export_faces cv s idx count frame rotated ftd = Some (faced, sx, ftdx)"
    and sh: "apply_shapes cv idx (snd wh, fst wh) (shapes sx) faced = Some shaped"
    and cr: "export_crop cv sx wh idx shaped = Some rx"
    by auto
  have warp: "cv_warp cv frame (snd (frame_shape frame) div 2, fst (frame_shape frame) div 2)
            (rotation_angle s) = Some rotated"
    using rot a by (simp add: rotate_frame_def Let_def split_beta)
  from warp export_faces_refresh[OF fc on] export_faces_mask[OF fc on] sh cr
  show "\<exists>rotated faced shaped.
          cv_warp cv frame (snd (frame_shape frame) div 2, fst (frame_shape frame) div 2)
            (rotation_angle s) = Some rotated
        \<and> sx = (if count mod detection_frequency s = 0 \<or> tracked_faces s = []
                 then s\<lparr>tracked_faces := fst (detect_faces cv s frame),
                         tracker := snd (detect_faces cv s frame)\<rparr>
                 else s)
        \<and> (if tracked_faces sx = [] then faced = rotated
            else (\<exists>face_mask. create_face_mask cv sx frame = Some face_mask
                    \<and> apply_mask_effect cv rotated face_mask (mask_type s) (blur_strength s)
                          (mask_color s) = Some faced))
        \<and> apply_shapes cv idx (snd wh, fst wh) (shapes sx) faced = Some shaped
        \<and> export_crop cv sx wh idx shaped = Some rx"
    by blast
qed

theorem face_mask_from_unrotated_frame_witness:
  "(\<exists>r s'. process_frame finder_env rotated_app sample_frame = Some (r, s')
       \<and> tracked_faces s' = [(1, (1, 1, 0, 0), Some 1, 0)]
       \<and> r = [[(40, 41, 42), (30, 31, 32)], [(20, 21, 22), (0, 0, 0)]])
   \<and> (\<exists>r s' ftd'. process_video_frame finder_env (2, 2) 0 0 sample_frame
                      (rotated_app, empty_tracking) = Some (r, s', ftd')
       \<and> tracked_faces s' = [(1, (1, 1, 0, 0), Some 1, 0)]
       \<and> r = [[(40, 41, 42), (30, 31, 32)], [(20, 21, 22), (0, 0, 0)]])
   \<and> fst (detect_faces finder_env rotated_app (rev (map rev sample_frame)))
       = [(1, (0, 0, 0, 0), Some 1, 0)]"
proof -
  have on: "rotation_enabled rotated_app \<and> rotation_angle rotated_app \<noteq> 0
            \<and> auto_detect_faces rotated_app \<and> rtmpose_initialized rotated_app"
    by (simp add: rotated_app_def detect_app_def)
  have due: "frame_index rotated_app mod detection_frequency rotated_app = 0"
    and due': "0 mod detection_frequency rotated_app = 0"
    by (simp_all add: rotated_app_def detect_app_def opened_app_def init_app_def)
  have det: "fst (detect_faces finder_env rotated_app sample_frame)
               = [(1, (1, 1, 0, 0), Some 1, 0)]"
    by code_simp
  have det_rot: "fst (detect_faces finder_env rotated_app (rev (map rev sample_frame)))
       = [(1, (0, 0, 0, 0), Some 1, 0)]"
    by code_simp
  have "process_frame finder_env rotated_app sample_frame \<noteq> None" by code_simp
  then obtain r s' where p: "process_frame finder_env rotated_app sample_frame = Some (r, s')"
    by auto
  have rv: "fst (the (process_frame finder_env rotated_app sample_frame))
              = [[(40, 41, 42), (30, 31, 32)], [(20, 21, 22), (0, 0, 0)]]"
    by code_simp
  from face_mask_from_unrotated_frame[where cv = finder_env and s = rotated_app
         and frame = sample_frame and r = r and s' = s', THEN conjunct1] p on due
  have "s' = rotated_app\<lparr>tracked_faces := fst (detect_faces finder_env rotated_app sample_frame),
                         tracker := snd (detect_faces finder_env rotated_app sample_frame)\<rparr>"
    by auto
  then have "tracked_faces s' = [(1, (1, 1, 0, 0), Some 1, 0)]" by (simp add: det)
  with p rv have 1: "\<exists>r s'. process_frame finder_env rotated_app sample_frame = Some (r, s')
       \<and> tracked_faces s' = [(1, (1, 1, 0, 0), Some 1, 0)]
       \<and> r = [[(40, 41, 42), (30, 31, 32)], [(20, 21, 22), (0, 0, 0)]]"
    by simp
  have "process_video_frame finder_env (2, 2) 0 0 sample_frame (rotated_app, empty_tracking)
          \<noteq> None" by code_simp
  then obtain r2 s2 ftd2 where p2: "process_video_frame finder_env (2, 2) 0 0 sample_frame
      (rotated_app, empty_tracking) = Some (r2, s2, ftd2)" by auto
  have rv2: "fst (the (process_video_frame finder_env (2, 2) 0 0 sample_frame
                         (rotated_app, empty_tracking)))
              = [[(40, 41, 42), (30, 31, 32)], [(20, 21, 22), (0, 0, 0)]]"
    by code_simp
  from face_mask_from_unrotated_frame[where cv = finder_env and s = rotated_app
         and frame = sample_frame and wh = "(2, 2)" and idx = 0 and count = 0
         and ftd = empty_tracking and rx = r2 and sx = s2 and ftdx = ftd2, THEN conjunct2]
       p2 on due'
  have "s2 = rotated_app\<lparr>tracked_faces := fst (detect_faces finder_env rotated_app sample_frame),
                         tracker := snd (detect_faces finder_env rotated_app sample_frame)\<rparr>"
    by auto
  then have "tracked_faces s2 = [(1, (1, 1, 0, 0), Some 1, 0)]" by (simp add: det)
  with p2 rv2 have 2: "\<exists>r s' ftd'. process_video_frame finder_env (2, 2) 0 0 sample_frame
                      (rotated_app, empty_tracking) = Some (r, s', ftd')
       \<and> tracked_faces s' = [(1, (1, 1, 0, 0), Some 1, 0)]
       \<and> r = [[(40, 41, 42), (30, 31, 32)], [(20, 21, 22), (0, 0, 0)]]"
    by simp
  show ?thesis using 1 2 det_rot by blast
qed

section \<open>The export run\<close>

text \<open>One iteration of the loop whose frame is read, reported and processed.\<close>

lemma export_loop_step:
  assumes "current_frame_idx st \<le> last_frame"
    and "cap_read cap (cap_pos st) = Some frame"
    and "report_progress cv n_total (frame_count st)"
    and "process_video_frame cv wh (current_frame_idx st) (frame_count st) frame
           (self st, face_tracking_data st) = Some (result_frame, s, ftd)"
  shows "export_loop cv cap out wh n_total last_frame st =
         export_loop cv cap out wh n_total last_frame
           (st\<lparr>self := s, cap_pos := cap_pos st + 1, face_tracking_data := ftd,
               write_calls := write_calls st @ [result_frame],
               written := (if writer_write cv (fourcc out) result_frame
                           then written st @ [result_frame] else written st),
               errors := (if writer_write cv (fourcc out) result_frame
                          then errors st else errors st + 1),
               current_frame_idx := current_frame_idx st + 1,
               frame_count := frame_count st + 1\<rparr>)"
  using assms by (subst export_loop.simps) (simp add: Let_def)

lemma export_loop_done:
  assumes "last_frame < current_frame_idx st \<or> cap_read cap (cap_pos st) = None"
  shows "export_loop cv cap out wh n_total last_frame st = st"
  using assms by (subst export_loop.simps) auto

lemma export_loop_raises:
  assumes "current_frame_idx st \<le> last_frame"
    and "cap_read cap (cap_pos st) = Some frame"
    and "\<not> report_progress cv n_total (frame_count st)
         \<or> process_video_frame cv wh (current_frame_idx st) (frame_count st) frame
              (self st, face_tracking_data st) = None"
  shows "raised (export_loop cv cap out wh n_total last_frame st)"
  using assms by (subst export_loop.simps) auto

text \<open>A loop that no exception leaves, over \<open>n\<close> readable frames and then the end of
  the range or a read that fails: the frames given to the encoder are the results of
  the frame body on the frames read, in order, each on the state its predecessor left.\<close>

lemma export_loop_run:
  assumes "\<forall>k<n. cap_read cap (cap_pos st + int k) \<noteq> None"
    and "(last_frame < current_frame_idx st + int n
           \<and> (0 < n \<longrightarrow> current_frame_idx st + int n = last_frame + 1))
         \<or> (current_frame_idx st + int n \<le> last_frame
             \<and> cap_read cap (cap_pos st + int n) = None)"
    and "\<not> raised (export_loop cv cap out wh n_total last_frame st)"
  shows "\<exists>ws states.
           length ws = n
         \<and> write_calls (export_loop cv cap out wh n_total last_frame st) = write_calls st @ ws
         \<and> written (export_loop cv cap out wh n_total last_frame st)
             = written st @ filter (writer_write cv (fourcc out)) ws
         \<and> errors (export_loop cv cap out wh n_total last_frame st)
             = errors st + int (length (filter (\<lambda>f. \<not> writer_write cv (fourcc out) f) ws))
         \<and> frame_count (export_loop cv cap out wh n_total last_frame st)
             = frame_count st + int n
         \<and> current_frame_idx (export_loop cv cap out wh n_total last_frame st)
             = current_frame_idx st + int n
         \<and> states 0 = (self st, face_tracking_data st)
         \<and> states n = (self (export_loop cv cap out wh n_total last_frame st),
                        face_tracking_data (export_loop cv cap out wh n_total last_frame st))
         \<and> (\<forall>i<n. report_progress cv n_total (frame_count st + int i)
                 \<and> process_video_frame cv wh (current_frame_idx st + int i)
                      (frame_count st + int i) (the (cap_read cap (cap_pos st + int i)))
                      (states i) = Some (ws ! i, states (Suc i)))"
  using assms
proof (induction cv cap out wh n_total last_frame st arbitrary: n rule: export_loop.induct)
  case (1 cv cap out wh n_total last_frame st)
  let ?fin = "export_loop cv cap out wh n_total last_frame st"
  show ?case
  proof (cases n)
    case 0
    with 1(3) have "last_frame < current_frame_idx st \<or> cap_read cap (cap_pos st) = None"
      by auto
    then have fin: "?fin = st" by (rule export_loop_done)
    show ?thesis
      unfolding fin 0
      by (rule exI[of _ "[]"], rule exI[of _ "\<lambda>i. (self st, face_tracking_data st)"]) simp
  next
    case (Suc m)
    with 1(3) have le: "current_frame_idx st \<le> last_frame" by auto
    from 1(2)[rule_format, of 0] Suc obtain frame
      where rd: "cap_read cap (cap_pos st) = Some frame" by auto
    have rp: "report_progress cv n_total (frame_count st)"
      using export_loop_raises[OF le rd, of cv n_total wh out] 1(4) by blast
    have "process_video_frame cv wh (current_frame_idx st) (frame_count st) frame
            (self st, face_tracking_data st) \<noteq> None"
      using export_loop_raises[OF le rd, of cv n_total wh out] 1(4) by blast
    then obtain result_frame s ftd where
      pf: "process_video_frame cv wh (current_frame_idx st) (frame_count st) frame
             (self st, face_tracking_data st) = Some (result_frame, s, ftd)"
      by (cases "process_video_frame cv wh (current_frame_idx st) (frame_count st) frame
                   (self st, face_tracking_data st)") auto
    let ?ok = "writer_write cv (fourcc out) result_frame"
    let ?st' = "st\<lparr>self := s, cap_pos := cap_pos st + 1, face_tracking_data := ftd,
                   write_calls := write_calls st @ [result_frame],
                   written := (if ?ok then written st @ [result_frame] else written st),
                   errors := (if ?ok then errors st else errors st + 1),
                   current_frame_idx := current_frame_idx st + 1,
                   frame_count := frame_count st + 1\<rparr>"
    have step: "?fin = export_loop cv cap out wh n_total last_frame ?st'"
      using export_loop_step[OF le rd rp pf] .
    have shift: "\<And>k. cap_pos ?st' + int k = cap_pos st + int (Suc k)"
      "\<And>k. current_frame_idx ?st' + int k = current_frame_idx st + int (Suc k)"
      "\<And>k. frame_count ?st' + int k = frame_count st + int (Suc k)"
      by simp_all
    have reads: "\<forall>k<m. cap_read cap (cap_pos ?st' + int k) \<noteq> None"
      unfolding shift using 1(2) Suc by auto
    have stop: "(last_frame < current_frame_idx ?st' + int m
           \<and> (0 < m \<longrightarrow> current_frame_idx ?st' + int m = last_frame + 1))
         \<or> (current_frame_idx ?st' + int m \<le> last_frame
             \<and> cap_read cap (cap_pos ?st' + int m) = None)"
      unfolding shift using 1(3) Suc by auto
    have nr: "\<not> raised (export_loop cv cap out wh n_total last_frame ?st')"
      using 1(4) step by simp
    have nnrp: "\<not> \<not> report_progress cv n_total (frame_count st)" using rp by simp
    from 1(1)[OF le rd nnrp pf refl refl refl reads stop nr]
    obtain ws states where
      len: "length ws = m"
      and wc: "write_calls ?fin = write_calls ?st' @ ws"
      and wr: "written ?fin = written ?st' @ filter (writer_write cv (fourcc out)) ws"
      and er: "errors ?fin
             = errors ?st' + int (length (filter (\<lambda>f. \<not> writer_write cv (fourcc out) f) ws))"
      and fc: "frame_count ?fin = frame_count ?st' + int m"
      and ci: "current_frame_idx ?fin = current_frame_idx ?st' + int m"
      and s0: "states 0 = (self ?st', face_tracking_data ?st')"
      and sn: "states m = (self ?fin, face_tracking_data ?fin)"
      and body: "\<forall>i<m. report_progress cv n_total (frame_count ?st' + int i)
                 \<and> process_video_frame cv wh (current_frame_idx ?st' + int i)
                      (frame_count ?st' + int i) (the (cap_read cap (cap_pos ?st' + int i)))
                      (states i) = Some (ws ! i, states (Suc i))"
      unfolding step[symmetric] by auto
    let ?ws = "result_frame # ws"
    let ?states = "\<lambda>i. case i of 0 \<Rightarrow> (self st, face_tracking_data st) | Suc k \<Rightarrow> states k"
    have b: "\<forall>i<n. report_progress cv n_total (frame_count st + int i)
                 \<and> process_video_frame cv wh (current_frame_idx st + int i)
                      (frame_count st + int i) (the (cap_read cap (cap_pos st + int i)))
                      (?states i) = Some (?ws ! i, ?states (Suc i))"
    proof (intro allI impI)
      fix i assume i: "i < n"
      show "report_progress cv n_total (frame_count st + int i)
                 \<and> process_video_frame cv wh (current_frame_idx st + int i)
                      (frame_count st + int i) (the (cap_read cap (cap_pos st + int i)))
                      (?states i) = Some (?ws ! i, ?states (Suc i))"
      proof (cases i)
        case 0
        then show ?thesis using rp pf rd s0 by simp
      next
        case (Suc k)
        with i \<open>n = Suc m\<close> have "k < m" by simp
        with body have "report_progress cv n_total (frame_count ?st' + int k)
                 \<and> process_video_frame cv wh (current_frame_idx ?st' + int k)
                      (frame_count ?st' + int k) (the (cap_read cap (cap_pos ?st' + int k)))
                      (states k) = Some (ws ! k, states (Suc k))" by blast
        then show ?thesis unfolding shift Suc by simp
      qed
    qed
    show ?thesis
      apply (rule exI[of _ ?ws], rule exI[of _ ?states])
      using len wc wr er fc ci sn b \<open>n = Suc m\<close> by (simp add: algebra_simps)
  qed
qed


text \<open>What \<open>process_video\<close> does once the encoder has opened.\<close>

lemma loop_start_fields:
  "current_frame_idx (loop_start cv s video) = fst (frame_range s)"
  "cap_pos (loop_start cv s video) = fst (frame_range s)"
  "frame_count (loop_start cv s video) = 0"
  "errors (loop_start cv s video) = 0"
  "write_calls (loop_start cv s video) = []"
  "written (loop_start cv s video) = []"
  "\<not> raised (loop_start cv s video)"
  by (cases "frame_range s"; simp add: loop_start_def Let_def)+

lemma export_frames_loop:
  assumes "loop_end (export_frames cv cap s video out_dir base_name out_path out tried) = Some st"
  shows "tk_ok cv OpenProgress"
    and "st = export_loop cv cap out (cap_width cap, cap_height cap)
               (snd (frame_range s) - fst (frame_range s) + 1) (snd (frame_range s))
               (loop_start cv s video)"
  using assms
  by (cases "frame_range s"; auto simp add: export_frames_def Let_def split_beta split: if_splits)+

lemma export_frames_encoder:
  "encoder (export_frames cv cap s video out_dir base_name out_path out tried) = Some out"
  by (cases "frame_range s") (simp add: export_frames_def Let_def split_beta)

text \<open>The statuses that \<open>show_current_frame\<close> sets.\<close>

lemma show_current_frame_statuses:
  assumes "x \<in> set (fst (snd (show_current_frame cv cap s)))"
  shows "x = FailedToReadFrame \<or> (\<exists>i n a f. x = FrameStatus i n a f)"
  using assms
  by (auto simp add: show_current_frame_def Let_def split: option.splits if_splits)

text \<open>The \<open>finally\<close> block after a \<open>try\<close> block in which nothing was raised.\<close>

lemma export_frames_finally:
  assumes "loop_end (export_frames cv cap s video out_dir base_name out_path out tried) = Some st"
    and "\<not> try_raised (export_frames cv cap s video out_dir base_name out_path out tried)"
  shows "\<not> raised st"
    and "encoder_released (export_frames cv cap s video out_dir base_name out_path out tried)"
    and "\<exists>pre. (pre = [] \<or> (\<exists>q. pre = [FaceDataSaved q]))
           \<and> status_log (export_frames cv cap s video out_dir base_name out_path out tried)
               = (if tk_ok cv CloseProgress
                  then pre @ [if errors st > 0 then CompletedWithErrors (errors st) out_path
                              else Completed out_path]
                       @ fst (snd (show_current_frame cv cap ((self st)\<lparr>frame_index := 0\<rparr>)))
                  else pre)"
    and "escaped (export_frames cv cap s video out_dir base_name out_path out tried)
           = (\<not> tk_ok cv CloseProgress
              \<or> snd (snd (show_current_frame cv cap ((self st)\<lparr>frame_index := 0\<rparr>))))"
  using assms
  by (cases "frame_range s"; auto simp add: export_frames_def Let_def split_beta split: if_splits)+

lemma process_video_frames:
  assumes "loop_end (process_video cv cap s) = Some st"
  shows "\<exists>video out_dir base_name out_path out tried.
           input_video s = Some video \<and>
           process_video cv cap s
             = export_frames cv cap s video out_dir base_name out_path out tried"
proof -
  from assms obtain v d where v: "input_video s = Some v" and d: "output_path s = Some d"
    by (cases "input_video s"; cases "output_path s") (simp_all add: process_video_def)
  obtain base_name ext where sp: "path_splitext cv (path_basename cv v) = (base_name, ext)"
    by (cases "path_splitext cv (path_basename cv v)") auto
  define ow where "ow = (if crop_enabled s \<and> crop_width s > 0 \<and> crop_height s > 0
                     \<and> crop_type s = ''traditional''
                  then (crop_width s, crop_height s) else (cap_width cap, cap_height cap))"
  obtain out tried where gw:
    "get_video_writer cv (path_join cv d (''processed_'' @ base_name @ ext))
       (fst ow) (snd ow) (cap_fps cap) = (out, tried)"
    by (cases "get_video_writer cv (path_join cv d (''processed_'' @ base_name @ ext))
                 (fst ow) (snd ow) (cap_fps cap)") auto
  have pv: "process_video cv cap s =
     (if \<not> isOpened out then
        \<lparr>final_self = s, status_log = [FailedToCreateOutput], codecs_tried = tried,
         encoder = Some out, encoder_released = False, loop_end = None,
         try_raised = False, json_saved = None, escaped = False\<rparr>
      else export_frames cv cap s v d base_name
             (path_join cv d (''processed_'' @ base_name @ ext)) out tried)"
    using gw by (cases ow) (simp add: process_video_def v d sp Let_def ow_def[symmetric])
  with assms have "isOpened out" by (auto split: if_splits)
  with pv have "process_video cv cap s = export_frames cv cap s v d base_name
             (path_join cv d (''processed_'' @ base_name @ ext)) out tried" by simp
  with v show ?thesis by blast
qed

text \<open>
  C2. The frame loop runs over the range that \<open>process_video\<close> resolves with the
  precedence trim range, then explicit process range (when \<open>blur_entire_video\<close> is off),
  then the entire video. In a run in which the encoder opened, every read in that range
  succeeded and no exception left the loop (the progress report and the frame body
  returned in every iteration), the loop ran once for each index of the range: the
  frames given to \<open>out.write\<close> are, in order, the results of the frame body on the frames
  read at those indices, each computed in the state its predecessor left; the frames
  written are those of them that \<open>out.write\<close> took, the others are counted in \<open>errors\<close>.
  With the trim enabled from frame 10 to frame 20 that is exactly 11 frames, whatever
  \<open>blur_entire_video\<close>, \<open>start_frame\<close> and \<open>end_frame\<close> hold.
\<close>

theorem trim_range_processes_eleven_frames:
  assumes ran: "loop_end (process_video cv cap s) = Some st"
    and nr: "\<not> raised st"
    and range: "(first_frame, last_frame) =
                  (if trim_enabled s then (trim_start_frame s, trim_end_frame s)
                   else if blur_entire_video s then (0, total_frames s - 1)
                   else (start_frame s, end_frame s))"
    and reads: "\<forall>k. first_frame \<le> k \<and> k \<le> last_frame \<longrightarrow> cap_read cap k \<noteq> None"
  shows "\<exists>out video ws states.
           encoder (process_video cv cap s) = Some out \<and> input_video s = Some video
         \<and> write_calls st = ws
         \<and> length ws = nat (last_frame - first_frame + 1)
         \<and> frame_count st = int (length ws)
         \<and> current_frame_idx st = first_frame + int (length ws)
         \<and> written st = filter (writer_write cv (fourcc out)) ws
         \<and> errors st = int (length (filter (\<lambda>f. \<not> writer_write cv (fourcc out) f) ws))
         \<and> states 0 = (self (loop_start cv s video), face_tracking_data (loop_start cv s video))
         \<and> states (length ws) = (self st, face_tracking_data st)
         \<and> (\<forall>i<length ws.
               process_video_frame cv (cap_width cap, cap_height cap) (first_frame + int i)
                 (int i) (the (cap_read cap (first_frame + int i))) (states i)
               = Some (ws ! i, states (Suc i)))
         \<and> (trim_enabled s \<and> trim_start_frame s = 10 \<and> trim_end_frame s = 20
              \<longrightarrow> length ws = 11 \<and> frame_count st = 11
                  \<and> int (length (written st)) + errors st = 11)"
proof -
  have fr: "frame_range s = (first_frame, last_frame)"
    using range by (simp add: frame_range_def)
  from process_video_frames[OF ran]
  obtain video out_dir base_name out_path out tried where
    v: "input_video s = Some video" and
    pv: "process_video cv cap s
           = export_frames cv cap s video out_dir base_name out_path out tried" by blast
  let ?st0 = "loop_start cv s video"
  let ?n = "nat (last_frame - first_frame + 1)"
  let ?wh = "(cap_width cap, cap_height cap)"
  let ?tot = "last_frame - first_frame + 1"
  have le: "loop_end (export_frames cv cap s video out_dir base_name out_path out tried) = Some st"
    using ran pv by simp
  have st: "st = export_loop cv cap out ?wh ?tot last_frame ?st0"
    using export_frames_loop(2)[OF le] by (simp add: fr)
  have enc: "encoder (process_video cv cap s) = Some out"
    unfolding pv by (rule export_frames_encoder)
  have f0: "current_frame_idx ?st0 = first_frame" "cap_pos ?st0 = first_frame"
    "frame_count ?st0 = 0" "errors ?st0 = 0" "written ?st0 = []" "write_calls ?st0 = []"
    by (simp_all add: loop_start_fields fr)
  have rd: "\<forall>k<?n. cap_read cap (cap_pos ?st0 + int k) \<noteq> None"
    using reads by (auto simp add: f0)
  have stop: "(last_frame < current_frame_idx ?st0 + int ?n
           \<and> (0 < ?n \<longrightarrow> current_frame_idx ?st0 + int ?n = last_frame + 1))
         \<or> (current_frame_idx ?st0 + int ?n \<le> last_frame
             \<and> cap_read cap (cap_pos ?st0 + int ?n) = None)"
    by (auto simp add: f0)
  have nr': "\<not> raised (export_loop cv cap out ?wh ?tot last_frame ?st0)"
    using nr st by simp
  from export_loop_run[OF rd stop nr']
  obtain ws states where
    len: "length ws = ?n"
    and wc: "write_calls st = ws"
    and wr: "written st = filter (writer_write cv (fourcc out)) ws"
    and er: "errors st = int (length (filter (\<lambda>f. \<not> writer_write cv (fourcc out) f) ws))"
    and fc: "frame_count st = int ?n"
    and ci: "current_frame_idx st = first_frame + int ?n"
    and s0: "states 0 = (self ?st0, face_tracking_data ?st0)"
    and sn: "states ?n = (self st, face_tracking_data st)"
    and body: "\<forall>i<?n. report_progress cv ?tot (int i)
                 \<and> process_video_frame cv ?wh (first_frame + int i) (int i)
                      (the (cap_read cap (first_frame + int i))) (states i)
                    = Some (ws ! i, states (Suc i))"
    unfolding st[symmetric] f0 by auto
  have split: "int (length (written st)) + errors st = int (length ws)"
    unfolding wr er using sum_length_filter_compl[of "writer_write cv (fourcc out)" ws]
    by linarith
  have trim: "trim_enabled s \<and> trim_start_frame s = 10 \<and> trim_end_frame s = 20
              \<longrightarrow> length ws = 11 \<and> frame_count st = 11
                  \<and> int (length (written st)) + errors st = 11"
    using range len fc split by auto
  show ?thesis
    apply (rule exI[of _ out], rule exI[of _ video], rule exI[of _ ws], rule exI[of _ states])
    using enc v wc len fc ci wr er s0 sn body trim by simp
qed

theorem trim_range_processes_eleven_frames_witness:
  "(\<exists>st. loop_end (process_video sample_env (sample_cap 100) trim_app) = Some st
        \<and> \<not> raised st \<and> length (write_calls st) = 11 \<and> frame_count st = 11
        \<and> length (written st) = 11 \<and> errors st = 0 \<and> current_frame_idx st = 21)
   \<and> (\<exists>st. loop_end (process_video sample_env (sample_cap 100)
                       (opened_app\<lparr>blur_entire_video := False, start_frame := 2,
                                    end_frame := 4\<rparr>)) = Some st
        \<and> \<not> raised st \<and> length (write_calls st) = 3 \<and> current_frame_idx st = 5)
   \<and> (\<exists>st. loop_end (process_video sample_env (sample_cap 4) detect_app) = Some st
        \<and> \<not> raised st \<and> length (write_calls st) = 4 \<and> current_frame_idx st = 4)"
proof -
  let ?range_app = "opened_app\<lparr>blur_entire_video := False, start_frame := 2, end_frame := 4\<rparr>"
  have t: "trim_enabled trim_app \<and> trim_start_frame trim_app = 10 \<and> trim_end_frame trim_app = 20"
    by (simp add: trim_app_def)
  have r1: "(10, 20) =
                  (if trim_enabled trim_app then (trim_start_frame trim_app, trim_end_frame trim_app)
                   else if blur_entire_video trim_app then (0, total_frames trim_app - 1)
                   else (start_frame trim_app, end_frame trim_app))"
    by (simp add: trim_app_def)
  have r2: "(2, 4) =
                  (if trim_enabled ?range_app
                   then (trim_start_frame ?range_app, trim_end_frame ?range_app)
                   else if blur_entire_video ?range_app then (0, total_frames ?range_app - 1)
                   else (start_frame ?range_app, end_frame ?range_app))"
    by (simp add: opened_app_def init_app_def)
  have r3: "(0, 3) =
                  (if trim_enabled detect_app
                   then (trim_start_frame detect_app, trim_end_frame detect_app)
                   else if blur_entire_video detect_app then (0, total_frames detect_app - 1)
                   else (start_frame detect_app, end_frame detect_app))"
    by (simp add: detect_app_def opened_app_def init_app_def)
  have reads1: "\<forall>k. 10 \<le> k \<and> k \<le> 20 \<longrightarrow> cap_read (sample_cap 100) k \<noteq> None"
    and reads2: "\<forall>k. 2 \<le> k \<and> k \<le> 4 \<longrightarrow> cap_read (sample_cap 100) k \<noteq> None"
    and reads3: "\<forall>k. 0 \<le> k \<and> k \<le> 3 \<longrightarrow> cap_read (sample_cap 4) k \<noteq> None"
    by (simp_all add: sample_cap_def)
  have "loop_end (process_video sample_env (sample_cap 100) trim_app) \<noteq> None" by code_simp
  then obtain st1 where
    st1: "loop_end (process_video sample_env (sample_cap 100) trim_app) = Some st1" by blast
  have "\<not> raised (the (loop_end (process_video sample_env (sample_cap 100) trim_app)))"
    by code_simp
  then have nr1: "\<not> raised st1" by (simp add: st1)
  have "loop_end (process_video sample_env (sample_cap 100) ?range_app) \<noteq> None" by code_simp
  then obtain st2 where
    st2: "loop_end (process_video sample_env (sample_cap 100) ?range_app) = Some st2" by blast
  have "\<not> raised (the (loop_end (process_video sample_env (sample_cap 100) ?range_app)))"
    by code_simp
  then have nr2: "\<not> raised st2" by (simp add: st2)
  have "loop_end (process_video sample_env (sample_cap 4) detect_app) \<noteq> None" by code_simp
  then obtain st3 where
    st3: "loop_end (process_video sample_env (sample_cap 4) detect_app) = Some st3" by blast
  have "\<not> raised (the (loop_end (process_video sample_env (sample_cap 4) detect_app)))"
    by code_simp
  then have nr3: "\<not> raised st3" by (simp add: st3)
  have all: "\<And>c ws. filter (writer_write sample_env c) ws = ws"
    "\<And>c ws. filter (\<lambda>f. \<not> writer_write sample_env c f) ws = []"
    by (simp_all add: sample_env_def)
  from trim_range_processes_eleven_frames[OF st1 nr1 r1 reads1] t
  have a: "length (write_calls st1) = 11 \<and> frame_count st1 = 11
        \<and> length (written st1) = 11 \<and> errors st1 = 0 \<and> current_frame_idx st1 = 21"
    unfolding all by auto
  from trim_range_processes_eleven_frames[OF st2 nr2 r2 reads2]
  have b: "length (write_calls st2) = 3 \<and> current_frame_idx st2 = 5" by auto
  from trim_range_processes_eleven_frames[OF st3 nr3 r3 reads3]
  have c: "length (write_calls st3) = 4 \<and> current_frame_idx st3 = 4" by auto
  from a b c st1 st2 st3 nr1 nr2 nr3 show ?thesis by blast
qed

text \<open>
  C5, as the claim states it, fails: with the range 10..20 and a capture whose read
  fails at index 15, the run processes 5 frames, raises nothing, and sets the same
  statuses as a run that read every frame: "Video processing completed", then the
  status line of the redisplayed frame 0. There is no failure status.
\<close>

theorem failed_read_reported_as_completed_counterexample:
  "cap_read (sample_cap 15) 15 = None
   \<and> frame_range trim_app = (10, 20)
   \<and> map_option frame_count (loop_end (process_video sample_env (sample_cap 15) trim_app))
       = Some 5
   \<and> map_option (\<lambda>st. length (write_calls st))
        (loop_end (process_video sample_env (sample_cap 15) trim_app)) = Some 5
   \<and> \<not> try_raised (process_video sample_env (sample_cap 15) trim_app)
   \<and> \<not> escaped (process_video sample_env (sample_cap 15) trim_app)
   \<and> status_log (process_video sample_env (sample_cap 15) trim_app)
       = [Completed ''out/processed_a.mp4'', FrameStatus 1 100 0 0]
   \<and> status_log (process_video sample_env (sample_cap 100) trim_app)
       = [Completed ''out/processed_a.mp4'', FrameStatus 1 100 0 0]"
  by code_simp

text \<open>
  C5, amended. When a read fails at an index \<open>j\<close> inside the resolved range, after
  successful reads from the first frame of the range up to \<open>j - 1\<close>, and no exception is
  raised inside the \<open>try\<close> block, the loop stops at \<open>j\<close>: exactly the frames before \<open>j\<close>
  were processed and given to the encoder, and the \<open>finally\<close> block runs as after a full
  run. It releases the encoder and destroys the progress window; if that call returns,
  it sets the ordinary completion status (with the error count when writes failed),
  preceded at most by the notice that the face data was saved, and then
  \<open>show_current_frame()\<close> redisplays frame 0 and sets what it sets: the status line of
  that frame, or "Failed to read frame" when frame 0 cannot be read, or nothing when it
  raises. No error status is set at any point.
\<close>

theorem failed_read_ends_run_normally:
  assumes "loop_end (process_video cv cap s) = Some st"
    and "frame_range s = (first_frame, last_frame)"
    and "\<forall>k. first_frame \<le> k \<and> k < j \<longrightarrow> cap_read cap k \<noteq> None"
    and "cap_read cap j = None" and "first_frame \<le> j" and "j \<le> last_frame"
    and "\<not> try_raised (process_video cv cap s)"
  shows "frame_count st = j - first_frame
       \<and> int (length (write_calls st)) = j - first_frame
       \<and> int (length (written st)) + errors st = j - first_frame
       \<and> current_frame_idx st = j
       \<and> encoder_released (process_video cv cap s)
       \<and> (\<exists>pre p. (pre = [] \<or> (\<exists>q. pre = [FaceDataSaved q]))
            \<and> status_log (process_video cv cap s)
                = (if tk_ok cv CloseProgress
                   then pre @ [if errors st > 0 then CompletedWithErrors (errors st) p
                               else Completed p]
                        @ fst (snd (show_current_frame cv cap ((self st)\<lparr>frame_index := 0\<rparr>)))
                   else pre))
       \<and> escaped (process_video cv cap s)
           = (\<not> tk_ok cv CloseProgress
              \<or> snd (snd (show_current_frame cv cap ((self st)\<lparr>frame_index := 0\<rparr>))))
       \<and> set (status_log (process_video cv cap s))
            \<inter> {SelectInputAndOutput, FailedToCreateOutput, ErrorDuringProcessing} = {}"
proof -
  from process_video_frames[OF assms(1)]
  obtain video out_dir base_name out_path out tried where
    pv: "process_video cv cap s
           = export_frames cv cap s video out_dir base_name out_path out tried" by blast
  let ?st0 = "loop_start cv s video"
  let ?n = "nat (j - first_frame)"
  let ?wh = "(cap_width cap, cap_height cap)"
  let ?tot = "last_frame - first_frame + 1"
  let ?shown = "show_current_frame cv cap ((self st)\<lparr>frame_index := 0\<rparr>)"
  have le: "loop_end (export_frames cv cap s video out_dir base_name out_path out tried) = Some st"
    using assms(1) pv by simp
  have ntr: "\<not> try_raised (export_frames cv cap s video out_dir base_name out_path out tried)"
    using assms(7) pv by simp
  have st: "st = export_loop cv cap out ?wh ?tot last_frame ?st0"
    using export_frames_loop(2)[OF le] by (simp add: assms(2))
  have f0: "current_frame_idx ?st0 = first_frame" "cap_pos ?st0 = first_frame"
    "frame_count ?st0 = 0" "errors ?st0 = 0" "written ?st0 = []" "write_calls ?st0 = []"
    by (simp_all add: loop_start_fields assms(2))
  have jn: "first_frame + int ?n = j" using assms(5) by simp
  have rd: "\<forall>k<?n. cap_read cap (cap_pos ?st0 + int k) \<noteq> None"
    using assms(3,5) by (auto simp add: f0)
  have stop: "(last_frame < current_frame_idx ?st0 + int ?n
           \<and> (0 < ?n \<longrightarrow> current_frame_idx ?st0 + int ?n = last_frame + 1))
         \<or> (current_frame_idx ?st0 + int ?n \<le> last_frame
             \<and> cap_read cap (cap_pos ?st0 + int ?n) = None)"
    using assms(4,6) unfolding f0 jn by simp
  note fin = export_frames_finally[OF le ntr]
  have nr': "\<not> raised (export_loop cv cap out ?wh ?tot last_frame ?st0)"
    using fin(1) st by simp
  from export_loop_run[OF rd stop nr']
  obtain ws where
    len: "length ws = ?n"
    and wc: "write_calls st = ws"
    and wr: "written st = filter (writer_write cv (fourcc out)) ws"
    and er: "errors st = int (length (filter (\<lambda>f. \<not> writer_write cv (fourcc out) f) ws))"
    and fc: "frame_count st = int ?n"
    and ci: "current_frame_idx st = first_frame + int ?n"
    unfolding st[symmetric] f0 by auto
  have split: "int (length (written st)) + errors st = int (length ws)"
    unfolding wr er using sum_length_filter_compl[of "writer_write cv (fourcc out)" ws]
    by linarith
  have counts: "frame_count st = j - first_frame
       \<and> int (length (write_calls st)) = j - first_frame
       \<and> int (length (written st)) + errors st = j - first_frame
       \<and> current_frame_idx st = j"
    using fc ci wc len split assms(5) by simp
  from fin(3) obtain pre where
    pre: "pre = [] \<or> (\<exists>q. pre = [FaceDataSaved q])"
    and log: "status_log (process_video cv cap s)
                = (if tk_ok cv CloseProgress
                   then pre @ [if errors st > 0 then CompletedWithErrors (errors st) out_path
                               else Completed out_path]
                        @ fst (snd ?shown)
                   else pre)"
    unfolding pv by blast
  have logs: "\<exists>pre p. (pre = [] \<or> (\<exists>q. pre = [FaceDataSaved q]))
            \<and> status_log (process_video cv cap s)
                = (if tk_ok cv CloseProgress
                   then pre @ [if errors st > 0 then CompletedWithErrors (errors st) p
                               else Completed p]
                        @ fst (snd ?shown)
                   else pre)"
    using pre log by blast
  have none: "set (status_log (process_video cv cap s))
            \<inter> {SelectInputAndOutput, FailedToCreateOutput, ErrorDuringProcessing} = {}"
    unfolding log using pre show_current_frame_statuses[of _ cv cap "(self st)\<lparr>frame_index := 0\<rparr>"]
    by (auto split: if_splits)
  from counts fin(2,4) logs none show ?thesis unfolding pv by blast
qed

theorem failed_read_ends_run_normally_witness:
  "\<exists>st. loop_end (process_video sample_env (sample_cap 15) trim_app) = Some st
        \<and> \<not> try_raised (process_video sample_env (sample_cap 15) trim_app)
        \<and> frame_count st = 5 \<and> length (write_calls st) = 5 \<and> current_frame_idx st = 15
        \<and> encoder_released (process_video sample_env (sample_cap 15) trim_app)
        \<and> set (status_log (process_video sample_env (sample_cap 15) trim_app))
            \<inter> {SelectInputAndOutput, FailedToCreateOutput, ErrorDuringProcessing} = {}"
proof -
  have fr: "frame_range trim_app = (10, 20)"
    by (simp add: frame_range_def trim_app_def)
  have reads: "\<forall>k. 10 \<le> k \<and> k < 15 \<longrightarrow> cap_read (sample_cap 15) k \<noteq> None"
    and fails: "cap_read (sample_cap 15) 15 = None"
    by (simp_all add: sample_cap_def)
  have ran: "loop_end (process_video sample_env (sample_cap 15) trim_app) \<noteq> None"
    by code_simp
  then obtain st where st: "loop_end (process_video sample_env (sample_cap 15) trim_app) = Some st"
    by blast
  have ntr: "\<not> try_raised (process_video sample_env (sample_cap 15) trim_app)"
    by code_simp
  from failed_read_ends_run_normally[OF st fr reads fails _ _ ntr] st ntr show ?thesis by simp
qed

section \<open>Preview against export\<close>

lemma slice_index_clip:
  assumes "0 \<le> x" and "0 < w" and "x < int n"
  shows "slice_index n (x + min w (int n - x)) = slice_index n (x + w)"
  using assms by (auto simp: slice_index_def min_def)

lemma slice_update_bounds:
  assumes "slice_index (length xs) a = slice_index (length xs) a'"
    and "slice_index (length xs) b = slice_index (length xs) b'"
  shows "slice_update a b g xs = slice_update a' b' g xs"
  using assms by (simp add: slice_update_def)

lemma slice_update_cong:
  assumes "\<And>x. x \<in> set xs \<Longrightarrow> g x = g' x"
  shows "slice_update a b g xs = slice_update a b g' xs"
  unfolding slice_update_def Let_def
  by (rule map_cong[OF refl]) (auto dest: set_zip_rightD simp: assms)

lemma crop_mask_clip:
  assumes "0 \<le> x" "x < width" "0 \<le> y" "y < height" "0 < w" "0 < h"
    and "m = replicate (nat height) (replicate (nat width) v)"
  shows "slice_update y (y + min h (height - y))
           (slice_update x (x + min w (width - x)) g) m
       = slice_update y (y + h) (slice_update x (x + w) g) m"
proof -
  have wn: "int (nat width) = width" and hn: "int (nat height) = height"
    using assms by simp_all
  have lm: "length m = nat height" using assms(7) by simp
  have inner: "\<And>row. row \<in> set m \<Longrightarrow>
      slice_update x (x + min w (width - x)) g row = slice_update x (x + w) g row"
  proof -
    fix row assume "row \<in> set m"
    then have lr: "length row = nat width" using assms(7) by auto
    have "slice_index (length row) (x + min w (width - x)) = slice_index (length row) (x + w)"
      using slice_index_clip[of x w "nat width"] assms(1,2,5) by (simp add: lr wn)
    then show "slice_update x (x + min w (width - x)) g row = slice_update x (x + w) g row"
      by (intro slice_update_bounds) simp_all
  qed
  have outer: "slice_index (length m) (y + min h (height - y)) = slice_index (length m) (y + h)"
    using slice_index_clip[of y h "nat height"] assms(3,4,6) by (simp add: lm hn)
  have "slice_update y (y + min h (height - y)) (slice_update x (x + min w (width - x)) g) m
      = slice_update y (y + min h (height - y)) (slice_update x (x + w) g) m"
    by (rule slice_update_cong) (rule inner)
  also have "\<dots> = slice_update y (y + h) (slice_update x (x + w) g) m"
    by (intro slice_update_bounds outer) simp
  finally show ?thesis .
qed

text \<open>No stage of the preview changes the size of the frame it is given.\<close>

lemma apply_mask_effect_shape:
  assumes "apply_mask_effect cv f m effect strength color = Some r"
  shows "map length r = map length f"
  using apply_mask_effect_cases[OF assms] np_where_nth(1) by blast

lemma apply_mask_effect_unknown:
  assumes "effect \<noteq> ''blur''" "effect \<noteq> ''pixelate''" "effect \<noteq> ''solid''" "effect \<noteq> ''black''"
  shows "apply_mask_effect cv f m effect strength color = Some f"
  using assms by (simp add: apply_mask_effect_def)

lemma apply_shapes_shape:
  assumes "apply_shapes cv idx hw shs r = Some r'"
  shows "map length r' = map length r"
  using assms
proof (induction shs arbitrary: r)
  case Nil
  then show ?case by simp
next
  case (Cons sh rest)
  show ?case
  proof (cases "len_shape sh \<ge> 7 \<and> (idx < shape_start sh \<or> idx > shape_end sh)")
    case True
    with Cons show ?thesis by simp
  next
    case False
    obtain t p e k c extra where sh: "sh = (t, p, e, k, c, extra)" by (cases sh) auto
    from Cons.prems False obtain m r1 where
      "apply_mask_effect cv r m e k c = Some r1" and "apply_shapes cv idx hw rest r1 = Some r'"
      by (auto simp: sh split: option.splits)
    with Cons.IH[of r1] apply_mask_effect_shape[of cv r m e k c r1] show ?thesis by simp
  qed
qed

lemma preview_faces_shape:
  assumes "preview_faces cv s frame r = Some (r', s')"
  shows "map length r' = map length r"
proof (cases "auto_detect_faces s \<and> rtmpose_initialized s")
  case False
  with assms faces_disabled(1)[OF False, of cv frame r] show ?thesis by simp
next
  case True
  then have on: "auto_detect_faces s" "rtmpose_initialized s" by blast+
  have f: "detection_frequency s \<noteq> 0"
    using assms on by (auto simp: preview_faces_def)
  define s1 where "s1 = (if frame_index s mod detection_frequency s = 0 \<or> tracked_faces s = []
               then s\<lparr>tracked_faces := fst (detect_faces cv s frame),
                       tracker := snd (detect_faces cv s frame)\<rparr>
               else s)"
  show ?thesis
    using assms unfolding preview_faces_unfold[OF on f s1_def, of r]
    by (cases "tracked_faces s1 = []") (auto simp: bind_eq_Some_conv dest: apply_mask_effect_shape)
qed

lemma preview_crop_shape:
  assumes "preview_crop cv s frame r = Some r'"
  shows "map length r' = map length r"
  using assms
  by (auto simp: preview_crop_def Let_def split_beta bind_eq_Some_conv
           split: if_splits dest: apply_mask_effect_shape)

lemma process_frame_shape:
  assumes "process_frame cv s frame = Some (r, s')"
  shows "\<exists>rotated. (if rotation_enabled s \<and> rotation_angle s \<noteq> 0
                     then rotate_frame cv frame (rotation_angle s) else Some frame) = Some rotated
                  \<and> same_shape r rotated"
proof -
  from process_frame_stages[OF assms] obtain rotated faced shaped where
    rot: "(if rotation_enabled s \<and> rotation_angle s \<noteq> 0
            then rotate_frame cv frame (rotation_angle s) else Some frame) = Some rotated"
    and a: "preview_faces cv s frame rotated = Some (faced, s')"
    and b: "apply_shapes cv (frame_index s') (frame_shape frame) (shapes s') faced = Some shaped"
    and c: "preview_crop cv s' frame shaped = Some r" by blast
  have "map length r = map length rotated"
    using preview_faces_shape[OF a] apply_shapes_shape[OF b] preview_crop_shape[OF c] by simp
  with rot show ?thesis by (auto simp: same_shape_def)
qed

text \<open>The crop stage of the preview reads nothing of the activation range.\<close>

lemma preview_crop_ignores_range:
  "preview_crop cv (s\<lparr>crop_all_frames := af, crop_start_frame := lo, crop_end_frame := hi\<rparr>)
     frame r = preview_crop cv s frame r"
  by (simp add: preview_crop_def Let_def split_beta cong: if_cong)

lemma preview_faces_ignores_range:
  "preview_faces cv (s\<lparr>crop_all_frames := af, crop_start_frame := lo, crop_end_frame := hi\<rparr>)
     frame r
   = map_option (\<lambda>(r', s'). (r', s'\<lparr>crop_all_frames := af, crop_start_frame := lo,
                                      crop_end_frame := hi\<rparr>))
       (preview_faces cv s frame r)"
proof -
  let ?u = "\<lambda>s::'a app. s\<lparr>crop_all_frames := af, crop_start_frame := lo, crop_end_frame := hi\<rparr>"
  have det: "detect_faces cv (?u s) frame = detect_faces cv s frame"
    by (simp add: detect_faces_def)
  have mk: "\<And>s1. create_face_mask cv (?u s1) frame = create_face_mask cv s1 frame"
    by (simp add: create_face_mask_def split: prod.split option.split)
  show ?thesis
  proof (cases "auto_detect_faces s \<and> rtmpose_initialized s")
    case False
    then have "\<not> (auto_detect_faces (?u s) \<and> rtmpose_initialized (?u s))" by simp
    from faces_disabled(1)[OF this, of cv frame r] faces_disabled(1)[OF False, of cv frame r]
    show ?thesis by simp
  next
    case True
    then have on: "auto_detect_faces s" "rtmpose_initialized s" by blast+
    have on': "auto_detect_faces (?u s)" "rtmpose_initialized (?u s)" using on by simp_all
    show ?thesis
    proof (cases "detection_frequency s = 0")
      case True
      then show ?thesis using on by (simp add: preview_faces_def)
    next
      case False
      then have f': "detection_frequency (?u s) \<noteq> 0" by simp
      define s1 where "s1 = (if frame_index s mod detection_frequency s = 0 \<or> tracked_faces s = []
               then s\<lparr>tracked_faces := fst (detect_faces cv s frame),
                       tracker := snd (detect_faces cv s frame)\<rparr>
               else s)"
      have s1u: "?u s1 = (if frame_index (?u s) mod detection_frequency (?u s) = 0
                             \<or> tracked_faces (?u s) = []
               then (?u s)\<lparr>tracked_faces := fst (detect_faces cv (?u s) frame),
                       tracker := snd (detect_faces cv (?u s) frame)\<rparr>
               else ?u s)"
        unfolding det by (simp add: s1_def)
      have flds: "tracked_faces (?u s1) = tracked_faces s1" "mask_type (?u s1) = mask_type s1"
        "blur_strength (?u s1) = blur_strength s1" "mask_color (?u s1) = mask_color s1"
        by simp_all
      show ?thesis
        unfolding preview_faces_unfold[OF on' f' s1u, of r]
          preview_faces_unfold[OF on False s1_def, of r] mk flds
        by (cases "create_face_mask cv s1 frame"; cases "tracked_faces s1 = []"; simp;
            case_tac "apply_mask_effect cv r a (mask_type s1) (blur_strength s1) (mask_color s1)";
            simp)
    qed
  qed
qed

lemma process_frame_ignores_range:
  "map_option fst
     (process_frame cv (s\<lparr>crop_all_frames := af, crop_start_frame := lo, crop_end_frame := hi\<rparr>)
        frame)
   = map_option fst (process_frame cv s frame)"
proof -
  let ?u = "\<lambda>s::'a app. s\<lparr>crop_all_frames := af, crop_start_frame := lo, crop_end_frame := hi\<rparr>"
  let ?rot = "if rotation_enabled s \<and> rotation_angle s \<noteq> 0
              then rotate_frame cv frame (rotation_angle s) else Some frame"
  have pu: "process_frame cv (?u s) frame =
      Option.bind ?rot (\<lambda>rotated.
        Option.bind (preview_faces cv (?u s) frame rotated)
          (\<lambda>(faced, s').
             Option.bind (apply_shapes cv (frame_index s') (frame_shape frame) (shapes s') faced)
               (\<lambda>shaped. Option.bind (preview_crop cv s' frame shaped)
                  (\<lambda>r. Some (r, s')))))"
    by (simp add: process_frame_def Let_def)
  have pf: "process_frame cv s frame =
      Option.bind ?rot (\<lambda>rotated.
        Option.bind (preview_faces cv s frame rotated)
          (\<lambda>(faced, s').
             Option.bind (apply_shapes cv (frame_index s') (frame_shape frame) (shapes s') faced)
               (\<lambda>shaped. Option.bind (preview_crop cv s' frame shaped)
                  (\<lambda>r. Some (r, s')))))"
    by (simp add: process_frame_def Let_def)
  show ?thesis
  proof (cases ?rot)
    case None
    then show ?thesis unfolding pu pf by simp
  next
    case (Some rotated)
    show ?thesis
    proof (cases "preview_faces cv s frame rotated")
      case None
      then show ?thesis unfolding pu pf by (simp add: Some preview_faces_ignores_range)
    next
      case fs: (Some p)
      obtain faced s' where p: "p = (faced, s')" by (cases p) auto
      have l: "process_frame cv (?u s) frame =
          Option.bind (apply_shapes cv (frame_index s') (frame_shape frame) (shapes s') faced)
            (\<lambda>shaped. Option.bind (preview_crop cv s' frame shaped)
               (\<lambda>r. Some (r, ?u s')))"
        unfolding pu
        by (simp add: Some preview_faces_ignores_range fs p preview_crop_ignores_range)
      have r: "process_frame cv s frame =
          Option.bind (apply_shapes cv (frame_index s') (frame_shape frame) (shapes s') faced)
            (\<lambda>shaped. Option.bind (preview_crop cv s' frame shaped)
               (\<lambda>r. Some (r, s')))"
        unfolding pf by (simp add: Some fs p)
      show ?thesis
      proof (cases "apply_shapes cv (frame_index s') (frame_shape frame) (shapes s') faced")
        case None
        then show ?thesis by (simp add: l r)
      next
        case (Some shaped)
        then show ?thesis
          by (cases "preview_crop cv s' frame shaped") (simp_all add: l r)
      qed
    qed
  qed
qed

text \<open>A slice from 0 over the whole length returns the sequence.\<close>

lemma py_slice_whole:
  assumes "0 \<le> w" and "int (length xs) \<le> w"
  shows "py_slice 0 (0 + w) xs = xs"
  using assms by (simp add: py_slice_def slice_index_def Let_def)

text \<open>The crop stages agree when the crop is off; or the type is not "mask" and the
  frame is outside the activation range; or a mask crop is inside its range with its
  origin in the frame, where the clamping of the export path changes no slice; or a
  traditional crop covers the whole frame; or the type is not "traditional" and the
  crop mask type names no effect.\<close>

lemma crop_stage_agrees:
  assumes shape: "frame_shape frame = (height, width)"
    and crop: "\<not> (crop_enabled s \<and> crop_width s > 0 \<and> crop_height s > 0)
       \<or> (crop_type s \<noteq> ''mask'' \<and> \<not> crop_all_frames s
           \<and> \<not> (crop_start_frame s \<le> idx \<and> idx \<le> crop_end_frame s))
       \<or> (crop_type s = ''mask''
           \<and> (crop_all_frames s \<or> (crop_start_frame s \<le> idx \<and> idx \<le> crop_end_frame s))
           \<and> 0 \<le> crop_x s \<and> crop_x s < width \<and> 0 \<le> crop_y s \<and> crop_y s < height)
       \<or> (crop_type s = ''traditional'' \<and> crop_x s \<le> 0 \<and> crop_y s \<le> 0
           \<and> width \<le> crop_width s \<and> height \<le> crop_height s
           \<and> int (length result) \<le> height
           \<and> (\<forall>row\<in>set result. int (length row) \<le> width))
       \<or> (crop_type s \<noteq> ''traditional'' \<and> crop_mask_type s \<noteq> ''blur''
           \<and> crop_mask_type s \<noteq> ''pixelate'' \<and> crop_mask_type s \<noteq> ''solid''
           \<and> crop_mask_type s \<noteq> ''black'')"
  shows "export_crop cv s (width, height) idx result = preview_crop cv s frame result"
proof -
  have pos: "0 \<le> height" "0 \<le> width"
    using shape by (auto simp: frame_shape_def split: list.splits)
  have full: "np_full height width 255
                = Some (replicate (nat height) (replicate (nat width) 255))"
    using pos by (simp add: np_full_def)
  consider (off) "\<not> (crop_enabled s \<and> crop_width s > 0 \<and> crop_height s > 0)"
    | (out) "crop_enabled s \<and> crop_width s > 0 \<and> crop_height s > 0"
        "crop_type s \<noteq> ''mask''" "\<not> crop_all_frames s"
        "\<not> (crop_start_frame s \<le> idx \<and> idx \<le> crop_end_frame s)"
    | (hide) "crop_enabled s \<and> crop_width s > 0 \<and> crop_height s > 0"
        "crop_type s = ''mask''"
        "crop_all_frames s \<or> (crop_start_frame s \<le> idx \<and> idx \<le> crop_end_frame s)"
        "0 \<le> crop_x s" "crop_x s < width" "0 \<le> crop_y s" "crop_y s < height"
    | (whole) "crop_enabled s \<and> crop_width s > 0 \<and> crop_height s > 0"
        "crop_type s = ''traditional''" "crop_x s \<le> 0" "crop_y s \<le> 0"
        "width \<le> crop_width s" "height \<le> crop_height s"
        "int (length result) \<le> height" "\<forall>row\<in>set result. int (length row) \<le> width"
    | (idle) "crop_enabled s \<and> crop_width s > 0 \<and> crop_height s > 0"
        "crop_type s \<noteq> ''traditional''" "crop_mask_type s \<noteq> ''blur''"
        "crop_mask_type s \<noteq> ''pixelate''" "crop_mask_type s \<noteq> ''solid''"
        "crop_mask_type s \<noteq> ''black''"
    using crop by blast
  then show ?thesis
  proof cases
    case off
    then show ?thesis by (auto simp: export_crop_def preview_crop_def)
  next
    case out
    then show ?thesis by (auto simp: export_crop_def preview_crop_def)
  next
    case hide
    have xy: "max 0 (min (crop_x s) (width - 1)) = crop_x s"
      "max 0 (min (crop_y s) (height - 1)) = crop_y s"
      using hide by simp_all
    have clip: "slice_update (crop_y s) (crop_y s + min (crop_height s) (height - crop_y s))
           (slice_update (crop_x s) (crop_x s + min (crop_width s) (width - crop_x s)) (\<lambda>_. 0))
           (replicate (nat height) (replicate (nat width) 255))
       = slice_update (crop_y s) (crop_y s + crop_height s)
           (slice_update (crop_x s) (crop_x s + crop_width s) (\<lambda>_. 0))
           (replicate (nat height) (replicate (nat width) 255))"
      using hide by (intro crop_mask_clip[where v = 255]) simp_all
    have e: "export_crop cv s (width, height) idx result =
       apply_mask_effect cv result
         (slice_update (crop_y s) (crop_y s + min (crop_height s) (height - crop_y s))
           (slice_update (crop_x s) (crop_x s + min (crop_width s) (width - crop_x s)) (\<lambda>_. 0))
           (replicate (nat height) (replicate (nat width) 255)))
         (crop_mask_type s) (blur_strength s) (mask_color s)"
      using hide(1-3) by (auto simp: export_crop_def full xy Let_def)
    have p: "preview_crop cv s frame result =
       apply_mask_effect cv result
         (slice_update (crop_y s) (crop_y s + crop_height s)
           (slice_update (crop_x s) (crop_x s + crop_width s) (\<lambda>_. 0))
           (replicate (nat height) (replicate (nat width) 255)))
         (crop_mask_type s) (blur_strength s) (mask_color s)"
      using hide(1-2) by (simp add: preview_crop_def shape full Let_def)
    show ?thesis unfolding e p clip ..
  next
    case whole
    have p: "preview_crop cv s frame result = Some result"
      using whole(1,2) by (simp add: preview_crop_def)
    have x: "max 0 (min (crop_x s) (width - 1)) = 0" "max 0 (min (crop_y s) (height - 1)) = 0"
      using whole(3,4) by simp_all
    have wh: "min (crop_width s) (width - 0) = width" "min (crop_height s) (height - 0) = height"
      using whole(5,6) by simp_all
    have rows: "py_slice 0 (0 + height) result = result"
      using py_slice_whole[OF pos(1) whole(7)] .
    have cols: "map (py_slice 0 (0 + width)) result = result"
      by (rule map_idI) (use whole(8) py_slice_whole[OF pos(2)] in auto)
    have cut: "Some (map (py_slice (max 0 (min (crop_x s) (width - 1)))
                 (max 0 (min (crop_x s) (width - 1))
                  + min (crop_width s) (width - max 0 (min (crop_x s) (width - 1)))))
            (py_slice (max 0 (min (crop_y s) (height - 1)))
               (max 0 (min (crop_y s) (height - 1))
                + min (crop_height s) (height - max 0 (min (crop_y s) (height - 1))))
               result)) = Some result"
      unfolding x wh rows cols ..
    have e: "export_crop cv s (width, height) idx result = Some result"
      using whole(1,2) cut by (simp add: export_crop_def Let_def)
    show ?thesis unfolding e p ..
  next
    case idle
    have same: "\<And>m. apply_mask_effect cv result m (crop_mask_type s) (blur_strength s)
                     (mask_color s) = Some result"
      using idle(3-6) by (rule apply_mask_effect_unknown)
    have p: "preview_crop cv s frame result = Some result"
      by (simp add: preview_crop_def shape full same Let_def)
    have e: "export_crop cv s (width, height) idx result = Some result"
      using idle(2) by (simp add: export_crop_def full same Let_def)
    show ?thesis unfolding e p ..
  qed
qed

text \<open>The face stages agree when the two paths decide alike on the refresh, or the
  detector would return what the state holds already; the later stages do not read the
  tracks.\<close>

lemma faces_stage_agrees:
  assumes "auto_detect_faces s \<and> rtmpose_initialized s \<and> detection_frequency s \<noteq> 0
           \<and> tracked_faces s \<noteq> [] \<and> detect_faces cv s frame \<noteq> (tracked_faces s, tracker s)
           \<longrightarrow> (count mod detection_frequency s = 0)
                = (frame_index s mod detection_frequency s = 0)"
  shows "map_option (\<lambda>(r, s', ftd'). (r, s'))
           (export_faces cv s idx count frame result ftd)
         = preview_faces cv s frame result"
proof (cases "auto_detect_faces s \<and> rtmpose_initialized s")
  case False
  then show ?thesis using faces_disabled[OF False] by simp
next
  case True
  then have on: "auto_detect_faces s" "rtmpose_initialized s" by blast+
  show ?thesis
  proof (cases "detection_frequency s = 0")
    case True
    then show ?thesis using on by (simp add: export_faces_def preview_faces_def)
  next
    case False
    define fresh where "fresh = s\<lparr>tracked_faces := fst (detect_faces cv s frame),
                                    tracker := snd (detect_faces cv s frame)\<rparr>"
    define s1 where "s1 = (if frame_index s mod detection_frequency s = 0 \<or> tracked_faces s = []
               then s\<lparr>tracked_faces := fst (detect_faces cv s frame),
                       tracker := snd (detect_faces cv s frame)\<rparr>
               else s)"
    have held: "detect_faces cv s frame = (tracked_faces s, tracker s) \<Longrightarrow> fresh = s"
      by (simp add: fresh_def)
    have "(if count mod detection_frequency s = 0 \<or> tracked_faces s = [] then fresh else s)
        = (if frame_index s mod detection_frequency s = 0 \<or> tracked_faces s = []
           then fresh else s)"
      using assms on False held by (cases "tracked_faces s = []") auto
    then have s1': "s1 = (if count mod detection_frequency s = 0 \<or> tracked_faces s = []
               then s\<lparr>tracked_faces := fst (detect_faces cv s frame),
                       tracker := snd (detect_faces cv s frame)\<rparr>
               else s)"
      unfolding s1_def fresh_def by simp
    show ?thesis
      unfolding preview_faces_unfold[OF on False s1_def, of result]
        export_faces_unfold[OF on False s1', of idx result ftd]
      by (cases "create_face_mask cv s1 frame";
          cases "tracked_faces s1 = []"; simp;
          case_tac "apply_mask_effect cv result a (mask_type s1) (blur_strength s1) (mask_color s1)";
          simp)
  qed
qed

lemma preview_faces_keeps:
  assumes "preview_faces cv s frame result = Some (r, s')"
  shows "\<exists>tf d. s' = s\<lparr>tracked_faces := tf, tracker := d\<rparr>"
proof (cases "auto_detect_faces s \<and> rtmpose_initialized s")
  case False
  with assms faces_disabled(1)[OF False] have "s' = s" by simp
  then have "s' = s\<lparr>tracked_faces := tracked_faces s, tracker := tracker s\<rparr>" by simp
  then show ?thesis by blast
next
  case True
  then have on: "auto_detect_faces s" "rtmpose_initialized s" by blast+
  from preview_faces_refresh[OF assms on]
  have "s' = s\<lparr>tracked_faces := fst (detect_faces cv s frame),
                 tracker := snd (detect_faces cv s frame)\<rparr>
        \<or> s' = s\<lparr>tracked_faces := tracked_faces s, tracker := tracker s\<rparr>"
    by (auto split: if_splits)
  then show ?thesis by blast
qed

lemma later_stages_ignore_tracks:
  "preview_crop cv (s\<lparr>tracked_faces := tf, tracker := d\<rparr>) frame r = preview_crop cv s frame r"
  "export_crop cv (s\<lparr>tracked_faces := tf, tracker := d\<rparr>) wh idx r = export_crop cv s wh idx r"
  "shapes (s\<lparr>tracked_faces := tf, tracker := d\<rparr>) = shapes s"
  "frame_index (s\<lparr>tracked_faces := tf, tracker := d\<rparr>) = frame_index s"
  by (simp_all add: preview_crop_def export_crop_def Let_def split_beta cong: if_cong)

text \<open>The two frame bodies agree when their face stages and their crop stages do.\<close>

lemma frame_bodies_agree:
  assumes shape: "frame_shape frame = (height, width)"
    and cadence: "auto_detect_faces s \<and> rtmpose_initialized s \<and> detection_frequency s \<noteq> 0
           \<and> tracked_faces s \<noteq> [] \<and> detect_faces cv s frame \<noteq> (tracked_faces s, tracker s)
           \<longrightarrow> (count mod detection_frequency s = 0)
                = (frame_index s mod detection_frequency s = 0)"
    and crop: "\<not> (crop_enabled s \<and> crop_width s > 0 \<and> crop_height s > 0)
       \<or> (crop_type s \<noteq> ''mask'' \<and> \<not> crop_all_frames s
           \<and> \<not> (crop_start_frame s \<le> frame_index s \<and> frame_index s \<le> crop_end_frame s))
       \<or> (crop_type s = ''mask''
           \<and> (crop_all_frames s
               \<or> (crop_start_frame s \<le> frame_index s \<and> frame_index s \<le> crop_end_frame s))
           \<and> 0 \<le> crop_x s \<and> crop_x s < width \<and> 0 \<le> crop_y s \<and> crop_y s < height)
       \<or> (crop_type s = ''traditional'' \<and> crop_x s \<le> 0 \<and> crop_y s \<le> 0
           \<and> width \<le> crop_width s \<and> height \<le> crop_height s
           \<and> (\<forall>row\<in>set frame. int (length row) \<le> width)
           \<and> (rotation_enabled s \<longrightarrow>
                (\<forall>rotated. rotate_frame cv frame (rotation_angle s) = Some rotated
                   \<longrightarrow> same_shape rotated frame)))
       \<or> (crop_type s \<noteq> ''traditional'' \<and> crop_mask_type s \<noteq> ''blur''
           \<and> crop_mask_type s \<noteq> ''pixelate'' \<and> crop_mask_type s \<noteq> ''solid''
           \<and> crop_mask_type s \<noteq> ''black'')"
  shows "map_option (\<lambda>(r, s', ftd'). (r, s'))
           (process_video_frame cv (width, height) (frame_index s) count frame (s, ftd))
         = process_frame cv s frame"
proof -
  let ?rot = "if rotation_enabled s \<and> rotation_angle s \<noteq> 0
              then rotate_frame cv frame (rotation_angle s) else Some frame"
  have pv: "process_video_frame cv (width, height) (frame_index s) count frame (s, ftd) =
      Option.bind ?rot (\<lambda>rotated.
        Option.bind (export_faces cv s (frame_index s) count frame rotated ftd)
          (\<lambda>(faced, s', ftd').
             Option.bind (apply_shapes cv (frame_index s) (height, width) (shapes s') faced)
               (\<lambda>shaped. Option.bind (export_crop cv s' (width, height) (frame_index s) shaped)
                  (\<lambda>r. Some (r, s', ftd')))))"
    by (simp add: process_video_frame_def Let_def)
  have pf: "process_frame cv s frame =
      Option.bind ?rot (\<lambda>rotated.
        Option.bind (preview_faces cv s frame rotated)
          (\<lambda>(faced, s').
             Option.bind (apply_shapes cv (frame_index s') (frame_shape frame) (shapes s') faced)
               (\<lambda>shaped. Option.bind (preview_crop cv s' frame shaped)
                  (\<lambda>r. Some (r, s')))))"
    by (simp add: process_frame_def Let_def)
  show ?thesis
  proof (cases ?rot)
    case None
    then show ?thesis unfolding pv pf by simp
  next
    case (Some rotated)
    note agree = faces_stage_agrees[OF cadence, of "frame_index s" rotated ftd]
    show ?thesis
    proof (cases "preview_faces cv s frame rotated")
      case None
      with agree have "export_faces cv s (frame_index s) count frame rotated ftd = None"
        by simp
      with None Some show ?thesis unfolding pv pf by simp
    next
      case fs: (Some p)
      obtain faced s' where p: "p = (faced, s')" by (cases p) auto
      from agree fs p obtain ftd' where
        ex: "export_faces cv s (frame_index s) count frame rotated ftd = Some (faced, s', ftd')"
        by auto
      from preview_faces_keeps[OF fs[unfolded p]] obtain tf d where
        s': "s' = s\<lparr>tracked_faces := tf, tracker := d\<rparr>" by blast
      have later: "shapes s' = shapes s" "frame_index s' = frame_index s"
        by (simp_all add: s')
      have rot: "?rot = Some rotated" by fact
      have l: "process_video_frame cv (width, height) (frame_index s) count frame (s, ftd) =
          Option.bind (apply_shapes cv (frame_index s) (height, width) (shapes s) faced)
            (\<lambda>shaped. Option.bind (export_crop cv s (width, height) (frame_index s) shaped)
               (\<lambda>r. Some (r, s', ftd')))"
        unfolding pv rot by (simp add: ex later s' later_stages_ignore_tracks)
      have r: "process_frame cv s frame =
          Option.bind (apply_shapes cv (frame_index s) (height, width) (shapes s) faced)
            (\<lambda>shaped. Option.bind (preview_crop cv s frame shaped)
               (\<lambda>r. Some (r, s')))"
        unfolding pf rot by (simp add: fs p later shape s' later_stages_ignore_tracks)
      show ?thesis
      proof (cases "apply_shapes cv (frame_index s) (height, width) (shapes s) faced")
        case None
        then show ?thesis by (simp add: l r)
      next
        case shaped: (Some shaped)
        have sizes: "crop_type s = ''traditional'' \<and> crop_x s \<le> 0 \<and> crop_y s \<le> 0
           \<and> width \<le> crop_width s \<and> height \<le> crop_height s
           \<and> (\<forall>row\<in>set frame. int (length row) \<le> width)
           \<and> (rotation_enabled s \<longrightarrow>
                (\<forall>rotated. rotate_frame cv frame (rotation_angle s) = Some rotated
                   \<longrightarrow> same_shape rotated frame))
           \<Longrightarrow> int (length shaped) \<le> height
                \<and> (\<forall>row\<in>set shaped. int (length row) \<le> width)"
        proof -
          assume a: "crop_type s = ''traditional'' \<and> crop_x s \<le> 0 \<and> crop_y s \<le> 0
           \<and> width \<le> crop_width s \<and> height \<le> crop_height s
           \<and> (\<forall>row\<in>set frame. int (length row) \<le> width)
           \<and> (rotation_enabled s \<longrightarrow>
                (\<forall>rotated. rotate_frame cv frame (rotation_angle s) = Some rotated
                   \<longrightarrow> same_shape rotated frame))"
          have "map length rotated = map length frame"
            using rot a by (auto simp: same_shape_def split: if_splits)
          moreover have "map length faced = map length rotated"
            using preview_faces_shape[OF fs[unfolded p]] .
          moreover have "map length shaped = map length faced"
            using apply_shapes_shape[OF shaped] .
          ultimately have ml: "map length shaped = map length frame" by simp
          then have len: "length shaped = length frame" by (metis length_map)
          have h: "int (length frame) = height" using shape by (simp add: frame_shape_def)
          have "\<forall>n\<in>set (map length frame). int n \<le> width" using a by auto
          then have "\<forall>n\<in>set (map length shaped). int n \<le> width" unfolding ml .
          then have "\<forall>row\<in>set shaped. int (length row) \<le> width" by auto
          with len h show ?thesis by simp
        qed
        have crops: "export_crop cv s (width, height) (frame_index s) shaped
                     = preview_crop cv s frame shaped"
          by (rule crop_stage_agrees[OF shape]) (use crop sizes in blast)
        show ?thesis
          by (cases "preview_crop cv s frame shaped") (simp_all add: l r shaped crops)
      qed
    qed
  qed
qed

text \<open>
  C1, as the claim states it, fails. For the same state and frame index 5, with a
  traditional crop of one pixel, \<open>process_frame\<close> returns the whole 2 x 2 frame and the
  export body returns the 1 x 1 cut. With tracks present at frame index 1, the first
  frame of an export, the preview reuses the tracks (face effect at (1, 1)) and the
  export detects again (face effect at (0, 0)). With a mask crop limited to the frames
  0..0, at frame index 5 the preview masks the outside and the export leaves the frame
  as it is.
\<close>

theorem preview_differs_from_export_counterexample:
  "process_frame sample_env crop_app sample_frame \<noteq> None
   \<and> fst (the (process_frame sample_env crop_app sample_frame)) = sample_frame
   \<and> process_video_frame sample_env (2, 2) (frame_index crop_app) 0 sample_frame
        (crop_app, empty_tracking) \<noteq> None
   \<and> fst (the (process_video_frame sample_env (2, 2) (frame_index crop_app) 0 sample_frame
                  (crop_app, empty_tracking))) = [[(10, 11, 12)]]
   \<and> fst (the (process_frame sample_env (tracked_app\<lparr>frame_index := 1\<rparr>) sample_frame))
        = [[(10, 11, 12), (20, 21, 22)], [(30, 31, 32), (0, 0, 0)]]
   \<and> fst (the (process_video_frame sample_env (2, 2) 1 0 sample_frame
                  (tracked_app\<lparr>frame_index := 1\<rparr>, empty_tracking)))
        = [[(0, 0, 0), (20, 21, 22)], [(30, 31, 32), (40, 41, 42)]]
   \<and> fst (the (process_frame sample_env
                  (crop_app\<lparr>crop_type := ''mask'', crop_all_frames := False\<rparr>) sample_frame))
        = [[(10, 11, 12), (0, 0, 0)], [(0, 0, 0), (0, 0, 0)]]
   \<and> fst (the (process_video_frame sample_env (2, 2) 5 0 sample_frame
                  (crop_app\<lparr>crop_type := ''mask'', crop_all_frames := False\<rparr>,
                   empty_tracking)))
        = sample_frame"
  by code_simp

text \<open>
  C1, amended. For a frame of the size of the capture, at the same frame index and in
  the same state, the export body returns what \<open>process_frame\<close> returns (the frame and
  the state with its tracks, or an exception in both), provided that
  \<^item> the face stage decides alike in both paths: face detection is off, or no tracks
    exist, or \<open>frame_count\<close> and the frame index are both multiples of
    \<open>detection_frequency\<close> or both not, or the detector would return the tracks and
    the tracker state already held; and
  \<^item> the crop stage does the same in both paths: the crop is off; or its type is not
    "mask" and the frame is outside the activation range; or it is a mask crop active
    on this frame whose origin lies inside the frame; or it is a traditional crop that
    covers the whole frame (origin at or before (0, 0), size at least the frame's, no row
    of the frame longer than the width, and a rotation that keeps the size of the frame);
    or its type is not "traditional" and the crop mask type names no effect.

  \<^noindent> The preview never cuts the frame: the frame \<open>process_frame\<close> returns has the size
  of the rotated frame. It does not read the activation range: its frame is the same
  whatever \<open>crop_all_frames\<close>, \<open>crop_start_frame\<close> and \<open>crop_end_frame\<close> hold. The crop
  stage of the export returns the frame as it is outside the activation range, and
  inside it cuts the frame to the clamped rectangle for a traditional crop.
\<close>

theorem preview_matches_export:
  "(frame_shape frame = (height, width)
    \<and> (auto_detect_faces s \<and> rtmpose_initialized s \<and> detection_frequency s \<noteq> 0
         \<and> tracked_faces s \<noteq> [] \<and> detect_faces cv s frame \<noteq> (tracked_faces s, tracker s)
         \<longrightarrow> (count mod detection_frequency s = 0)
              = (frame_index s mod detection_frequency s = 0))
    \<and> (\<not> (crop_enabled s \<and> crop_width s > 0 \<and> crop_height s > 0)
       \<or> (crop_type s \<noteq> ''mask'' \<and> \<not> crop_all_frames s
           \<and> \<not> (crop_start_frame s \<le> frame_index s \<and> frame_index s \<le> crop_end_frame s))
       \<or> (crop_type s = ''mask''
           \<and> (crop_all_frames s
               \<or> (crop_start_frame s \<le> frame_index s \<and> frame_index s \<le> crop_end_frame s))
           \<and> 0 \<le> crop_x s \<and> crop_x s < width \<and> 0 \<le> crop_y s \<and> crop_y s < height)
       \<or> (crop_type s = ''traditional'' \<and> crop_x s \<le> 0 \<and> crop_y s \<le> 0
           \<and> width \<le> crop_width s \<and> height \<le> crop_height s
           \<and> (\<forall>row\<in>set frame. int (length row) \<le> width)
           \<and> (rotation_enabled s \<longrightarrow>
                (\<forall>rotated. rotate_frame cv frame (rotation_angle s) = Some rotated
                   \<longrightarrow> same_shape rotated frame)))
       \<or> (crop_type s \<noteq> ''traditional'' \<and> crop_mask_type s \<noteq> ''blur''
           \<and> crop_mask_type s \<noteq> ''pixelate'' \<and> crop_mask_type s \<noteq> ''solid''
           \<and> crop_mask_type s \<noteq> ''black''))
    \<longrightarrow> map_option (\<lambda>(r, s', ftd'). (r, s'))
          (process_video_frame cv (width, height) (frame_index s) count frame (s, ftd))
        = process_frame cv s frame)
   \<and> (\<forall>r s'. process_frame cv s frame = Some (r, s') \<longrightarrow>
         (\<exists>rotated. (if rotation_enabled s \<and> rotation_angle s \<noteq> 0
                      then rotate_frame cv frame (rotation_angle s) else Some frame)
                     = Some rotated
                   \<and> same_shape r rotated))
   \<and> map_option fst
        (process_frame cv
           (s\<lparr>crop_all_frames := af, crop_start_frame := lo, crop_end_frame := hi\<rparr>) frame)
      = map_option fst (process_frame cv s frame)
   \<and> (\<not> crop_all_frames s \<and> \<not> (crop_start_frame s \<le> idx \<and> idx \<le> crop_end_frame s)
        \<longrightarrow> export_crop cv s wh idx res = Some res)
   \<and> (crop_enabled s \<and> crop_width s > 0 \<and> crop_height s > 0
       \<and> crop_type s = ''traditional''
       \<and> (crop_all_frames s \<or> (crop_start_frame s \<le> idx \<and> idx \<le> crop_end_frame s))
        \<longrightarrow> export_crop cv s (width, height) idx res
            = (let x = max 0 (min (crop_x s) (width - 1));
                   y = max 0 (min (crop_y s) (height - 1))
               in Some (map (py_slice x (x + min (crop_width s) (width - x)))
                          (py_slice y (y + min (crop_height s) (height - y)) res))))"
proof (intro conjI)
  show "frame_shape frame = (height, width)
    \<and> (auto_detect_faces s \<and> rtmpose_initialized s \<and> detection_frequency s \<noteq> 0
         \<and> tracked_faces s \<noteq> [] \<and> detect_faces cv s frame \<noteq> (tracked_faces s, tracker s)
         \<longrightarrow> (count mod detection_frequency s = 0)
              = (frame_index s mod detection_frequency s = 0))
    \<and> (\<not> (crop_enabled s \<and> crop_width s > 0 \<and> crop_height s > 0)
       \<or> (crop_type s \<noteq> ''mask'' \<and> \<not> crop_all_frames s
           \<and> \<not> (crop_start_frame s \<le> frame_index s \<and> frame_index s \<le> crop_end_frame s))
       \<or> (crop_type s = ''mask''
           \<and> (crop_all_frames s
               \<or> (crop_start_frame s \<le> frame_index s \<and> frame_index s \<le> crop_end_frame s))
           \<and> 0 \<le> crop_x s \<and> crop_x s < width \<and> 0 \<le> crop_y s \<and> crop_y s < height)
       \<or> (crop_type s = ''traditional'' \<and> crop_x s \<le> 0 \<and> crop_y s \<le> 0
           \<and> width \<le> crop_width s \<and> height \<le> crop_height s
           \<and> (\<forall>row\<in>set frame. int (length row) \<le> width)
           \<and> (rotation_enabled s \<longrightarrow>
                (\<forall>rotated. rotate_frame cv frame (rotation_angle s) = Some rotated
                   \<longrightarrow> same_shape rotated frame)))
       \<or> (crop_type s \<noteq> ''traditional'' \<and> crop_mask_type s \<noteq> ''blur''
           \<and> crop_mask_type s \<noteq> ''pixelate'' \<and> crop_mask_type s \<noteq> ''solid''
           \<and> crop_mask_type s \<noteq> ''black''))
    \<longrightarrow> map_option (\<lambda>(r, s', ftd'). (r, s'))
          (process_video_frame cv (width, height) (frame_index s) count frame (s, ftd))
        = process_frame cv s frame"
    by (rule impI, elim conjE, rule frame_bodies_agree; assumption)
next
  show "\<forall>r s'. process_frame cv s frame = Some (r, s') \<longrightarrow>
         (\<exists>rotated. (if rotation_enabled s \<and> rotation_angle s \<noteq> 0
                      then rotate_frame cv frame (rotation_angle s) else Some frame)
                     = Some rotated
                   \<and> same_shape r rotated)"
    using process_frame_shape by blast
next
  show "map_option fst
        (process_frame cv
           (s\<lparr>crop_all_frames := af, crop_start_frame := lo, crop_end_frame := hi\<rparr>) frame)
      = map_option fst (process_frame cv s frame)"
    by (rule process_frame_ignores_range)
next
  show "\<not> crop_all_frames s \<and> \<not> (crop_start_frame s \<le> idx \<and> idx \<le> crop_end_frame s)
        \<longrightarrow> export_crop cv s wh idx res = Some res"
    by (cases wh) (auto simp: export_crop_def)
next
  show "crop_enabled s \<and> crop_width s > 0 \<and> crop_height s > 0
       \<and> crop_type s = ''traditional''
       \<and> (crop_all_frames s \<or> (crop_start_frame s \<le> idx \<and> idx \<le> crop_end_frame s))
        \<longrightarrow> export_crop cv s (width, height) idx res
            = (let x = max 0 (min (crop_x s) (width - 1));
                   y = max 0 (min (crop_y s) (height - 1))
               in Some (map (py_slice x (x + min (crop_width s) (width - x)))
                          (py_slice y (y + min (crop_height s) (height - y)) res)))"
    by (auto simp: export_crop_def Let_def)
qed

theorem preview_matches_export_witness:
  "process_frame sample_env masked_app sample_frame \<noteq> None
   \<and> map_option (\<lambda>(r, s', ftd'). (r, s'))
        (process_video_frame sample_env (2, 2) (frame_index masked_app) 0 sample_frame
           (masked_app, empty_tracking))
      = process_frame sample_env masked_app sample_frame
   \<and> process_frame sample_env (tracked_app\<lparr>frame_index := 1\<rparr>) sample_frame \<noteq> None
   \<and> map_option (\<lambda>(r, s', ftd'). (r, s'))
        (process_video_frame sample_env (2, 2) 1 2 sample_frame
           (tracked_app\<lparr>frame_index := 1\<rparr>, empty_tracking))
      = process_frame sample_env (tracked_app\<lparr>frame_index := 1\<rparr>) sample_frame
   \<and> map_option (\<lambda>(r, s', ftd'). (r, s'))
        (process_video_frame sample_env (2, 2) 5 0 sample_frame
           (crop_app\<lparr>crop_width := 2, crop_height := 2\<rparr>, empty_tracking))
      = process_frame sample_env (crop_app\<lparr>crop_width := 2, crop_height := 2\<rparr>) sample_frame
   \<and> same_shape (fst (the (process_frame sample_env crop_app sample_frame))) sample_frame
   \<and> map_option fst
        (process_frame sample_env
           (crop_app\<lparr>crop_all_frames := False, crop_start_frame := 0, crop_end_frame := 0\<rparr>)
           sample_frame)
      = map_option fst (process_frame sample_env crop_app sample_frame)
   \<and> export_crop sample_env (crop_app\<lparr>crop_all_frames := False\<rparr>) (2, 2) 5 sample_frame
      = Some sample_frame
   \<and> export_crop sample_env crop_app (2, 2) 5 sample_frame = Some [[(10, 11, 12)]]"
proof -
  let ?near = "tracked_app\<lparr>frame_index := 1\<rparr>"
  let ?whole = "crop_app\<lparr>crop_width := 2, crop_height := 2\<rparr>"
  let ?ranged = "crop_app\<lparr>crop_all_frames := False\<rparr>"
  have shape: "frame_shape sample_frame = (2, 2)"
    by (simp add: frame_shape_def sample_frame_def)
  note defs = masked_app_def tracked_app_def detect_app_def crop_app_def opened_app_def
    init_app_def
  have ret1: "process_frame sample_env masked_app sample_frame \<noteq> None" by code_simp
  have ret2: "process_frame sample_env ?near sample_frame \<noteq> None" by code_simp
  have ret3: "process_frame sample_env crop_app sample_frame \<noteq> None" by code_simp
  have h1: "frame_shape sample_frame = (2, 2)
    \<and> (auto_detect_faces masked_app \<and> rtmpose_initialized masked_app
         \<and> detection_frequency masked_app \<noteq> 0
         \<and> tracked_faces masked_app \<noteq> []
         \<and> detect_faces sample_env masked_app sample_frame
             \<noteq> (tracked_faces masked_app, tracker masked_app)
         \<longrightarrow> (0 mod detection_frequency masked_app = 0)
              = (frame_index masked_app mod detection_frequency masked_app = 0))
    \<and> (\<not> (crop_enabled masked_app \<and> crop_width masked_app > 0 \<and> crop_height masked_app > 0)
       \<or> (crop_type masked_app \<noteq> ''mask'' \<and> \<not> crop_all_frames masked_app
           \<and> \<not> (crop_start_frame masked_app \<le> frame_index masked_app
                \<and> frame_index masked_app \<le> crop_end_frame masked_app))
       \<or> (crop_type masked_app = ''mask''
           \<and> (crop_all_frames masked_app
               \<or> (crop_start_frame masked_app \<le> frame_index masked_app
                   \<and> frame_index masked_app \<le> crop_end_frame masked_app))
           \<and> 0 \<le> crop_x masked_app \<and> crop_x masked_app < 2
           \<and> 0 \<le> crop_y masked_app \<and> crop_y masked_app < 2)
       \<or> (crop_type masked_app = ''traditional'' \<and> crop_x masked_app \<le> 0
           \<and> crop_y masked_app \<le> 0
           \<and> 2 \<le> crop_width masked_app \<and> 2 \<le> crop_height masked_app
           \<and> (\<forall>row\<in>set sample_frame. int (length row) \<le> 2)
           \<and> (rotation_enabled masked_app \<longrightarrow>
                (\<forall>rotated. rotate_frame sample_env sample_frame (rotation_angle masked_app)
                             = Some rotated
                   \<longrightarrow> same_shape rotated sample_frame)))
       \<or> (crop_type masked_app \<noteq> ''traditional'' \<and> crop_mask_type masked_app \<noteq> ''blur''
           \<and> crop_mask_type masked_app \<noteq> ''pixelate'' \<and> crop_mask_type masked_app \<noteq> ''solid''
           \<and> crop_mask_type masked_app \<noteq> ''black''))"
    by (simp add: shape defs)
  have h2: "frame_shape sample_frame = (2, 2)
    \<and> (auto_detect_faces ?near \<and> rtmpose_initialized ?near
         \<and> detection_frequency ?near \<noteq> 0
         \<and> tracked_faces ?near \<noteq> []
         \<and> detect_faces sample_env ?near sample_frame
             \<noteq> (tracked_faces ?near, tracker ?near)
         \<longrightarrow> (2 mod detection_frequency ?near = 0)
              = (frame_index ?near mod detection_frequency ?near = 0))
    \<and> (\<not> (crop_enabled ?near \<and> crop_width ?near > 0 \<and> crop_height ?near > 0)
       \<or> (crop_type ?near \<noteq> ''mask'' \<and> \<not> crop_all_frames ?near
           \<and> \<not> (crop_start_frame ?near \<le> frame_index ?near
                \<and> frame_index ?near \<le> crop_end_frame ?near))
       \<or> (crop_type ?near = ''mask''
           \<and> (crop_all_frames ?near
               \<or> (crop_start_frame ?near \<le> frame_index ?near
                   \<and> frame_index ?near \<le> crop_end_frame ?near))
           \<and> 0 \<le> crop_x ?near \<and> crop_x ?near < 2
           \<and> 0 \<le> crop_y ?near \<and> crop_y ?near < 2)
       \<or> (crop_type ?near = ''traditional'' \<and> crop_x ?near \<le> 0
           \<and> crop_y ?near \<le> 0
           \<and> 2 \<le> crop_width ?near \<and> 2 \<le> crop_height ?near
           \<and> (\<forall>row\<in>set sample_frame. int (length row) \<le> 2)
           \<and> (rotation_enabled ?near \<longrightarrow>
                (\<forall>rotated. rotate_frame sample_env sample_frame (rotation_angle ?near)
                             = Some rotated
                   \<longrightarrow> same_shape rotated sample_frame)))
       \<or> (crop_type ?near \<noteq> ''traditional'' \<and> crop_mask_type ?near \<noteq> ''blur''
           \<and> crop_mask_type ?near \<noteq> ''pixelate'' \<and> crop_mask_type ?near \<noteq> ''solid''
           \<and> crop_mask_type ?near \<noteq> ''black''))"
    by (simp add: shape defs)
  have h3: "frame_shape sample_frame = (2, 2)
    \<and> (auto_detect_faces ?whole \<and> rtmpose_initialized ?whole
         \<and> detection_frequency ?whole \<noteq> 0
         \<and> tracked_faces ?whole \<noteq> []
         \<and> detect_faces sample_env ?whole sample_frame
             \<noteq> (tracked_faces ?whole, tracker ?whole)
         \<longrightarrow> (0 mod detection_frequency ?whole = 0)
              = (frame_index ?whole mod detection_frequency ?whole = 0))
    \<and> (\<not> (crop_enabled ?whole \<and> crop_width ?whole > 0 \<and> crop_height ?whole > 0)
       \<or> (crop_type ?whole \<noteq> ''mask'' \<and> \<not> crop_all_frames ?whole
           \<and> \<not> (crop_start_frame ?whole \<le> frame_index ?whole
                \<and> frame_index ?whole \<le> crop_end_frame ?whole))
       \<or> (crop_type ?whole = ''mask''
           \<and> (crop_all_frames ?whole
               \<or> (crop_start_frame ?whole \<le> frame_index ?whole
                   \<and> frame_index ?whole \<le> crop_end_frame ?whole))
           \<and> 0 \<le> crop_x ?whole \<and> crop_x ?whole < 2
           \<and> 0 \<le> crop_y ?whole \<and> crop_y ?whole < 2)
       \<or> (crop_type ?whole = ''traditional'' \<and> crop_x ?whole \<le> 0
           \<and> crop_y ?whole \<le> 0
           \<and> 2 \<le> crop_width ?whole \<and> 2 \<le> crop_height ?whole
           \<and> (\<forall>row\<in>set sample_frame. int (length row) \<le> 2)
           \<and> (rotation_enabled ?whole \<longrightarrow>
                (\<forall>rotated. rotate_frame sample_env sample_frame (rotation_angle ?whole)
                             = Some rotated
                   \<longrightarrow> same_shape rotated sample_frame)))
       \<or> (crop_type ?whole \<noteq> ''traditional'' \<and> crop_mask_type ?whole \<noteq> ''blur''
           \<and> crop_mask_type ?whole \<noteq> ''pixelate'' \<and> crop_mask_type ?whole \<noteq> ''solid''
           \<and> crop_mask_type ?whole \<noteq> ''black''))"
    by (simp add: frame_shape_def defs sample_frame_def)
  have fi: "frame_index masked_app = 3" "frame_index ?near = 1" "frame_index ?whole = 5"
    by (simp_all add: defs)
  have a: "map_option (\<lambda>(r, s', ftd'). (r, s'))
        (process_video_frame sample_env (2, 2) (frame_index masked_app) 0 sample_frame
           (masked_app, empty_tracking))
      = process_frame sample_env masked_app sample_frame"
    using preview_matches_export[where frame = sample_frame and height = 2 and width = 2
        and s = masked_app and cv = sample_env and count = 0 and ftd = empty_tracking,
        THEN conjunct1] h1 by blast
  have b: "map_option (\<lambda>(r, s', ftd'). (r, s'))
        (process_video_frame sample_env (2, 2) 1 2 sample_frame (?near, empty_tracking))
      = process_frame sample_env ?near sample_frame"
    using preview_matches_export[where frame = sample_frame and height = 2 and width = 2
        and s = ?near and cv = sample_env and count = 2 and ftd = empty_tracking,
        THEN conjunct1] h2 unfolding fi by blast
  have c: "map_option (\<lambda>(r, s', ftd'). (r, s'))
        (process_video_frame sample_env (2, 2) 5 0 sample_frame (?whole, empty_tracking))
      = process_frame sample_env ?whole sample_frame"
    using preview_matches_export[where frame = sample_frame and height = 2 and width = 2
        and s = ?whole and cv = sample_env and count = 0 and ftd = empty_tracking,
        THEN conjunct1] h3 unfolding fi by blast
  obtain r s' where rs: "process_frame sample_env crop_app sample_frame = Some (r, s')"
    using ret3 by (cases "process_frame sample_env crop_app sample_frame") auto
  have rot: "\<not> (rotation_enabled crop_app \<and> rotation_angle crop_app \<noteq> 0)"
    by (simp add: defs)
  have d: "same_shape (fst (the (process_frame sample_env crop_app sample_frame))) sample_frame"
    using preview_matches_export[where frame = sample_frame and s = crop_app
        and cv = sample_env, THEN conjunct2, THEN conjunct1, rule_format, OF rs] rot
    by (auto simp: rs)
  have e: "map_option fst
        (process_frame sample_env
           (crop_app\<lparr>crop_all_frames := False, crop_start_frame := 0, crop_end_frame := 0\<rparr>)
           sample_frame)
      = map_option fst (process_frame sample_env crop_app sample_frame)"
    using preview_matches_export[where frame = sample_frame and s = crop_app
        and cv = sample_env and af = False and lo = 0 and hi = 0,
        THEN conjunct2, THEN conjunct2, THEN conjunct1] .
  have out: "\<not> crop_all_frames ?ranged
             \<and> \<not> (crop_start_frame ?ranged \<le> 5 \<and> 5 \<le> crop_end_frame ?ranged)"
    by (simp add: defs)
  have f: "export_crop sample_env ?ranged (2, 2) 5 sample_frame = Some sample_frame"
    using preview_matches_export[where s = ?ranged and cv = sample_env and idx = 5
        and wh = "(2, 2)" and res = sample_frame,
        THEN conjunct2, THEN conjunct2, THEN conjunct2, THEN conjunct1] out by blast
  have inr: "crop_enabled crop_app \<and> crop_width crop_app > 0 \<and> crop_height crop_app > 0
       \<and> crop_type crop_app = ''traditional''
       \<and> (crop_all_frames crop_app
           \<or> (crop_start_frame crop_app \<le> 5 \<and> 5 \<le> crop_end_frame crop_app))"
    by (simp add: defs)
  have cut: "(let x = max 0 (min (crop_x crop_app) (2 - 1));
                   y = max 0 (min (crop_y crop_app) (2 - 1))
               in Some (map (py_slice x (x + min (crop_width crop_app) (2 - x)))
                          (py_slice y (y + min (crop_height crop_app) (2 - y)) sample_frame)))
             = Some [[(10, 11, 12)]]"
    by code_simp
  have g: "export_crop sample_env crop_app (2, 2) 5 sample_frame = Some [[(10, 11, 12)]]"
    using preview_matches_export[where s = crop_app and cv = sample_env and idx = 5
        and width = 2 and height = 2 and res = sample_frame,
        THEN conjunct2, THEN conjunct2, THEN conjunct2, THEN conjunct2] inr cut by simp
  from ret1 ret2 a b c d e f g show ?thesis by blast
qed

end
